theory Spec2Isabelle
  imports Main "HOL-Library.List_Lexorder" "HOL-Library.Char_ord"
begin

text \<open>
  A shallow embedding of the data engine of the application: the permission helpers, the
  EAV value store and the instance helpers of models.py, the form processing of app.py
  and the attribute deletion of the entity designer. A table is the list of its rows,
  a function that writes takes the state of the database and returns the new one, and an
  exception is the left summand of the result.
\<close>

section \<open>Permission engine (models.py, helper functions)\<close>

text \<open>
  The tables \<open>users\<close>, \<open>user_roles\<close> and \<open>entity_permissions\<close> of models.py, each as
  the list of its rows in the order a query without ORDER BY returns them. Row fields
  carry a table prefix, since record fields share one name space; the four capability
  flags keep their names and are shared by an \<open>EntityPermission\<close> row and by the
  dictionary that \<open>get_user_permissions\<close> returns.
\<close>

record User =
  user_id :: int
  username :: string

record UserRole =
  ur_user_id :: int
  ur_role_id :: int

record crud_flags =
  can_read :: bool
  can_create :: bool
  can_update :: bool
  can_delete :: bool

record EntityPermission = crud_flags +
  ep_role_id :: int
  ep_entity_type_id :: int

record security_db =
  users :: "User list"
  user_roles :: "UserRole list"
  entity_permissions :: "EntityPermission list"

text \<open>\<open>User.query.get(user_id)\<close>: the row with that primary key, or None.\<close>

definition get_user :: "security_db \<Rightarrow> int \<Rightarrow> User option" where
  "get_user db uid = find (\<lambda>u. user_id u = uid) (users db)"

text \<open>\<open>[ur.role_id for ur in user.user_roles]\<close>.\<close>

definition user_role_ids :: "security_db \<Rightarrow> User \<Rightarrow> int list" where
  "user_role_ids db user =
     map ur_role_id (filter (\<lambda>ur. ur_user_id ur = user_id user) (user_roles db))"

text \<open>
  \<open>EntityPermission.query.filter(role_id.in_(user_role_ids), entity_type_id == e).all()\<close>.
\<close>

definition role_permissions :: "security_db \<Rightarrow> int list \<Rightarrow> int \<Rightarrow> EntityPermission list" where
  "role_permissions db role_ids etid =
     filter (\<lambda>p. ep_role_id p \<in> set role_ids \<and> ep_entity_type_id p = etid)
       (entity_permissions db)"

definition no_permissions :: crud_flags where
  "no_permissions =
     \<lparr>can_read = False, can_create = False, can_update = False, can_delete = False\<rparr>"

text \<open>The body of the loop \<open>for perm in permissions\<close> of \<open>get_user_permissions\<close>.\<close>

definition grant :: "crud_flags \<Rightarrow> EntityPermission \<Rightarrow> crud_flags" where
  "grant result perm =
     (let r1 = (if can_read perm then result\<lparr>can_read := True\<rparr> else result);
          r2 = (if can_create perm then r1\<lparr>can_create := True\<rparr> else r1);
          r3 = (if can_update perm then r2\<lparr>can_update := True\<rparr> else r2)
      in if can_delete perm then r3\<lparr>can_delete := True\<rparr> else r3)"

fun aggregate :: "crud_flags \<Rightarrow> EntityPermission list \<Rightarrow> crud_flags" where
  "aggregate result [] = result"
| "aggregate result (perm # perms) = aggregate (grant result perm) perms"

definition get_user_permissions :: "security_db \<Rightarrow> int \<Rightarrow> int \<Rightarrow> crud_flags" where
  "get_user_permissions db uid etid =
     (case get_user db uid of
        None \<Rightarrow> no_permissions
      | Some user \<Rightarrow>
          aggregate no_permissions (role_permissions db (user_role_ids db user) etid))"

text \<open>
  \<open>check_user_permissions\<close>: the loop returns True at the first permission row that
  grants the operation, and False after the last row.
\<close>

definition grants_operation :: "string \<Rightarrow> EntityPermission \<Rightarrow> bool" where
  "grants_operation operation permission =
     (if operation = ''READ'' \<and> can_read permission then True
      else if operation = ''CREATE'' \<and> can_create permission then True
      else if operation = ''UPDATE'' \<and> can_update permission then True
      else if operation = ''DELETE'' \<and> can_delete permission then True
      else False)"

fun check_loop :: "string \<Rightarrow> EntityPermission list \<Rightarrow> bool" where
  "check_loop operation [] = False"
| "check_loop operation (permission # permissions) =
     (if grants_operation operation permission then True
      else check_loop operation permissions)"

definition check_user_permissions :: "security_db \<Rightarrow> int \<Rightarrow> int \<Rightarrow> string \<Rightarrow> bool" where
  "check_user_permissions db uid etid operation =
     (case get_user db uid of
        None \<Rightarrow> False
      | Some user \<Rightarrow>
          check_loop operation (role_permissions db (user_role_ids db user) etid))"

text \<open>
  The permission rows of the roles assigned to a user for an entity type, as the
  specification names them: a row of \<open>entity_permissions\<close> for that entity type whose
  role some \<open>user_roles\<close> row assigns to the user.
\<close>

definition assigned_permission :: "security_db \<Rightarrow> int \<Rightarrow> int \<Rightarrow> EntityPermission \<Rightarrow> bool" where
  "assigned_permission db uid etid p =
     (p \<in> set (entity_permissions db) \<and> ep_entity_type_id p = etid \<and>
      (\<exists>ur \<in> set (user_roles db). ur_user_id ur = uid \<and> ur_role_id ur = ep_role_id p))"

section \<open>Python values and built-ins\<close>

text \<open>
  A string is the list of its code points, over the first 256 code points (a \<open>char\<close>
  is eight bits). \<open>str.strip\<close> removes the characters for which \<open>str.isspace\<close> holds
  from both ends; \<open>str.lower\<close> maps the upper-case letters of that range to their
  lower-case letters, 32 code points further on.
\<close>

definition py_isspace :: "char \<Rightarrow> bool" where
  "py_isspace c =
     (let n = (of_char c :: nat)
      in (9 \<le> n \<and> n \<le> 13) \<or> (28 \<le> n \<and> n \<le> 32) \<or> n = 133 \<or> n = 160)"

definition strip :: "string \<Rightarrow> string" where
  "strip s = rev (dropWhile py_isspace (rev (dropWhile py_isspace s)))"

definition lower_char :: "char \<Rightarrow> char" where
  "lower_char c =
     (let n = (of_char c :: nat)
      in if (65 \<le> n \<and> n \<le> 90) \<or> (192 \<le> n \<and> n \<le> 222 \<and> n \<noteq> 215)
         then char_of (n + 32) else c)"

definition lower :: "string \<Rightarrow> string" where
  "lower s = map lower_char s"

text \<open>
  The values that reach the EAV store: None, a string, an integer, a boolean, a number
  and a datetime. Numbers and datetimes are kept abstract: \<open>'n\<close> is the number as the
  numeric column holds it and \<open>'d\<close> the datetime, and what Python's built-ins compute
  on them is a parameter of the model, a record of functions in which None stands for
  the ValueError (OverflowError for \<open>num_of_int\<close>) that the built-in raises.
\<close>

datatype ('n, 'd) pyval =
  PNone | PStr string | PInt int | PBool bool | PNum 'n | PDatetime 'd

datatype error =
  ValueError string | TypeError string | OverflowError string | StatementError string

record ('n, 'd) builtins =
  int_of_str :: "string \<Rightarrow> int option"
  num_of_str :: "string \<Rightarrow> 'n option"
  num_of_int :: "int \<Rightarrow> 'n option"
  num_is_zero :: "'n \<Rightarrow> bool"
  str_of_num :: "'n \<Rightarrow> string"
  str_of_datetime :: "'d \<Rightarrow> string"
  strptime :: "string \<Rightarrow> string \<Rightarrow> 'd option"

function str_of_nat :: "nat \<Rightarrow> string" where
  "str_of_nat n =
     (if n < 10 then [char_of (48 + n)]
      else str_of_nat (n div 10) @ [char_of (48 + n mod 10)])"
  by pat_completeness auto
termination
  by (relation "measure id") auto

definition str_of_int :: "int \<Rightarrow> string" where
  "str_of_int i = (if i < 0 then CHR ''-'' # str_of_nat (nat (- i)) else str_of_nat (nat i))"

text \<open>\<open>str(value)\<close>, \<open>bool(value)\<close> and \<open>float(value)\<close>.\<close>

fun py_str :: "('n, 'd) builtins \<Rightarrow> ('n, 'd) pyval \<Rightarrow> string" where
  "py_str bi PNone = ''None''"
| "py_str bi (PStr s) = s"
| "py_str bi (PInt i) = str_of_int i"
| "py_str bi (PBool b) = (if b then ''True'' else ''False'')"
| "py_str bi (PNum x) = str_of_num bi x"
| "py_str bi (PDatetime d) = str_of_datetime bi d"

fun py_bool :: "('n, 'd) builtins \<Rightarrow> ('n, 'd) pyval \<Rightarrow> bool" where
  "py_bool bi PNone = False"
| "py_bool bi (PStr s) = (s \<noteq> [])"
| "py_bool bi (PInt i) = (i \<noteq> 0)"
| "py_bool bi (PBool b) = b"
| "py_bool bi (PNum x) = (\<not> num_is_zero bi x)"
| "py_bool bi (PDatetime d) = True"

fun py_float :: "('n, 'd) builtins \<Rightarrow> ('n, 'd) pyval \<Rightarrow> error + 'n" where
  "py_float bi PNone = Inl (TypeError [])"
| "py_float bi (PStr s) =
     (case num_of_str bi s of None \<Rightarrow> Inl (ValueError []) | Some x \<Rightarrow> Inr x)"
| "py_float bi (PInt i) =
     (case num_of_int bi i of None \<Rightarrow> Inl (OverflowError []) | Some x \<Rightarrow> Inr x)"
| "py_float bi (PBool b) =
     (case num_of_int bi (if b then 1 else 0) of
        None \<Rightarrow> Inl (OverflowError []) | Some x \<Rightarrow> Inr x)"
| "py_float bi (PNum x) = Inr x"
| "py_float bi (PDatetime d) = Inl (TypeError [])"

text \<open>
  A dictionary with string keys, in insertion order: \<open>d[k] = v\<close> replaces the value of
  a key that is present, in place, and appends a new key.
\<close>

fun dict_set :: "(string \<times> 'v) list \<Rightarrow> string \<Rightarrow> 'v \<Rightarrow> (string \<times> 'v) list" where
  "dict_set [] k v = [(k, v)]"
| "dict_set ((k', v') # d) k v = (if k' = k then (k, v) # d else (k', v') # dict_set d k v)"

section \<open>Schema registry and EAV value store (models.py)\<close>

text \<open>
  \<open>DataTypeEnum.INT\<close> is written \<open>INTEGER\<close>: \<open>INT\<close> is taken by the notation for
  intersections. A table is the list of its rows; the columns that no modelled function
  reads (descriptions, ordering, timestamps) are left out. The application runs on
  SQLite without the foreign-key pragma (app.py), so a foreign key constrains nothing.
\<close>

datatype DataTypeEnum =
  VARCHAR | TEXT | INTEGER | BIGINT | DECIMAL | BOOLEAN | DATE | DATETIME | TIMESTAMP | JSON

record EntityType =
  et_id :: int
  et_code :: string
  et_is_active :: bool

record AttributeDefinition =
  ad_id :: int
  ad_entity_type_id :: int
  ad_code :: string
  ad_name :: string
  ad_data_type :: DataTypeEnum
  ad_is_required :: bool
  ad_is_unique :: bool
  ad_is_active :: bool

text \<open>
  A form field with the attribute definition that its relationship
  \<open>field.attribute_definition\<close> loads.
\<close>

record FormFieldConfiguration =
  ffc_attribute_definition_id :: int
  attribute_definition :: AttributeDefinition
  ffc_is_visible :: bool
  ffc_is_required :: bool

record EntityInstance =
  ei_id :: int
  ei_entity_type_id :: int
  ei_is_active :: bool
  ei_created_by :: string
  ei_updated_by :: "string option"

text \<open>
  The four value tables have the same columns; \<open>'v\<close> is the type of the value column.
\<close>

record 'v AttributeValue =
  av_entity_instance_id :: int
  av_attribute_definition_id :: int
  av_value :: 'v

record ('n, 'd) eav_db =
  entity_types :: "EntityType list"
  attribute_definitions :: "AttributeDefinition list"
  form_field_configurations :: "FormFieldConfiguration list"
  entity_instances :: "EntityInstance list"
  text_values :: "string AttributeValue list"
  numeric_values :: "'n AttributeValue list"
  datetime_values :: "'d AttributeValue list"
  boolean_values :: "bool AttributeValue list"

text \<open>
  \<open>AttributeDefinition.query.filter_by(entity_type_id=..., code=...).first()\<close> and
  \<open>self.text_values.filter_by(attribute_definition_id=...).first()\<close> (the relationship
  \<open>self.text_values\<close> holds the rows of the instance): the first matching row.
\<close>

definition find_attribute ::
  "('n, 'd) eav_db \<Rightarrow> int \<Rightarrow> string \<Rightarrow> AttributeDefinition option" where
  "find_attribute db etid code =
     find (\<lambda>a. ad_entity_type_id a = etid \<and> ad_code a = code) (attribute_definitions db)"

definition is_value_of :: "int \<Rightarrow> int \<Rightarrow> 'v AttributeValue \<Rightarrow> bool" where
  "is_value_of iid aid r =
     (av_entity_instance_id r = iid \<and> av_attribute_definition_id r = aid)"

definition first_value :: "'v AttributeValue list \<Rightarrow> int \<Rightarrow> int \<Rightarrow> 'v AttributeValue option" where
  "first_value rows iid aid = find (is_value_of iid aid) rows"

text \<open>\<open>EntityInstance.get_attribute_value\<close>.\<close>

definition get_attribute_value ::
  "('n, 'd) eav_db \<Rightarrow> EntityInstance \<Rightarrow> string \<Rightarrow> ('n, 'd) pyval" where
  "get_attribute_value db self attribute_code =
     (case find_attribute db (ei_entity_type_id self) attribute_code of
        None \<Rightarrow> PNone
      | Some attr_def \<Rightarrow>
          if ad_data_type attr_def \<in> set [VARCHAR, TEXT] then
            (case first_value (text_values db) (ei_id self) (ad_id attr_def) of
               None \<Rightarrow> PNone | Some value_obj \<Rightarrow> PStr (av_value value_obj))
          else if ad_data_type attr_def \<in> set [INTEGER, BIGINT, DECIMAL] then
            (case first_value (numeric_values db) (ei_id self) (ad_id attr_def) of
               None \<Rightarrow> PNone | Some value_obj \<Rightarrow> PNum (av_value value_obj))
          else if ad_data_type attr_def \<in> set [DATE, DATETIME, TIMESTAMP] then
            (case first_value (datetime_values db) (ei_id self) (ad_id attr_def) of
               None \<Rightarrow> PNone | Some value_obj \<Rightarrow> PDatetime (av_value value_obj))
          else if ad_data_type attr_def = BOOLEAN then
            (case first_value (boolean_values db) (ei_id self) (ad_id attr_def) of
               None \<Rightarrow> PNone | Some value_obj \<Rightarrow> PBool (av_value value_obj))
          else PNone)"

text \<open>
  The write to one value table, which \<open>set_attribute_value\<close> repeats for each of the
  four tables. \<open>v\<close> is None when the written value is None, and otherwise the coerced
  value or the error that the coercion raises. With a row present, a value replaces the
  row's value in place and None deletes the row; with no row, a value appends a new row
  and None does nothing. The coercion runs only where the source reaches it.
\<close>

fun update_first :: "('a \<Rightarrow> bool) \<Rightarrow> ('a \<Rightarrow> 'a) \<Rightarrow> 'a list \<Rightarrow> 'a list" where
  "update_first P f [] = []"
| "update_first P f (r # rs) = (if P r then f r # rs else r # update_first P f rs)"

fun delete_first :: "('a \<Rightarrow> bool) \<Rightarrow> 'a list \<Rightarrow> 'a list" where
  "delete_first P [] = []"
| "delete_first P (r # rs) = (if P r then rs else r # delete_first P rs)"

definition write_value ::
  "'v AttributeValue list \<Rightarrow> int \<Rightarrow> int \<Rightarrow> (error + 'v) option \<Rightarrow> error + 'v AttributeValue list" where
  "write_value rows iid aid v =
     (case first_value rows iid aid of
        Some existing \<Rightarrow>
          (case v of
             Some coerced \<Rightarrow>
               (case coerced of
                  Inl e \<Rightarrow> Inl e
                | Inr x \<Rightarrow> Inr (update_first (is_value_of iid aid) (\<lambda>r. r\<lparr>av_value := x\<rparr>) rows))
           | None \<Rightarrow> Inr (delete_first (is_value_of iid aid) rows))
      | None \<Rightarrow>
          (case v of
             Some coerced \<Rightarrow>
               (case coerced of
                  Inl e \<Rightarrow> Inl e
                | Inr x \<Rightarrow>
                    Inr (rows @ [\<lparr>av_entity_instance_id = iid,
                                  av_attribute_definition_id = aid, av_value = x\<rparr>]))
           | None \<Rightarrow> Inr rows))"

text \<open>\<open>value is not None\<close>, with the coercion of the branch.\<close>

definition coerced :: "(('n, 'd) pyval \<Rightarrow> error + 'v) \<Rightarrow> ('n, 'd) pyval \<Rightarrow> (error + 'v) option" where
  "coerced f v = (if v = PNone then None else Some (f v))"

text \<open>
  The datetime branch assigns the value as it is, and the DateTime column binds a
  datetime only: any other value is refused with a StatementError when the session is
  flushed, which the next query or the commit of the caller does, inside the caller's
  \<open>try\<close>. The model raises that error at the assignment.
\<close>

fun bind_datetime :: "('n, 'd) pyval \<Rightarrow> error + 'd" where
  "bind_datetime (PDatetime d) = Inr d"
| "bind_datetime v = Inl (StatementError [])"

text \<open>
  \<open>EntityInstance.set_attribute_value\<close>: the result is the returned boolean with the
  session's new state, or the exception of a failed coercion. An attribute of type JSON
  meets no branch and the function returns True.
\<close>

definition set_attribute_value ::
  "('n, 'd) builtins \<Rightarrow> ('n, 'd) eav_db \<Rightarrow> EntityInstance \<Rightarrow> string \<Rightarrow> ('n, 'd) pyval \<Rightarrow>
     error + (bool \<times> ('n, 'd) eav_db)" where
  "set_attribute_value bi db self attribute_code v =
     (case find_attribute db (ei_entity_type_id self) attribute_code of
        None \<Rightarrow> Inr (False, db)
      | Some attr_def \<Rightarrow>
          if ad_data_type attr_def \<in> set [VARCHAR, TEXT] then
            (case write_value (text_values db) (ei_id self) (ad_id attr_def)
                    (coerced (\<lambda>x. Inr (py_str bi x)) v) of
               Inl e \<Rightarrow> Inl e
             | Inr rows \<Rightarrow> Inr (True, db\<lparr>text_values := rows\<rparr>))
          else if ad_data_type attr_def \<in> set [INTEGER, BIGINT, DECIMAL] then
            (case write_value (numeric_values db) (ei_id self) (ad_id attr_def)
                    (coerced (py_float bi) v) of
               Inl e \<Rightarrow> Inl e
             | Inr rows \<Rightarrow> Inr (True, db\<lparr>numeric_values := rows\<rparr>))
          else if ad_data_type attr_def \<in> set [DATE, DATETIME, TIMESTAMP] then
            (case write_value (datetime_values db) (ei_id self) (ad_id attr_def)
                    (coerced bind_datetime v) of
               Inl e \<Rightarrow> Inl e
             | Inr rows \<Rightarrow> Inr (True, db\<lparr>datetime_values := rows\<rparr>))
          else if ad_data_type attr_def = BOOLEAN then
            (case write_value (boolean_values db) (ei_id self) (ad_id attr_def)
                    (coerced (\<lambda>x. Inr (py_bool bi x)) v) of
               Inl e \<Rightarrow> Inl e
             | Inr rows \<Rightarrow> Inr (True, db\<lparr>boolean_values := rows\<rparr>))
          else Inr (True, db))"

text \<open>
  The number of rows of the four value tables for a pair of instance and attribute; the
  unique constraint \<open>unique_instance_attribute\<close> that every value table declares on
  that pair; and the data model's rule that the rows of an attribute lie in the table
  of its data type only.
\<close>

definition pair_rows :: "'v AttributeValue list \<Rightarrow> int \<Rightarrow> int \<Rightarrow> nat" where
  "pair_rows rows iid aid = length (filter (is_value_of iid aid) rows)"

definition value_rows :: "('n, 'd) eav_db \<Rightarrow> int \<Rightarrow> int \<Rightarrow> nat" where
  "value_rows db iid aid =
     pair_rows (text_values db) iid aid + pair_rows (numeric_values db) iid aid +
     pair_rows (datetime_values db) iid aid + pair_rows (boolean_values db) iid aid"

definition unique_instance_attribute :: "'v AttributeValue list \<Rightarrow> bool" where
  "unique_instance_attribute rows =
     distinct (map (\<lambda>r. (av_entity_instance_id r, av_attribute_definition_id r)) rows)"

definition unique_constraints :: "('n, 'd) eav_db \<Rightarrow> bool" where
  "unique_constraints db =
     (unique_instance_attribute (text_values db) \<and>
      unique_instance_attribute (numeric_values db) \<and>
      unique_instance_attribute (datetime_values db) \<and>
      unique_instance_attribute (boolean_values db))"

definition attribute_rows :: "'v AttributeValue list \<Rightarrow> int \<Rightarrow> 'v AttributeValue list" where
  "attribute_rows rows aid = filter (\<lambda>r. av_attribute_definition_id r = aid) rows"

definition stored_by_data_type :: "('n, 'd) eav_db \<Rightarrow> bool" where
  "stored_by_data_type db =
     list_all
       (\<lambda>a. (ad_data_type a \<in> set [VARCHAR, TEXT] \<or>
               attribute_rows (text_values db) (ad_id a) = []) \<and>
             (ad_data_type a \<in> set [INTEGER, BIGINT, DECIMAL] \<or>
               attribute_rows (numeric_values db) (ad_id a) = []) \<and>
             (ad_data_type a \<in> set [DATE, DATETIME, TIMESTAMP] \<or>
               attribute_rows (datetime_values db) (ad_id a) = []) \<and>
             (ad_data_type a = BOOLEAN \<or>
               attribute_rows (boolean_values db) (ad_id a) = []))
       (attribute_definitions db)"

text \<open>
  The number of rows for a pair in the value table that the data type selects, which is
  the table that \<open>get_attribute_value\<close> and \<open>set_attribute_value\<close> use; JSON selects
  no table.
\<close>

definition type_rows :: "('n, 'd) eav_db \<Rightarrow> DataTypeEnum \<Rightarrow> int \<Rightarrow> int \<Rightarrow> nat" where
  "type_rows db data_type iid aid =
     (if data_type \<in> set [VARCHAR, TEXT] then pair_rows (text_values db) iid aid
      else if data_type \<in> set [INTEGER, BIGINT, DECIMAL] then pair_rows (numeric_values db) iid aid
      else if data_type \<in> set [DATE, DATETIME, TIMESTAMP]
      then pair_rows (datetime_values db) iid aid
      else if data_type = BOOLEAN then pair_rows (boolean_values db) iid aid
      else 0)"

text \<open>
  The rows of an attribute in each of the four value tables, whatever the instance and
  whatever the data type.
\<close>

definition stored_rows ::
  "('n, 'd) eav_db \<Rightarrow> int \<Rightarrow>
     string AttributeValue list \<times> 'n AttributeValue list \<times> 'd AttributeValue list \<times>
     bool AttributeValue list" where
  "stored_rows db aid =
     (attribute_rows (text_values db) aid, attribute_rows (numeric_values db) aid,
      attribute_rows (datetime_values db) aid, attribute_rows (boolean_values db) aid)"

section \<open>Entity instance manager (models.py, helper functions)\<close>

text \<open>
  The primary key that the flush gives a new \<open>entity_instances\<close> row: one more than
  the largest key in the table, 1 for an empty table.
\<close>

definition next_instance_id :: "('n, 'd) eav_db \<Rightarrow> int" where
  "next_instance_id db = fold (\<lambda>i m. max (ei_id i + 1) m) (entity_instances db) 1"

text \<open>\<open>created_by or 'system'\<close>: None and the empty string both give the default.\<close>

definition or_system :: "string option \<Rightarrow> string" where
  "or_system by = (case by of None \<Rightarrow> ''system'' | Some s \<Rightarrow> if s = [] then ''system'' else s)"

text \<open>
  The loop of \<open>create_entity_instance_with_attributes\<close> over the items of the
  dictionary: an entry whose value is None is skipped, the boolean that
  \<open>set_attribute_value\<close> returns is dropped, and an exception ends the loop.
\<close>

fun create_loop ::
  "('n, 'd) builtins \<Rightarrow> ('n, 'd) eav_db \<Rightarrow> EntityInstance \<Rightarrow> (string \<times> ('n, 'd) pyval) list \<Rightarrow>
     error + ('n, 'd) eav_db" where
  "create_loop bi db self [] = Inr db"
| "create_loop bi db self ((attr_code, v) # items) =
     (if v \<noteq> PNone then
        (case set_attribute_value bi db self attr_code v of
           Inl e \<Rightarrow> Inl e
         | Inr (ok, db') \<Rightarrow> create_loop bi db' self items)
      else create_loop bi db self items)"

text \<open>
  \<open>create_entity_instance_with_attributes\<close>: the result and the committed state. An
  exception rolls the session back, so the state is the one before the call, and is
  raised again.
\<close>

definition create_entity_instance_with_attributes ::
  "('n, 'd) builtins \<Rightarrow> ('n, 'd) eav_db \<Rightarrow> int \<Rightarrow> (string \<times> ('n, 'd) pyval) list \<Rightarrow> string option \<Rightarrow>
     (error + EntityInstance) \<times> ('n, 'd) eav_db" where
  "create_entity_instance_with_attributes bi db entity_type_id attribute_values created_by =
     (let instance = \<lparr>ei_id = next_instance_id db, ei_entity_type_id = entity_type_id,
                       ei_is_active = True, ei_created_by = or_system created_by,
                       ei_updated_by = None\<rparr>;
          db1 = db\<lparr>entity_instances := entity_instances db @ [instance]\<rparr>
      in case create_loop bi db1 instance attribute_values of
           Inl e \<Rightarrow> (Inl e, db)
         | Inr db2 \<Rightarrow> (Inr instance, db2))"

text \<open>
  The loop of \<open>update_entity_instance_attributes\<close>: every entry is written, None
  included.
\<close>

fun update_loop ::
  "('n, 'd) builtins \<Rightarrow> ('n, 'd) eav_db \<Rightarrow> EntityInstance \<Rightarrow> (string \<times> ('n, 'd) pyval) list \<Rightarrow>
     error + ('n, 'd) eav_db" where
  "update_loop bi db self [] = Inr db"
| "update_loop bi db self ((attr_code, v) # items) =
     (case set_attribute_value bi db self attr_code v of
        Inl e \<Rightarrow> Inl e
      | Inr (ok, db') \<Rightarrow> update_loop bi db' self items)"

text \<open>
  \<open>update_entity_instance_attributes\<close>: None for an unknown instance id; otherwise the
  instance with \<open>updated_by\<close> stamped, after the loop.
\<close>

definition update_entity_instance_attributes ::
  "('n, 'd) builtins \<Rightarrow> ('n, 'd) eav_db \<Rightarrow> int \<Rightarrow> (string \<times> ('n, 'd) pyval) list \<Rightarrow> string option \<Rightarrow>
     (error + EntityInstance option) \<times> ('n, 'd) eav_db" where
  "update_entity_instance_attributes bi db instance_id attribute_values updated_by =
     (case find (\<lambda>i. ei_id i = instance_id) (entity_instances db) of
        None \<Rightarrow> (Inr None, db)
      | Some found \<Rightarrow>
          (let instance = found\<lparr>ei_updated_by := Some (or_system updated_by)\<rparr>;
               db1 = db\<lparr>entity_instances :=
                        update_first (\<lambda>i. ei_id i = instance_id) (\<lambda>i. instance)
                          (entity_instances db)\<rparr>
           in case update_loop bi db1 instance attribute_values of
                Inl e \<Rightarrow> (Inl e, db)
              | Inr db2 \<Rightarrow> (Inr (Some instance), db2)))"

section \<open>Form data (app.py)\<close>

text \<open>
  \<open>request_form.get(field_name)\<close> is a partial map from field names to strings. The
  body of the loop of \<open>process_form_data\<close> for one field: \<open>continue\<close> leaves the
  dictionary as it is; a failed conversion is caught and either stores None (field not
  required) or raises the ValueError that names the attribute. \<open>empty_value\<close> is the
  test \<open>not value or value.strip() == ''\<close> of the loop, on its own.
\<close>

definition empty_value :: "string option \<Rightarrow> bool" where
  "empty_value value = (case value of None \<Rightarrow> True | Some v \<Rightarrow> v = [] \<or> strip v = [])"

definition field_required :: "FormFieldConfiguration \<Rightarrow> bool" where
  "field_required field = (ffc_is_required field \<or> ad_is_required (attribute_definition field))"

definition convert_value ::
  "('n, 'd) builtins \<Rightarrow> DataTypeEnum \<Rightarrow> string \<Rightarrow> ('n, 'd) pyval option" where
  "convert_value bi data_type v =
     (if data_type \<in> set [INTEGER, BIGINT] then map_option PInt (int_of_str bi v)
      else if data_type = DECIMAL then map_option PNum (num_of_str bi v)
      else if data_type = BOOLEAN then
        Some (PBool (lower v \<in> set [''true'', ''1'', ''yes'', ''on'']))
      else if data_type \<in> set [DATE, DATETIME] then
        (if CHR ''T'' \<in> set v
         then map_option PDatetime (strptime bi v ''%Y-%m-%dT%H:%M'')
         else map_option PDatetime (strptime bi v ''%Y-%m-%d''))
      else Some (PStr (strip v)))"

definition process_field ::
  "('n, 'd) builtins \<Rightarrow> (string \<rightharpoonup> string) \<Rightarrow> (string \<times> ('n, 'd) pyval) list \<Rightarrow>
     FormFieldConfiguration \<Rightarrow> error + (string \<times> ('n, 'd) pyval) list" where
  "process_field bi request_form attribute_values field =
     (let attr = attribute_definition field;
          field_name = ''attr_'' @ ad_code attr;
          value = request_form field_name
      in if \<not> ffc_is_visible field then Inr attribute_values
         else case value of
           None \<Rightarrow>
             (if \<not> field_required field
              then Inr (dict_set attribute_values (ad_code attr) PNone)
              else Inr attribute_values)
         | Some v \<Rightarrow>
             if v = [] \<or> strip v = [] then
               (if \<not> field_required field
                then Inr (dict_set attribute_values (ad_code attr) PNone)
                else Inr attribute_values)
             else
               (case convert_value bi (ad_data_type attr) v of
                  Some x \<Rightarrow> Inr (dict_set attribute_values (ad_code attr) x)
                | None \<Rightarrow>
                    if \<not> field_required field
                    then Inr (dict_set attribute_values (ad_code attr) PNone)
                    else Inl (ValueError (''Invalid value for '' @ ad_name attr @ '': '' @ v))))"

fun process_fields ::
  "('n, 'd) builtins \<Rightarrow> (string \<rightharpoonup> string) \<Rightarrow> (string \<times> ('n, 'd) pyval) list \<Rightarrow>
     FormFieldConfiguration list \<Rightarrow> error + (string \<times> ('n, 'd) pyval) list" where
  "process_fields bi request_form attribute_values [] = Inr attribute_values"
| "process_fields bi request_form attribute_values (field # form_fields) =
     (case process_field bi request_form attribute_values field of
        Inl e \<Rightarrow> Inl e
      | Inr attribute_values' \<Rightarrow> process_fields bi request_form attribute_values' form_fields)"

definition process_form_data ::
  "('n, 'd) builtins \<Rightarrow> FormFieldConfiguration list \<Rightarrow> (string \<rightharpoonup> string) \<Rightarrow>
     error + (string \<times> ('n, 'd) pyval) list" where
  "process_form_data bi form_fields request_form = process_fields bi request_form [] form_fields"

text \<open>
  The POST branches of \<open>entity_create\<close> and \<open>entity_edit\<close>: the form data is processed
  and handed to the instance manager; any exception is caught and flashed, with nothing
  written. The audit entry and the response are left out.
\<close>

definition entity_create ::
  "('n, 'd) builtins \<Rightarrow> ('n, 'd) eav_db \<Rightarrow> int \<Rightarrow> FormFieldConfiguration list \<Rightarrow>
     (string \<rightharpoonup> string) \<Rightarrow> string \<Rightarrow> (error + EntityInstance) \<times> ('n, 'd) eav_db" where
  "entity_create bi db entity_type_id form_fields request_form current_username =
     (case process_form_data bi form_fields request_form of
        Inl e \<Rightarrow> (Inl e, db)
      | Inr attribute_values \<Rightarrow>
          create_entity_instance_with_attributes bi db entity_type_id attribute_values
            (Some current_username))"

definition entity_edit ::
  "('n, 'd) builtins \<Rightarrow> ('n, 'd) eav_db \<Rightarrow> int \<Rightarrow> FormFieldConfiguration list \<Rightarrow>
     (string \<rightharpoonup> string) \<Rightarrow> string \<Rightarrow> (error + EntityInstance option) \<times> ('n, 'd) eav_db" where
  "entity_edit bi db instance_id form_fields request_form current_username =
     (case process_form_data bi form_fields request_form of
        Inl e \<Rightarrow> (Inl e, db)
      | Inr attribute_values \<Rightarrow>
          update_entity_instance_attributes bi db instance_id attribute_values
            (Some current_username))"

text \<open>
  The constraints that a submission relies on: \<open>attribute_definitions\<close> has its primary
  key \<open>id\<close>, and the form has one field for an attribute code (the unique constraints
  \<open>unique_field_per_form\<close> and \<open>unique_attribute_per_entity\<close>).
\<close>

definition form_constraints :: "('n, 'd) eav_db \<Rightarrow> FormFieldConfiguration list \<Rightarrow> bool" where
  "form_constraints db form_fields =
     (distinct (map ad_id (attribute_definitions db)) \<and>
      distinct (map (\<lambda>field. ad_code (attribute_definition field)) form_fields))"

section \<open>Lookup engine (models.py, get_dropdown_options)\<close>

text \<open>One entry of the option list: the dictionary with keys value, label, instance_id.\<close>

record ('n, 'd) dropdown_option =
  option_value :: "('n, 'd) pyval"
  option_label :: "('n, 'd) pyval"
  option_instance_id :: int

text \<open>
  \<open>AttributeDefinition.query.filter_by(entity_type_id=..., code=..., is_active=True).first()\<close>.
\<close>

definition find_active_attribute ::
  "('n, 'd) eav_db \<Rightarrow> int \<Rightarrow> string \<Rightarrow> AttributeDefinition option" where
  "find_active_attribute db etid code =
     find (\<lambda>a. ad_entity_type_id a = etid \<and> ad_code a = code \<and> ad_is_active a)
       (attribute_definitions db)"

text \<open>
  The display attribute: the source attribute, unless a display code is given (not
  None, not empty), differs from the source code and resolves to an active attribute.
\<close>

definition display_attribute ::
  "('n, 'd) eav_db \<Rightarrow> int \<Rightarrow> AttributeDefinition \<Rightarrow> string \<Rightarrow> string option \<Rightarrow>
     AttributeDefinition" where
  "display_attribute db etid source_attr source_attribute_code display_attribute_code =
     (case display_attribute_code of
        None \<Rightarrow> source_attr
      | Some dc \<Rightarrow>
          if dc \<noteq> [] \<and> dc \<noteq> source_attribute_code then
            (case find_active_attribute db etid dc of
               None \<Rightarrow> source_attr
             | Some display_attr \<Rightarrow> display_attr)
          else source_attr)"

text \<open>
  The loop over the instances, with the list \<open>options\<close> and the set \<open>seen_values\<close>
  as accumulators; \<open>display_value or source_value\<close> takes the source value when the
  display value is falsy.
\<close>

fun options_loop ::
  "('n, 'd) builtins \<Rightarrow> ('n, 'd) eav_db \<Rightarrow> string \<Rightarrow> string \<Rightarrow> bool \<Rightarrow>
     ('n, 'd) dropdown_option list \<Rightarrow> ('n, 'd) pyval set \<Rightarrow> EntityInstance list \<Rightarrow>
     ('n, 'd) dropdown_option list" where
  "options_loop bi db source_code display_code unique_only options seen_values [] = options"
| "options_loop bi db source_code display_code unique_only options seen_values
     (instance # instances) =
     (let source_value = get_attribute_value db instance source_code;
          display_value = get_attribute_value db instance display_code
      in if source_value \<noteq> PNone then
           (if unique_only \<and> source_value \<in> seen_values then
              options_loop bi db source_code display_code unique_only options seen_values
                instances
            else
              options_loop bi db source_code display_code unique_only
                (options @
                  [\<lparr>option_value = source_value,
                    option_label = (if py_bool bi display_value then display_value
                                    else source_value),
                    option_instance_id = ei_id instance\<rparr>])
                (insert source_value seen_values) instances)
         else
           options_loop bi db source_code display_code unique_only options seen_values
             instances)"

text \<open>\<open>EntityInstance.query.filter_by(entity_type_id=..., is_active=True).all()\<close>.\<close>

definition active_instances :: "('n, 'd) eav_db \<Rightarrow> int \<Rightarrow> EntityInstance list" where
  "active_instances db etid =
     filter (\<lambda>i. ei_entity_type_id i = etid \<and> ei_is_active i) (entity_instances db)"

text \<open>
  \<open>get_dropdown_options\<close>. \<open>list.sort\<close> with a key is stable, as \<open>sort_key\<close> is, and
  compares the keys \<open>str(label)\<close> as strings, code point by code point. No modelled
  step of the body raises, so the handler that returns the empty list has no branch.
\<close>

definition get_dropdown_options ::
  "('n, 'd) builtins \<Rightarrow> ('n, 'd) eav_db \<Rightarrow> int \<Rightarrow> string \<Rightarrow> string option \<Rightarrow> bool \<Rightarrow>
     ('n, 'd) dropdown_option list" where
  "get_dropdown_options bi db entity_type_id source_attribute_code display_attribute_code
     unique_only =
     (case find (\<lambda>t. et_id t = entity_type_id) (entity_types db) of
        None \<Rightarrow> []
      | Some entity_type \<Rightarrow>
          (case find_active_attribute db entity_type_id source_attribute_code of
             None \<Rightarrow> []
           | Some source_attr \<Rightarrow>
               (let display_attr =
                      display_attribute db entity_type_id source_attr source_attribute_code
                        display_attribute_code;
                    instances = active_instances db entity_type_id;
                    options =
                      options_loop bi db source_attribute_code (ad_code display_attr)
                        unique_only [] {} instances
                in sort_key (\<lambda>x. py_str bi (option_label x)) options)))"

section \<open>Entity designer (entity_designer/__init__.py, delete_attribute)\<close>

text \<open>
  The JSON responses of \<open>delete_attribute\<close>: 404 attribute not found, 400 with the
  number of data records, and 200 deleted. The number of records is counted in the text
  table for VARCHAR and TEXT, in the numeric table for INT, BIGINT and DECIMAL, and
  stays 0 for every other type.
\<close>

datatype response = Attribute_not_found | Cannot_delete nat | Attribute_deleted

definition count_values :: "'v AttributeValue list \<Rightarrow> int \<Rightarrow> nat" where
  "count_values rows attr_id =
     length (filter (\<lambda>r. av_attribute_definition_id r = attr_id) rows)"

definition instance_count :: "('n, 'd) eav_db \<Rightarrow> AttributeDefinition \<Rightarrow> int \<Rightarrow> nat" where
  "instance_count db attribute attr_id =
     (if ad_data_type attribute \<in> set [VARCHAR, TEXT] then count_values (text_values db) attr_id
      else if ad_data_type attribute \<in> set [INTEGER, BIGINT, DECIMAL]
      then count_values (numeric_values db) attr_id
      else 0)"

definition delete_attribute ::
  "('n, 'd) eav_db \<Rightarrow> int \<Rightarrow> int \<Rightarrow> response \<times> ('n, 'd) eav_db" where
  "delete_attribute db entity_id attr_id =
     (case find (\<lambda>a. ad_id a = attr_id \<and> ad_entity_type_id a = entity_id)
             (attribute_definitions db) of
        None \<Rightarrow> (Attribute_not_found, db)
      | Some attribute \<Rightarrow>
          if instance_count db attribute attr_id > 0
          then (Cannot_delete (instance_count db attribute attr_id), db)
          else
            (Attribute_deleted,
             db\<lparr>form_field_configurations :=
                   filter (\<lambda>f. ffc_attribute_definition_id f \<noteq> attr_id)
                     (form_field_configurations db),
                 attribute_definitions :=
                   delete_first (\<lambda>a. ad_id a = attr_id \<and> ad_entity_type_id a = entity_id)
                     (attribute_definitions db)\<rparr>))"

text \<open>
  The number of rows of the four value tables that reference an attribute: the
  dependents that the specification lets block its deletion.
\<close>

definition referencing_rows :: "('n, 'd) eav_db \<Rightarrow> int \<Rightarrow> nat" where
  "referencing_rows db attr_id =
     count_values (text_values db) attr_id + count_values (numeric_values db) attr_id +
     count_values (datetime_values db) attr_id + count_values (boolean_values db) attr_id"

section \<open>Sample data\<close>

text \<open>A user with two roles for entity type 7: role 10 grants nothing, role 11 grants
  reading only; role 12 has no permission row; user 2 has no role; user 9 does not exist.\<close>

definition sample_security :: security_db where
  "sample_security =
     \<lparr>users = [\<lparr>user_id = 1, username = ''ann''\<rparr>, \<lparr>user_id = 2, username = ''bob''\<rparr>],
      user_roles = [\<lparr>ur_user_id = 1, ur_role_id = 10\<rparr>, \<lparr>ur_user_id = 1, ur_role_id = 11\<rparr>,
                    \<lparr>ur_user_id = 1, ur_role_id = 12\<rparr>],
      entity_permissions =
        [\<lparr>can_read = False, can_create = False, can_update = False, can_delete = False,
          ep_role_id = 10, ep_entity_type_id = 7\<rparr>,
         \<lparr>can_read = True, can_create = False, can_update = False, can_delete = False,
          ep_role_id = 11, ep_entity_type_id = 7\<rparr>]\<rparr>"

text \<open>
  A stand-in for the built-ins, with integers for numbers and strings for datetimes; it
  parses no string, which is enough for the sample data below.
\<close>

definition sample_builtins :: "(int, string) builtins" where
  "sample_builtins =
     \<lparr>int_of_str = (\<lambda>s. None), num_of_str = (\<lambda>s. None), num_of_int = (\<lambda>i. Some i),
      num_is_zero = (\<lambda>x. x = 0), str_of_num = str_of_int, str_of_datetime = (\<lambda>d. d),
      strptime = (\<lambda>v fmt. None)\<rparr>"

text \<open>
  The entity type CARGO_MASTER (id 1) with a required unique name, an optional boolean
  flag and a JSON attribute, and no instance yet.
\<close>

definition cargo_name :: AttributeDefinition where
  "cargo_name =
     \<lparr>ad_id = 1, ad_entity_type_id = 1, ad_code = ''CARGO_NAME'', ad_name = ''Cargo Name'',
      ad_data_type = VARCHAR, ad_is_required = True, ad_is_unique = True, ad_is_active = True\<rparr>"

definition hazardous :: AttributeDefinition where
  "hazardous =
     \<lparr>ad_id = 2, ad_entity_type_id = 1, ad_code = ''HAZARDOUS'', ad_name = ''Hazardous'',
      ad_data_type = BOOLEAN, ad_is_required = False, ad_is_unique = False, ad_is_active = True\<rparr>"

definition details :: AttributeDefinition where
  "details =
     \<lparr>ad_id = 3, ad_entity_type_id = 1, ad_code = ''DETAILS'', ad_name = ''Details'',
      ad_data_type = JSON, ad_is_required = False, ad_is_unique = False, ad_is_active = True\<rparr>"

definition cargo_schema :: "(int, string) eav_db" where
  "cargo_schema =
     \<lparr>entity_types = [\<lparr>et_id = 1, et_code = ''CARGO_MASTER'', et_is_active = True\<rparr>],
      attribute_definitions = [cargo_name, hazardous, details],
      form_field_configurations = [],
      entity_instances = [],
      text_values = [],
      numeric_values = [],
      datetime_values = [],
      boolean_values = []\<rparr>"

definition cargo_instance :: "int \<Rightarrow> EntityInstance" where
  "cargo_instance i =
     \<lparr>ei_id = i, ei_entity_type_id = 1, ei_is_active = True, ei_created_by = ''system'',
      ei_updated_by = None\<rparr>"

text \<open>
  Three cargoes named Coal, Coal and Iron Ore, a fourth without a name, and the first
  flagged hazardous.
\<close>

definition cargo_db :: "(int, string) eav_db" where
  "cargo_db =
     cargo_schema
       \<lparr>entity_instances := [cargo_instance 1, cargo_instance 2, cargo_instance 3,
                              cargo_instance 4],
        text_values :=
          [\<lparr>av_entity_instance_id = 1, av_attribute_definition_id = 1, av_value = ''Coal''\<rparr>,
           \<lparr>av_entity_instance_id = 2, av_attribute_definition_id = 1, av_value = ''Coal''\<rparr>,
           \<lparr>av_entity_instance_id = 3, av_attribute_definition_id = 1, av_value = ''Iron Ore''\<rparr>],
        boolean_values :=
          [\<lparr>av_entity_instance_id = 1, av_attribute_definition_id = 2, av_value = True\<rparr>]\<rparr>"

text \<open>The create form of CARGO_MASTER: the name and the flag, both visible.\<close>

definition name_field :: FormFieldConfiguration where
  "name_field =
     \<lparr>ffc_attribute_definition_id = 1, attribute_definition = cargo_name,
      ffc_is_visible = True, ffc_is_required = True\<rparr>"

definition hazardous_field :: FormFieldConfiguration where
  "hazardous_field =
     \<lparr>ffc_attribute_definition_id = 2, attribute_definition = hazardous,
      ffc_is_visible = True, ffc_is_required = False\<rparr>"

text \<open>The states after one and after two cargoes named Coal have been created.\<close>

definition one_coal :: "(int, string) eav_db" where
  "one_coal =
     cargo_schema
       \<lparr>entity_instances := [cargo_instance 1],
        text_values :=
          [\<lparr>av_entity_instance_id = 1, av_attribute_definition_id = 1, av_value = ''Coal''\<rparr>]\<rparr>"

definition two_coal :: "(int, string) eav_db" where
  "two_coal =
     cargo_schema
       \<lparr>entity_instances := [cargo_instance 1, cargo_instance 2],
        text_values :=
          [\<lparr>av_entity_instance_id = 1, av_attribute_definition_id = 1, av_value = ''Coal''\<rparr>,
           \<lparr>av_entity_instance_id = 2, av_attribute_definition_id = 1, av_value = ''Coal''\<rparr>]\<rparr>"

text \<open>A required integer attribute and its form field.\<close>

definition quantity :: AttributeDefinition where
  "quantity =
     \<lparr>ad_id = 4, ad_entity_type_id = 1, ad_code = ''QTY'', ad_name = ''Quantity'',
      ad_data_type = INTEGER, ad_is_required = True, ad_is_unique = False, ad_is_active = True\<rparr>"

definition quantity_field :: FormFieldConfiguration where
  "quantity_field =
     \<lparr>ffc_attribute_definition_id = 4, attribute_definition = quantity,
      ffc_is_visible = True, ffc_is_required = True\<rparr>"

text \<open>
  The first cargo after the data type of HAZARDOUS was changed from VARCHAR to BOOLEAN:
  the text row written before the change is still there, beside the boolean row.
\<close>

definition stale_db :: "(int, string) eav_db" where
  "stale_db =
     cargo_schema
       \<lparr>entity_instances := [cargo_instance 1],
        text_values :=
          [\<lparr>av_entity_instance_id = 1, av_attribute_definition_id = 2, av_value = ''yes''\<rparr>],
        boolean_values :=
          [\<lparr>av_entity_instance_id = 1, av_attribute_definition_id = 2, av_value = True\<rparr>]\<rparr>"


text \<open>
  CARGO_MASTER with one more attribute, an optional arrival time of type TIMESTAMP, and
  its form field.
\<close>

definition arrival :: AttributeDefinition where
  "arrival =
     \<lparr>ad_id = 5, ad_entity_type_id = 1, ad_code = ''ARRIVAL'', ad_name = ''Arrival'',
      ad_data_type = TIMESTAMP, ad_is_required = False, ad_is_unique = False,
      ad_is_active = True\<rparr>"

definition arrival_field :: FormFieldConfiguration where
  "arrival_field =
     \<lparr>ffc_attribute_definition_id = 5, attribute_definition = arrival,
      ffc_is_visible = True, ffc_is_required = False\<rparr>"

definition arrival_schema :: "(int, string) eav_db" where
  "arrival_schema =
     cargo_schema\<lparr>attribute_definitions := [cargo_name, hazardous, details, arrival]\<rparr>"
section \<open>Unfolding the sample data\<close>

lemmas cargo_defs =
  cargo_db_def cargo_schema_def cargo_name_def hazardous_def details_def cargo_instance_def
  sample_builtins_def

section \<open>Permission engine: properties\<close>

lemma aggregate_can_read:
  "can_read (aggregate r ps) = (can_read r \<or> (\<exists>p \<in> set ps. can_read p))"
  by (induction ps arbitrary: r) (auto simp: grant_def Let_def)

lemma aggregate_can_create:
  "can_create (aggregate r ps) = (can_create r \<or> (\<exists>p \<in> set ps. can_create p))"
  by (induction ps arbitrary: r) (auto simp: grant_def Let_def)

lemma aggregate_can_update:
  "can_update (aggregate r ps) = (can_update r \<or> (\<exists>p \<in> set ps. can_update p))"
  by (induction ps arbitrary: r) (auto simp: grant_def Let_def)

lemma aggregate_can_delete:
  "can_delete (aggregate r ps) = (can_delete r \<or> (\<exists>p \<in> set ps. can_delete p))"
  by (induction ps arbitrary: r) (auto simp: grant_def Let_def)

lemma check_loop_iff:
  "check_loop operation ps = (\<exists>p \<in> set ps. grants_operation operation p)"
  by (induction ps) auto

lemma get_user_id:
  "get_user db uid = Some user \<Longrightarrow> user_id user = uid"
  by (auto simp: get_user_def find_Some_iff)

lemma get_user_None_iff:
  "get_user db uid = None \<longleftrightarrow> (\<forall>u \<in> set (users db). user_id u \<noteq> uid)"
  by (auto simp: get_user_def find_None_iff)

lemma role_permissions_iff:
  "get_user db uid = Some user \<Longrightarrow>
   p \<in> set (role_permissions db (user_role_ids db user) etid) \<longleftrightarrow> assigned_permission db uid etid p"
  by (force simp: role_permissions_def user_role_ids_def assigned_permission_def
      dest!: get_user_id)

lemma role_permissions_no_roles:
  "\<forall>ur \<in> set (user_roles db). ur_user_id ur \<noteq> user_id user \<Longrightarrow>
   role_permissions db (user_role_ids db user) etid = []"
  by (simp add: role_permissions_def user_role_ids_def filter_empty_conv)

lemma flags_of_assigned_rows:
  assumes "get_user db uid = Some user"
  shows "can_read (get_user_permissions db uid etid) =
           (\<exists>p. assigned_permission db uid etid p \<and> can_read p)"
    and "can_create (get_user_permissions db uid etid) =
           (\<exists>p. assigned_permission db uid etid p \<and> can_create p)"
    and "can_update (get_user_permissions db uid etid) =
           (\<exists>p. assigned_permission db uid etid p \<and> can_update p)"
    and "can_delete (get_user_permissions db uid etid) =
           (\<exists>p. assigned_permission db uid etid p \<and> can_delete p)"
proof -
  let ?ps = "role_permissions db (user_role_ids db user) etid"
  have mem: "\<And>p. p \<in> set ?ps \<longleftrightarrow> assigned_permission db uid etid p"
    using assms by (rule role_permissions_iff)
  have g: "get_user_permissions db uid etid = aggregate no_permissions ?ps"
    using assms by (simp add: get_user_permissions_def)
  show "can_read (get_user_permissions db uid etid) =
           (\<exists>p. assigned_permission db uid etid p \<and> can_read p)"
    unfolding g aggregate_can_read using mem by (auto simp: no_permissions_def)
  show "can_create (get_user_permissions db uid etid) =
           (\<exists>p. assigned_permission db uid etid p \<and> can_create p)"
    unfolding g aggregate_can_create using mem by (auto simp: no_permissions_def)
  show "can_update (get_user_permissions db uid etid) =
           (\<exists>p. assigned_permission db uid etid p \<and> can_update p)"
    unfolding g aggregate_can_update using mem by (auto simp: no_permissions_def)
  show "can_delete (get_user_permissions db uid etid) =
           (\<exists>p. assigned_permission db uid etid p \<and> can_delete p)"
    unfolding g aggregate_can_delete using mem by (auto simp: no_permissions_def)
qed

lemma check_of_assigned_rows:
  assumes "get_user db uid = Some user"
  shows "check_user_permissions db uid etid operation =
           (\<exists>p. assigned_permission db uid etid p \<and> grants_operation operation p)"
proof -
  let ?ps = "role_permissions db (user_role_ids db user) etid"
  have mem: "\<And>p. p \<in> set ?ps \<longleftrightarrow> assigned_permission db uid etid p"
    using assms by (rule role_permissions_iff)
  have "check_user_permissions db uid etid operation = check_loop operation ?ps"
    using assms by (simp add: check_user_permissions_def)
  then show ?thesis
    unfolding check_loop_iff using mem by auto
qed

text \<open>
  C4. For an existing user, \<open>get_user_permissions\<close> returns each of the four
  capability flags as the logical OR of that flag over the \<open>EntityPermission\<close> rows of
  the given entity type that belong to a role assigned to the user: a flag is True
  exactly when some such row grants it. A role without a permission row supplies no row
  to the disjunction, and one granting role among several is enough.
  \<open>check_user_permissions\<close> answers each of the four operations with the same flag.
\<close>

theorem get_user_permissions_is_or_over_roles:
  "get_user db uid = Some user \<Longrightarrow>
   (can_read (get_user_permissions db uid etid) =
      (\<exists>p. assigned_permission db uid etid p \<and> can_read p)) \<and>
   (can_create (get_user_permissions db uid etid) =
      (\<exists>p. assigned_permission db uid etid p \<and> can_create p)) \<and>
   (can_update (get_user_permissions db uid etid) =
      (\<exists>p. assigned_permission db uid etid p \<and> can_update p)) \<and>
   (can_delete (get_user_permissions db uid etid) =
      (\<exists>p. assigned_permission db uid etid p \<and> can_delete p)) \<and>
   check_user_permissions db uid etid ''READ'' = can_read (get_user_permissions db uid etid) \<and>
   check_user_permissions db uid etid ''CREATE'' = can_create (get_user_permissions db uid etid) \<and>
   check_user_permissions db uid etid ''UPDATE'' = can_update (get_user_permissions db uid etid) \<and>
   check_user_permissions db uid etid ''DELETE'' = can_delete (get_user_permissions db uid etid)"
  by (auto simp: flags_of_assigned_rows check_of_assigned_rows grants_operation_def)

theorem get_user_permissions_is_or_over_roles_witness:
  "get_user sample_security 1 = Some \<lparr>user_id = 1, username = ''ann''\<rparr> \<and>
   (\<exists>p. assigned_permission sample_security 1 7 p \<and> can_read p) \<and>
   (\<exists>p. assigned_permission sample_security 1 7 p \<and> \<not> can_read p) \<and>
   get_user_permissions sample_security 1 7 =
     \<lparr>can_read = True, can_create = False, can_update = False, can_delete = False\<rparr> \<and>
   check_user_permissions sample_security 1 7 ''READ'' \<and>
   \<not> check_user_permissions sample_security 1 7 ''CREATE''"
proof -
  have u: "get_user sample_security 1 = Some \<lparr>user_id = 1, username = ''ann''\<rparr>"
    by (simp add: get_user_def sample_security_def)
  have g: "get_user_permissions sample_security 1 7 =
     \<lparr>can_read = True, can_create = False, can_update = False, can_delete = False\<rparr>"
    by (simp add: get_user_permissions_def get_user_def sample_security_def
        role_permissions_def user_role_ids_def no_permissions_def grant_def)
  have n: "\<exists>p. assigned_permission sample_security 1 7 p \<and> \<not> can_read p"
    by (rule exI [of _ "\<lparr>can_read = False, can_create = False, can_update = False,
          can_delete = False, ep_role_id = 10, ep_entity_type_id = 7\<rparr>"])
       (simp add: assigned_permission_def sample_security_def)
  show ?thesis
    using u g n get_user_permissions_is_or_over_roles [OF u, of 7] by simp
qed

text \<open>
  C10. For a user id that no row of \<open>users\<close> carries, and for an existing user whom no
  \<open>user_roles\<close> row mentions, \<open>get_user_permissions\<close> returns the four flags False
  and \<open>check_user_permissions\<close> returns False for every operation. Both functions are
  total here: no branch of either raises.
\<close>

theorem no_user_or_no_roles_grants_nothing:
  assumes "(\<forall>u \<in> set (users db). user_id u \<noteq> uid) \<or>
           (\<forall>ur \<in> set (user_roles db). ur_user_id ur \<noteq> uid)"
  shows "get_user_permissions db uid etid =
           \<lparr>can_read = False, can_create = False, can_update = False, can_delete = False\<rparr> \<and>
         \<not> check_user_permissions db uid etid operation"
proof (cases "get_user db uid")
  case None
  then show ?thesis
    by (simp add: get_user_permissions_def check_user_permissions_def no_permissions_def)
next
  case (Some user)
  then have "user_id user = uid" and "user \<in> set (users db)"
    by (auto simp: get_user_def find_Some_iff)
  with assms have "\<forall>ur \<in> set (user_roles db). ur_user_id ur \<noteq> user_id user"
    by auto
  then have "role_permissions db (user_role_ids db user) etid = []"
    by (rule role_permissions_no_roles)
  with Some show ?thesis
    by (simp add: get_user_permissions_def check_user_permissions_def no_permissions_def)
qed

theorem no_user_or_no_roles_grants_nothing_witness:
  "get_user sample_security 9 = None \<and>
   get_user_permissions sample_security 9 7 =
     \<lparr>can_read = False, can_create = False, can_update = False, can_delete = False\<rparr> \<and>
   \<not> check_user_permissions sample_security 9 7 ''READ'' \<and>
   get_user sample_security 2 = Some \<lparr>user_id = 2, username = ''bob''\<rparr> \<and>
   user_role_ids sample_security \<lparr>user_id = 2, username = ''bob''\<rparr> = [] \<and>
   get_user_permissions sample_security 2 7 =
     \<lparr>can_read = False, can_create = False, can_update = False, can_delete = False\<rparr> \<and>
   \<not> check_user_permissions sample_security 2 7 ''READ''"
proof -
  have a: "\<forall>u \<in> set (users sample_security). user_id u \<noteq> 9"
    by (simp add: sample_security_def)
  have b: "\<forall>ur \<in> set (user_roles sample_security). ur_user_id ur \<noteq> 2"
    by (simp add: sample_security_def)
  have n: "get_user sample_security 9 = None"
    by (simp add: get_user_def sample_security_def)
  have u: "get_user sample_security 2 = Some \<lparr>user_id = 2, username = ''bob''\<rparr>"
    by (simp add: get_user_def sample_security_def)
  have r: "user_role_ids sample_security \<lparr>user_id = 2, username = ''bob''\<rparr> = []"
    by (simp add: user_role_ids_def sample_security_def)
  show ?thesis
    using a b n u r
      no_user_or_no_roles_grants_nothing [of sample_security 9 7 "''READ''"]
      no_user_or_no_roles_grants_nothing [of sample_security 2 7 "''READ''"]
    by simp
qed

section \<open>Value tables: the write to one table\<close>

lemma delete_first_none:
  "find P rows = None \<Longrightarrow> delete_first P rows = rows"
  by (induction rows) (auto split: if_splits)

lemma write_value_None:
  "write_value rows iid aid None = Inr (delete_first (is_value_of iid aid) rows)"
  by (simp add: write_value_def first_value_def delete_first_none split: option.splits)

lemma no_other_row:
  "unique_instance_attribute (r # rows) \<Longrightarrow> is_value_of iid aid r \<Longrightarrow> q \<in> set rows \<Longrightarrow>
   \<not> is_value_of iid aid q"
proof
  assume u: "unique_instance_attribute (r # rows)" and r: "is_value_of iid aid r"
    and q: "q \<in> set rows" and iq: "is_value_of iid aid q"
  let ?k = "\<lambda>r::'a AttributeValue. (av_entity_instance_id r, av_attribute_definition_id r)"
  have "?k r \<notin> set (map ?k rows)"
    using u by (simp add: unique_instance_attribute_def)
  moreover have "?k q \<in> set (map ?k rows)"
    using q by simp
  moreover have "?k q = ?k r"
    using r iq by (simp add: is_value_of_def)
  ultimately show False by simp
qed

lemma filter_delete_first_unique:
  "unique_instance_attribute rows \<Longrightarrow>
   filter (is_value_of iid aid) (delete_first (is_value_of iid aid) rows) = []"
proof (induction rows)
  case Nil
  show ?case by simp
next
  case (Cons r rows)
  show ?case
  proof (cases "is_value_of iid aid r")
    case True
    have "\<forall>q \<in> set rows. \<not> is_value_of iid aid q"
      using no_other_row [OF Cons.prems True] by blast
    then show ?thesis using True by (simp add: filter_empty_conv)
  next
    case False
    then show ?thesis
      using Cons by (simp add: unique_instance_attribute_def)
  qed
qed

lemma find_None_filter:
  "find P rows = None \<longleftrightarrow> filter P rows = []"
  by (auto simp: find_None_iff filter_empty_conv)

lemma filter_delete_first_other:
  "(\<And>r. Q r \<Longrightarrow> \<not> P r) \<Longrightarrow> filter Q (delete_first P rows) = filter Q rows"
  by (induction rows) auto

lemma find_update_first:
  "find P rows = Some e \<Longrightarrow> P (f e) \<Longrightarrow> find P (update_first P f rows) = Some (f e)"
  by (induction rows) (auto split: if_splits)

lemma find_update_first_other:
  "(\<And>r. Q r \<Longrightarrow> \<not> P r) \<Longrightarrow> (\<And>r. P r \<Longrightarrow> \<not> Q (f r)) \<Longrightarrow>
   find Q (update_first P f rows) = find Q rows"
  by (induction rows) auto

lemma find_append_new:
  "find P rows = None \<Longrightarrow> P r \<Longrightarrow> find P (rows @ [r]) = Some r"
  by (induction rows) (auto split: if_splits)

lemma find_append_other:
  "\<not> Q r \<Longrightarrow> find Q (rows @ [r]) = find Q rows"
  by (induction rows) auto

lemma find_delete_first_other:
  "(\<And>r. Q r \<Longrightarrow> \<not> P r) \<Longrightarrow> find Q (delete_first P rows) = find Q rows"
  by (induction rows) auto

text \<open>A written value is the value of the first row of the pair afterwards.\<close>

lemma first_value_write_value:
  "write_value rows iid aid (Some (Inr x)) = Inr rows' \<Longrightarrow>
   \<exists>r. first_value rows' iid aid = Some r \<and> av_value r = x"
proof (cases "first_value rows iid aid")
  case None
  assume "write_value rows iid aid (Some (Inr x)) = Inr rows'"
  with None have "rows' = rows @ [\<lparr>av_entity_instance_id = iid,
      av_attribute_definition_id = aid, av_value = x\<rparr>]"
    by (simp add: write_value_def)
  with None show ?thesis
    by (simp add: first_value_def find_append_new is_value_of_def)
next
  case (Some e)
  assume "write_value rows iid aid (Some (Inr x)) = Inr rows'"
  with Some have r: "rows' = update_first (is_value_of iid aid) (\<lambda>r. r\<lparr>av_value := x\<rparr>) rows"
    by (simp add: write_value_def)
  have "is_value_of iid aid e"
    using Some by (auto simp: first_value_def find_Some_iff)
  then have "is_value_of iid aid (e\<lparr>av_value := x\<rparr>)"
    by (simp add: is_value_of_def)
  with Some have "first_value rows' iid aid = Some (e\<lparr>av_value := x\<rparr>)"
    unfolding r first_value_def by (rule find_update_first)
  then show ?thesis by simp
qed

text \<open>A write to one pair leaves the first row of every other pair as it was.\<close>

lemma first_value_write_value_other:
  assumes "write_value rows iid aid v = Inr rows'" and "iid' \<noteq> iid \<or> aid' \<noteq> aid"
  shows "first_value rows' iid' aid' = first_value rows iid' aid'"
proof -
  have d: "\<And>r. is_value_of iid' aid' r \<Longrightarrow> \<not> is_value_of iid aid r"
    using assms(2) by (auto simp: is_value_of_def)
  have u: "\<And>x. first_value (update_first (is_value_of iid aid) (\<lambda>r. r\<lparr>av_value := x\<rparr>) rows) iid' aid' =
             first_value rows iid' aid'"
    unfolding first_value_def
    by (rule find_update_first_other) (use assms(2) in \<open>auto simp: is_value_of_def\<close>)
  have a: "\<And>x. first_value (rows @ [\<lparr>av_entity_instance_id = iid,
             av_attribute_definition_id = aid, av_value = x\<rparr>]) iid' aid' =
             first_value rows iid' aid'"
    unfolding first_value_def
    by (rule find_append_other) (use assms(2) in \<open>auto simp: is_value_of_def\<close>)
  have r: "first_value (delete_first (is_value_of iid aid) rows) iid' aid' =
             first_value rows iid' aid'"
    unfolding first_value_def using d by (rule find_delete_first_other)
  show ?thesis
    using assms(1) u a r
    by (auto simp: write_value_def split: option.splits sum.splits)
qed

section \<open>EAV value store: properties\<close>

text \<open>
  C9. For an attribute whose data type is JSON, \<open>set_attribute_value\<close> returns True
  and leaves every table as it was, whatever the value, and \<open>get_attribute_value\<close>
  returns None for that attribute, before the write and after it.
\<close>

theorem json_value_is_never_stored:
  "find_attribute db (ei_entity_type_id self) code = Some a \<Longrightarrow> ad_data_type a = JSON \<Longrightarrow>
   set_attribute_value bi db self code v = Inr (True, db) \<and>
   get_attribute_value db self code = PNone"
  by (simp add: set_attribute_value_def get_attribute_value_def)

theorem json_value_is_never_stored_witness:
  "find_attribute cargo_db (ei_entity_type_id (cargo_instance 1)) ''DETAILS'' = Some details \<and>
   ad_data_type details = JSON \<and>
   set_attribute_value sample_builtins cargo_db (cargo_instance 1) ''DETAILS'' (PStr ''{}'') =
     Inr (True, cargo_db) \<and>
   get_attribute_value cargo_db (cargo_instance 1) ''DETAILS'' = PNone"
proof -
  have f: "find_attribute cargo_db (ei_entity_type_id (cargo_instance 1)) ''DETAILS'' = Some details"
    by (simp add: find_attribute_def cargo_defs)
  have j: "ad_data_type details = JSON"
    by (simp add: details_def)
  show ?thesis
    using f j json_value_is_never_stored [OF f j, of sample_builtins "PStr ''{}''"] by simp
qed

lemma find_attribute_member:
  "find_attribute db etid code = Some a \<Longrightarrow> a \<in> set (attribute_definitions db)"
  by (auto simp: find_attribute_def find_Some_iff)

text \<open>
  A successful call of \<open>set_attribute_value\<close> for a known attribute writes to the
  table of the data type, and to no table for JSON.
\<close>

lemma set_attribute_value_text:
  assumes "set_attribute_value bi db self k v = Inr (ok, db')"
    and "find_attribute db (ei_entity_type_id self) k = Some a"
    and "ad_data_type a = VARCHAR \<or> ad_data_type a = TEXT"
  shows "\<exists>rows. write_value (text_values db) (ei_id self) (ad_id a)
                   (coerced (\<lambda>x. Inr (py_str bi x)) v) = Inr rows \<and>
                 db' = db\<lparr>text_values := rows\<rparr>"
  using assms by (auto simp: set_attribute_value_def split: sum.splits)

lemma set_attribute_value_numeric:
  assumes "set_attribute_value bi db self k v = Inr (ok, db')"
    and "find_attribute db (ei_entity_type_id self) k = Some a"
    and "ad_data_type a = INTEGER \<or> ad_data_type a = BIGINT \<or> ad_data_type a = DECIMAL"
  shows "\<exists>rows. write_value (numeric_values db) (ei_id self) (ad_id a)
                   (coerced (py_float bi) v) = Inr rows \<and>
                 db' = db\<lparr>numeric_values := rows\<rparr>"
  using assms by (auto simp: set_attribute_value_def split: sum.splits)

lemma set_attribute_value_datetime:
  assumes "set_attribute_value bi db self k v = Inr (ok, db')"
    and "find_attribute db (ei_entity_type_id self) k = Some a"
    and "ad_data_type a = DATE \<or> ad_data_type a = DATETIME \<or> ad_data_type a = TIMESTAMP"
  shows "\<exists>rows. write_value (datetime_values db) (ei_id self) (ad_id a)
                   (coerced bind_datetime v) = Inr rows \<and>
                 db' = db\<lparr>datetime_values := rows\<rparr>"
  using assms by (auto simp: set_attribute_value_def split: sum.splits)

lemma set_attribute_value_boolean:
  assumes "set_attribute_value bi db self k v = Inr (ok, db')"
    and "find_attribute db (ei_entity_type_id self) k = Some a"
    and "ad_data_type a = BOOLEAN"
  shows "\<exists>rows. write_value (boolean_values db) (ei_id self) (ad_id a)
                   (coerced (\<lambda>x. Inr (py_bool bi x)) v) = Inr rows \<and>
                 db' = db\<lparr>boolean_values := rows\<rparr>"
  using assms by (auto simp: set_attribute_value_def split: sum.splits)

lemma set_attribute_value_json:
  assumes "set_attribute_value bi db self k v = Inr (ok, db')"
    and "find_attribute db (ei_entity_type_id self) k = Some a"
    and "ad_data_type a = JSON"
  shows "db' = db"
  using assms by (simp add: set_attribute_value_def)

lemma no_attribute_rows_no_pair_rows:
  "attribute_rows rows aid = [] \<Longrightarrow> pair_rows rows iid aid = 0"
  by (auto simp: attribute_rows_def pair_rows_def filter_empty_conv is_value_of_def)

lemma pair_rows_delete_first:
  "unique_instance_attribute rows \<Longrightarrow>
   pair_rows (delete_first (is_value_of iid aid) rows) iid aid = 0"
  by (simp add: pair_rows_def filter_delete_first_unique)

lemma first_value_no_pair_rows:
  "pair_rows rows iid aid = 0 \<Longrightarrow> first_value rows iid aid = None"
  by (simp add: pair_rows_def first_value_def find_None_filter)

lemma delete_first_no_pair_rows:
  "pair_rows rows iid aid = 0 \<Longrightarrow> delete_first (is_value_of iid aid) rows = rows"
  by (simp add: pair_rows_def delete_first_none find_None_filter)

lemma stored_by_data_type_member:
  "stored_by_data_type db \<Longrightarrow> a \<in> set (attribute_definitions db) \<Longrightarrow>
    (ad_data_type a \<in> set [VARCHAR, TEXT] \<or> attribute_rows (text_values db) (ad_id a) = []) \<and>
    (ad_data_type a \<in> set [INTEGER, BIGINT, DECIMAL] \<or> attribute_rows (numeric_values db) (ad_id a) = []) \<and>
    (ad_data_type a \<in> set [DATE, DATETIME, TIMESTAMP] \<or> attribute_rows (datetime_values db) (ad_id a) = []) \<and>
    (ad_data_type a = BOOLEAN \<or> attribute_rows (boolean_values db) (ad_id a) = [])"
  unfolding stored_by_data_type_def list_all_iff by blast

lemma keys_update_first:
  "map (\<lambda>r. (av_entity_instance_id r, av_attribute_definition_id r))
     (update_first P (\<lambda>r. r\<lparr>av_value := x\<rparr>) rows) =
   map (\<lambda>r. (av_entity_instance_id r, av_attribute_definition_id r)) rows"
  by (induction rows) auto

lemma set_delete_first: "set (delete_first P rows) \<subseteq> set rows"
  by (induction rows) auto

lemma distinct_keys_delete_first:
  "distinct (map k rows) \<Longrightarrow> distinct (map k (delete_first P rows))"
proof (induction rows)
  case Nil
  show ?case by simp
next
  case (Cons r rows)
  have "k r \<notin> k ` set (delete_first P rows)"
    using Cons.prems set_delete_first [of P rows] by auto
  then show ?case using Cons by simp
qed

lemma write_value_keeps_unique:
  assumes u: "unique_instance_attribute rows" and w: "write_value rows iid aid v = Inr rows'"
  shows "unique_instance_attribute rows'"
proof (cases "first_value rows iid aid")
  case None
  then have n: "(iid, aid) \<notin> (\<lambda>r. (av_entity_instance_id r, av_attribute_definition_id r)) ` set rows"
    by (auto simp: first_value_def find_None_iff is_value_of_def)
  show ?thesis
    using u w None n
    by (auto simp: write_value_def unique_instance_attribute_def split: option.splits sum.splits)
next
  case (Some e)
  show ?thesis
    using u w Some
    by (auto simp: write_value_def unique_instance_attribute_def keys_update_first
        distinct_keys_delete_first split: option.splits sum.splits)
qed

text \<open>\<open>set_attribute_value\<close> keeps the unique constraints of the value tables.\<close>

lemma set_attribute_value_keeps_unique:
  assumes u: "unique_constraints db"
    and s: "set_attribute_value bi db self code v = Inr (ok, db')"
  shows "unique_constraints db'"
proof (cases "find_attribute db (ei_entity_type_id self) code")
  case None
  with s u show ?thesis by (simp add: set_attribute_value_def)
next
  case (Some a)
  show ?thesis
  proof (cases "ad_data_type a")
    case VARCHAR
    with s u Some show ?thesis
      by (auto simp: set_attribute_value_def unique_constraints_def split: sum.splits
          dest: write_value_keeps_unique)
  next
    case TEXT
    with s u Some show ?thesis
      by (auto simp: set_attribute_value_def unique_constraints_def split: sum.splits
          dest: write_value_keeps_unique)
  next
    case INTEGER
    with s u Some show ?thesis
      by (auto simp: set_attribute_value_def unique_constraints_def split: sum.splits
          dest: write_value_keeps_unique)
  next
    case BIGINT
    with s u Some show ?thesis
      by (auto simp: set_attribute_value_def unique_constraints_def split: sum.splits
          dest: write_value_keeps_unique)
  next
    case DECIMAL
    with s u Some show ?thesis
      by (auto simp: set_attribute_value_def unique_constraints_def split: sum.splits
          dest: write_value_keeps_unique)
  next
    case BOOLEAN
    with s u Some show ?thesis
      by (auto simp: set_attribute_value_def unique_constraints_def split: sum.splits
          dest: write_value_keeps_unique)
  next
    case DATE
    with s u Some show ?thesis
      by (auto simp: set_attribute_value_def unique_constraints_def split: sum.splits
          dest: write_value_keeps_unique)
  next
    case DATETIME
    with s u Some show ?thesis
      by (auto simp: set_attribute_value_def unique_constraints_def split: sum.splits
          dest: write_value_keeps_unique)
  next
    case TIMESTAMP
    with s u Some show ?thesis
      by (auto simp: set_attribute_value_def unique_constraints_def split: sum.splits
          dest: write_value_keeps_unique)
  next
    case JSON
    with s u Some show ?thesis
      by (simp add: set_attribute_value_def)
  qed
qed


lemma filter_update_first_other:
  "(\<And>r. Q r \<Longrightarrow> \<not> P r) \<Longrightarrow> (\<And>r. P r \<Longrightarrow> \<not> Q (f r)) \<Longrightarrow>
   filter Q (update_first P f rows) = filter Q rows"
  by (induction rows) auto

lemma write_value_attribute_rows_other:
  assumes w: "write_value rows iid aid v = Inr rows'" and d: "aid' \<noteq> aid"
  shows "attribute_rows rows' aid' = attribute_rows rows aid'"
proof -
  let ?Q = "\<lambda>r::'a AttributeValue. av_attribute_definition_id r = aid'"
  have q: "\<And>r. ?Q r \<Longrightarrow> \<not> is_value_of iid aid r"
    using d by (simp add: is_value_of_def)
  have u: "\<And>x. filter ?Q (update_first (is_value_of iid aid) (\<lambda>r. r\<lparr>av_value := x\<rparr>) rows) =
             filter ?Q rows"
    by (rule filter_update_first_other) (use d in \<open>auto simp: is_value_of_def\<close>)
  have r: "filter ?Q (delete_first (is_value_of iid aid) rows) = filter ?Q rows"
    using q by (rule filter_delete_first_other)
  show ?thesis
    using w u r d
    by (auto simp: write_value_def attribute_rows_def split: option.splits sum.splits)
qed

lemma distinct_ids_same:
  "distinct (map ad_id xs) \<Longrightarrow> a \<in> set xs \<Longrightarrow> a' \<in> set xs \<Longrightarrow> ad_id a' = ad_id a \<Longrightarrow>
   a' = a"
  by (auto simp: distinct_map inj_on_def)

lemma stored_by_data_type_text_write:
  assumes t: "stored_by_data_type db"
    and k: "distinct (map ad_id (attribute_definitions db))"
    and m: "a \<in> set (attribute_definitions db)"
    and x: "ad_data_type a \<in> set [VARCHAR, TEXT]"
    and w: "write_value (text_values db) iid (ad_id a) v = Inr rows'"
  shows "stored_by_data_type (db\<lparr>text_values := rows'\<rparr>)"
  unfolding stored_by_data_type_def list_all_iff
proof
  fix a'
  assume "a' \<in> set (attribute_definitions (db\<lparr>text_values := rows'\<rparr>))"
  then have m': "a' \<in> set (attribute_definitions db)" by simp
  note p = stored_by_data_type_member [OF t m']
  show "(ad_data_type a' \<in> set [VARCHAR, TEXT] \<or>
           attribute_rows (text_values (db\<lparr>text_values := rows'\<rparr>)) (ad_id a') = []) \<and>
        (ad_data_type a' \<in> set [INTEGER, BIGINT, DECIMAL] \<or>
           attribute_rows (numeric_values (db\<lparr>text_values := rows'\<rparr>)) (ad_id a') = []) \<and>
        (ad_data_type a' \<in> set [DATE, DATETIME, TIMESTAMP] \<or>
           attribute_rows (datetime_values (db\<lparr>text_values := rows'\<rparr>)) (ad_id a') = []) \<and>
        (ad_data_type a' = BOOLEAN \<or>
           attribute_rows (boolean_values (db\<lparr>text_values := rows'\<rparr>)) (ad_id a') = [])"
  proof (cases "ad_id a' = ad_id a")
    case True
    then have "a' = a" using k m m' by (rule distinct_ids_same [rotated 3])
    then show ?thesis using p x by simp
  next
    case False
    have "attribute_rows rows' (ad_id a') = attribute_rows (text_values db) (ad_id a')"
      using w False by (rule write_value_attribute_rows_other)
    then show ?thesis using p by simp
  qed
qed

lemma stored_by_data_type_numeric_write:
  assumes t: "stored_by_data_type db"
    and k: "distinct (map ad_id (attribute_definitions db))"
    and m: "a \<in> set (attribute_definitions db)"
    and x: "ad_data_type a \<in> set [INTEGER, BIGINT, DECIMAL]"
    and w: "write_value (numeric_values db) iid (ad_id a) v = Inr rows'"
  shows "stored_by_data_type (db\<lparr>numeric_values := rows'\<rparr>)"
  unfolding stored_by_data_type_def list_all_iff
proof
  fix a'
  assume "a' \<in> set (attribute_definitions (db\<lparr>numeric_values := rows'\<rparr>))"
  then have m': "a' \<in> set (attribute_definitions db)" by simp
  note p = stored_by_data_type_member [OF t m']
  show "(ad_data_type a' \<in> set [VARCHAR, TEXT] \<or>
           attribute_rows (text_values (db\<lparr>numeric_values := rows'\<rparr>)) (ad_id a') = []) \<and>
        (ad_data_type a' \<in> set [INTEGER, BIGINT, DECIMAL] \<or>
           attribute_rows (numeric_values (db\<lparr>numeric_values := rows'\<rparr>)) (ad_id a') = []) \<and>
        (ad_data_type a' \<in> set [DATE, DATETIME, TIMESTAMP] \<or>
           attribute_rows (datetime_values (db\<lparr>numeric_values := rows'\<rparr>)) (ad_id a') = []) \<and>
        (ad_data_type a' = BOOLEAN \<or>
           attribute_rows (boolean_values (db\<lparr>numeric_values := rows'\<rparr>)) (ad_id a') = [])"
  proof (cases "ad_id a' = ad_id a")
    case True
    then have "a' = a" using k m m' by (rule distinct_ids_same [rotated 3])
    then show ?thesis using p x by simp
  next
    case False
    have "attribute_rows rows' (ad_id a') = attribute_rows (numeric_values db) (ad_id a')"
      using w False by (rule write_value_attribute_rows_other)
    then show ?thesis using p by simp
  qed
qed

lemma stored_by_data_type_datetime_write:
  assumes t: "stored_by_data_type db"
    and k: "distinct (map ad_id (attribute_definitions db))"
    and m: "a \<in> set (attribute_definitions db)"
    and x: "ad_data_type a \<in> set [DATE, DATETIME, TIMESTAMP]"
    and w: "write_value (datetime_values db) iid (ad_id a) v = Inr rows'"
  shows "stored_by_data_type (db\<lparr>datetime_values := rows'\<rparr>)"
  unfolding stored_by_data_type_def list_all_iff
proof
  fix a'
  assume "a' \<in> set (attribute_definitions (db\<lparr>datetime_values := rows'\<rparr>))"
  then have m': "a' \<in> set (attribute_definitions db)" by simp
  note p = stored_by_data_type_member [OF t m']
  show "(ad_data_type a' \<in> set [VARCHAR, TEXT] \<or>
           attribute_rows (text_values (db\<lparr>datetime_values := rows'\<rparr>)) (ad_id a') = []) \<and>
        (ad_data_type a' \<in> set [INTEGER, BIGINT, DECIMAL] \<or>
           attribute_rows (numeric_values (db\<lparr>datetime_values := rows'\<rparr>)) (ad_id a') = []) \<and>
        (ad_data_type a' \<in> set [DATE, DATETIME, TIMESTAMP] \<or>
           attribute_rows (datetime_values (db\<lparr>datetime_values := rows'\<rparr>)) (ad_id a') = []) \<and>
        (ad_data_type a' = BOOLEAN \<or>
           attribute_rows (boolean_values (db\<lparr>datetime_values := rows'\<rparr>)) (ad_id a') = [])"
  proof (cases "ad_id a' = ad_id a")
    case True
    then have "a' = a" using k m m' by (rule distinct_ids_same [rotated 3])
    then show ?thesis using p x by simp
  next
    case False
    have "attribute_rows rows' (ad_id a') = attribute_rows (datetime_values db) (ad_id a')"
      using w False by (rule write_value_attribute_rows_other)
    then show ?thesis using p by simp
  qed
qed

lemma stored_by_data_type_boolean_write:
  assumes t: "stored_by_data_type db"
    and k: "distinct (map ad_id (attribute_definitions db))"
    and m: "a \<in> set (attribute_definitions db)"
    and x: "ad_data_type a = BOOLEAN"
    and w: "write_value (boolean_values db) iid (ad_id a) v = Inr rows'"
  shows "stored_by_data_type (db\<lparr>boolean_values := rows'\<rparr>)"
  unfolding stored_by_data_type_def list_all_iff
proof
  fix a'
  assume "a' \<in> set (attribute_definitions (db\<lparr>boolean_values := rows'\<rparr>))"
  then have m': "a' \<in> set (attribute_definitions db)" by simp
  note p = stored_by_data_type_member [OF t m']
  show "(ad_data_type a' \<in> set [VARCHAR, TEXT] \<or>
           attribute_rows (text_values (db\<lparr>boolean_values := rows'\<rparr>)) (ad_id a') = []) \<and>
        (ad_data_type a' \<in> set [INTEGER, BIGINT, DECIMAL] \<or>
           attribute_rows (numeric_values (db\<lparr>boolean_values := rows'\<rparr>)) (ad_id a') = []) \<and>
        (ad_data_type a' \<in> set [DATE, DATETIME, TIMESTAMP] \<or>
           attribute_rows (datetime_values (db\<lparr>boolean_values := rows'\<rparr>)) (ad_id a') = []) \<and>
        (ad_data_type a' = BOOLEAN \<or>
           attribute_rows (boolean_values (db\<lparr>boolean_values := rows'\<rparr>)) (ad_id a') = [])"
  proof (cases "ad_id a' = ad_id a")
    case True
    then have "a' = a" using k m m' by (rule distinct_ids_same [rotated 3])
    then show ?thesis using p x by simp
  next
    case False
    have "attribute_rows rows' (ad_id a') = attribute_rows (boolean_values db) (ad_id a')"
      using w False by (rule write_value_attribute_rows_other)
    then show ?thesis using p by simp
  qed
qed

text \<open>
  \<open>set_attribute_value\<close> routes by data type, so it keeps the rows of every attribute
  in the table of its data type, the primary keys of the attribute definitions being
  distinct.
\<close>

lemma set_attribute_value_keeps_stored_by_data_type:
  assumes t: "stored_by_data_type db"
    and k: "distinct (map ad_id (attribute_definitions db))"
    and s: "set_attribute_value bi db self code v = Inr (ok, db')"
  shows "stored_by_data_type db'"
proof (cases "find_attribute db (ei_entity_type_id self) code")
  case None
  with s t show ?thesis by (simp add: set_attribute_value_def)
next
  case (Some a)
  then have m: "a \<in> set (attribute_definitions db)"
    by (rule find_attribute_member)
  show ?thesis
  proof (cases "ad_data_type a")
    case VARCHAR
    then have x: "ad_data_type a \<in> set [VARCHAR, TEXT]" by simp
    from s Some VARCHAR obtain rows' where
      w: "write_value (text_values db) (ei_id self) (ad_id a) (coerced (\<lambda>x. Inr (py_str bi x)) v) = Inr rows'"
      and d: "db' = db\<lparr>text_values := rows'\<rparr>"
      by (auto simp: set_attribute_value_def split: sum.splits)
    show ?thesis unfolding d using t k m x w by (rule stored_by_data_type_text_write)
  next
    case TEXT
    then have x: "ad_data_type a \<in> set [VARCHAR, TEXT]" by simp
    from s Some TEXT obtain rows' where
      w: "write_value (text_values db) (ei_id self) (ad_id a) (coerced (\<lambda>x. Inr (py_str bi x)) v) = Inr rows'"
      and d: "db' = db\<lparr>text_values := rows'\<rparr>"
      by (auto simp: set_attribute_value_def split: sum.splits)
    show ?thesis unfolding d using t k m x w by (rule stored_by_data_type_text_write)
  next
    case INTEGER
    then have x: "ad_data_type a \<in> set [INTEGER, BIGINT, DECIMAL]" by simp
    from s Some INTEGER obtain rows' where
      w: "write_value (numeric_values db) (ei_id self) (ad_id a) (coerced (py_float bi) v) = Inr rows'"
      and d: "db' = db\<lparr>numeric_values := rows'\<rparr>"
      by (auto simp: set_attribute_value_def split: sum.splits)
    show ?thesis unfolding d using t k m x w by (rule stored_by_data_type_numeric_write)
  next
    case BIGINT
    then have x: "ad_data_type a \<in> set [INTEGER, BIGINT, DECIMAL]" by simp
    from s Some BIGINT obtain rows' where
      w: "write_value (numeric_values db) (ei_id self) (ad_id a) (coerced (py_float bi) v) = Inr rows'"
      and d: "db' = db\<lparr>numeric_values := rows'\<rparr>"
      by (auto simp: set_attribute_value_def split: sum.splits)
    show ?thesis unfolding d using t k m x w by (rule stored_by_data_type_numeric_write)
  next
    case DECIMAL
    then have x: "ad_data_type a \<in> set [INTEGER, BIGINT, DECIMAL]" by simp
    from s Some DECIMAL obtain rows' where
      w: "write_value (numeric_values db) (ei_id self) (ad_id a) (coerced (py_float bi) v) = Inr rows'"
      and d: "db' = db\<lparr>numeric_values := rows'\<rparr>"
      by (auto simp: set_attribute_value_def split: sum.splits)
    show ?thesis unfolding d using t k m x w by (rule stored_by_data_type_numeric_write)
  next
    case BOOLEAN
    then have x: "ad_data_type a = BOOLEAN" by simp
    from s Some BOOLEAN obtain rows' where
      w: "write_value (boolean_values db) (ei_id self) (ad_id a) (coerced (\<lambda>x. Inr (py_bool bi x)) v) = Inr rows'"
      and d: "db' = db\<lparr>boolean_values := rows'\<rparr>"
      by (auto simp: set_attribute_value_def split: sum.splits)
    show ?thesis unfolding d using t k m x w by (rule stored_by_data_type_boolean_write)
  next
    case DATE
    then have x: "ad_data_type a \<in> set [DATE, DATETIME, TIMESTAMP]" by simp
    from s Some DATE obtain rows' where
      w: "write_value (datetime_values db) (ei_id self) (ad_id a) (coerced bind_datetime v) = Inr rows'"
      and d: "db' = db\<lparr>datetime_values := rows'\<rparr>"
      by (auto simp: set_attribute_value_def split: sum.splits)
    show ?thesis unfolding d using t k m x w by (rule stored_by_data_type_datetime_write)
  next
    case DATETIME
    then have x: "ad_data_type a \<in> set [DATE, DATETIME, TIMESTAMP]" by simp
    from s Some DATETIME obtain rows' where
      w: "write_value (datetime_values db) (ei_id self) (ad_id a) (coerced bind_datetime v) = Inr rows'"
      and d: "db' = db\<lparr>datetime_values := rows'\<rparr>"
      by (auto simp: set_attribute_value_def split: sum.splits)
    show ?thesis unfolding d using t k m x w by (rule stored_by_data_type_datetime_write)
  next
    case TIMESTAMP
    then have x: "ad_data_type a \<in> set [DATE, DATETIME, TIMESTAMP]" by simp
    from s Some TIMESTAMP obtain rows' where
      w: "write_value (datetime_values db) (ei_id self) (ad_id a) (coerced bind_datetime v) = Inr rows'"
      and d: "db' = db\<lparr>datetime_values := rows'\<rparr>"
      by (auto simp: set_attribute_value_def split: sum.splits)
    show ?thesis unfolding d using t k m x w by (rule stored_by_data_type_datetime_write)
  next
    case JSON
    with s t Some show ?thesis by (simp add: set_attribute_value_def)
  qed
qed

text \<open>
  In a state that keeps the rows of every attribute in the table of its data type, the
  write of None leaves no row of the pair in any of the four value tables.
\<close>

lemma set_null_no_rows_when_stored_by_data_type:
  assumes a: "find_attribute db (ei_entity_type_id self) code = Some a"
    and u: "unique_constraints db"
    and t: "stored_by_data_type db"
  shows "\<exists>db'. set_attribute_value bi db self code PNone = Inr (True, db') \<and>
           get_attribute_value db' self code = PNone \<and>
           value_rows db' (ei_id self) (ad_id a) = 0 \<and>
           (value_rows db (ei_id self) (ad_id a) = 0 \<longrightarrow> db' = db)"
proof -
  let ?iid = "ei_id self" and ?aid = "ad_id a"
  let ?P = "is_value_of ?iid ?aid"
  have "a \<in> set (attribute_definitions db)"
    using a by (rule find_attribute_member)
  with t have s:
    "(ad_data_type a \<in> set [VARCHAR, TEXT] \<or> attribute_rows (text_values db) ?aid = []) \<and>
     (ad_data_type a \<in> set [INTEGER, BIGINT, DECIMAL] \<or> attribute_rows (numeric_values db) ?aid = []) \<and>
     (ad_data_type a \<in> set [DATE, DATETIME, TIMESTAMP] \<or> attribute_rows (datetime_values db) ?aid = []) \<and>
     (ad_data_type a = BOOLEAN \<or> attribute_rows (boolean_values db) ?aid = [])"
    by (rule stored_by_data_type_member)
  show ?thesis
  proof (cases "ad_data_type a")
    case VARCHAR
    let ?db' = "db\<lparr>text_values := delete_first ?P (text_values db)\<rparr>"
    have o: "pair_rows (numeric_values db) ?iid ?aid = 0" "pair_rows (datetime_values db) ?iid ?aid = 0" "pair_rows (boolean_values db) ?iid ?aid = 0"
      using s by (simp_all add: VARCHAR no_attribute_rows_no_pair_rows)
    have w: "set_attribute_value bi db self code PNone = Inr (True, ?db')"
      using a by (simp add: VARCHAR set_attribute_value_def coerced_def write_value_None)
    have z: "pair_rows (text_values ?db') ?iid ?aid = 0"
      using u by (simp add: unique_constraints_def pair_rows_delete_first)
    have g: "get_attribute_value ?db' self code = PNone"
      using a first_value_no_pair_rows [OF z]
      by (simp add: VARCHAR get_attribute_value_def find_attribute_def)
    have v: "value_rows ?db' ?iid ?aid = 0"
      using o z by (simp add: value_rows_def)
    have e: "value_rows db ?iid ?aid = 0 \<longrightarrow> ?db' = db"
      by (simp add: value_rows_def delete_first_no_pair_rows)
    show ?thesis by (rule exI [of _ ?db']) (intro conjI w g v e)
  next
    case TEXT
    let ?db' = "db\<lparr>text_values := delete_first ?P (text_values db)\<rparr>"
    have o: "pair_rows (numeric_values db) ?iid ?aid = 0" "pair_rows (datetime_values db) ?iid ?aid = 0" "pair_rows (boolean_values db) ?iid ?aid = 0"
      using s by (simp_all add: TEXT no_attribute_rows_no_pair_rows)
    have w: "set_attribute_value bi db self code PNone = Inr (True, ?db')"
      using a by (simp add: TEXT set_attribute_value_def coerced_def write_value_None)
    have z: "pair_rows (text_values ?db') ?iid ?aid = 0"
      using u by (simp add: unique_constraints_def pair_rows_delete_first)
    have g: "get_attribute_value ?db' self code = PNone"
      using a first_value_no_pair_rows [OF z]
      by (simp add: TEXT get_attribute_value_def find_attribute_def)
    have v: "value_rows ?db' ?iid ?aid = 0"
      using o z by (simp add: value_rows_def)
    have e: "value_rows db ?iid ?aid = 0 \<longrightarrow> ?db' = db"
      by (simp add: value_rows_def delete_first_no_pair_rows)
    show ?thesis by (rule exI [of _ ?db']) (intro conjI w g v e)
  next
    case INTEGER
    let ?db' = "db\<lparr>numeric_values := delete_first ?P (numeric_values db)\<rparr>"
    have o: "pair_rows (text_values db) ?iid ?aid = 0" "pair_rows (datetime_values db) ?iid ?aid = 0" "pair_rows (boolean_values db) ?iid ?aid = 0"
      using s by (simp_all add: INTEGER no_attribute_rows_no_pair_rows)
    have w: "set_attribute_value bi db self code PNone = Inr (True, ?db')"
      using a by (simp add: INTEGER set_attribute_value_def coerced_def write_value_None)
    have z: "pair_rows (numeric_values ?db') ?iid ?aid = 0"
      using u by (simp add: unique_constraints_def pair_rows_delete_first)
    have g: "get_attribute_value ?db' self code = PNone"
      using a first_value_no_pair_rows [OF z]
      by (simp add: INTEGER get_attribute_value_def find_attribute_def)
    have v: "value_rows ?db' ?iid ?aid = 0"
      using o z by (simp add: value_rows_def)
    have e: "value_rows db ?iid ?aid = 0 \<longrightarrow> ?db' = db"
      by (simp add: value_rows_def delete_first_no_pair_rows)
    show ?thesis by (rule exI [of _ ?db']) (intro conjI w g v e)
  next
    case BIGINT
    let ?db' = "db\<lparr>numeric_values := delete_first ?P (numeric_values db)\<rparr>"
    have o: "pair_rows (text_values db) ?iid ?aid = 0" "pair_rows (datetime_values db) ?iid ?aid = 0" "pair_rows (boolean_values db) ?iid ?aid = 0"
      using s by (simp_all add: BIGINT no_attribute_rows_no_pair_rows)
    have w: "set_attribute_value bi db self code PNone = Inr (True, ?db')"
      using a by (simp add: BIGINT set_attribute_value_def coerced_def write_value_None)
    have z: "pair_rows (numeric_values ?db') ?iid ?aid = 0"
      using u by (simp add: unique_constraints_def pair_rows_delete_first)
    have g: "get_attribute_value ?db' self code = PNone"
      using a first_value_no_pair_rows [OF z]
      by (simp add: BIGINT get_attribute_value_def find_attribute_def)
    have v: "value_rows ?db' ?iid ?aid = 0"
      using o z by (simp add: value_rows_def)
    have e: "value_rows db ?iid ?aid = 0 \<longrightarrow> ?db' = db"
      by (simp add: value_rows_def delete_first_no_pair_rows)
    show ?thesis by (rule exI [of _ ?db']) (intro conjI w g v e)
  next
    case DECIMAL
    let ?db' = "db\<lparr>numeric_values := delete_first ?P (numeric_values db)\<rparr>"
    have o: "pair_rows (text_values db) ?iid ?aid = 0" "pair_rows (datetime_values db) ?iid ?aid = 0" "pair_rows (boolean_values db) ?iid ?aid = 0"
      using s by (simp_all add: DECIMAL no_attribute_rows_no_pair_rows)
    have w: "set_attribute_value bi db self code PNone = Inr (True, ?db')"
      using a by (simp add: DECIMAL set_attribute_value_def coerced_def write_value_None)
    have z: "pair_rows (numeric_values ?db') ?iid ?aid = 0"
      using u by (simp add: unique_constraints_def pair_rows_delete_first)
    have g: "get_attribute_value ?db' self code = PNone"
      using a first_value_no_pair_rows [OF z]
      by (simp add: DECIMAL get_attribute_value_def find_attribute_def)
    have v: "value_rows ?db' ?iid ?aid = 0"
      using o z by (simp add: value_rows_def)
    have e: "value_rows db ?iid ?aid = 0 \<longrightarrow> ?db' = db"
      by (simp add: value_rows_def delete_first_no_pair_rows)
    show ?thesis by (rule exI [of _ ?db']) (intro conjI w g v e)
  next
    case BOOLEAN
    let ?db' = "db\<lparr>boolean_values := delete_first ?P (boolean_values db)\<rparr>"
    have o: "pair_rows (text_values db) ?iid ?aid = 0" "pair_rows (numeric_values db) ?iid ?aid = 0" "pair_rows (datetime_values db) ?iid ?aid = 0"
      using s by (simp_all add: BOOLEAN no_attribute_rows_no_pair_rows)
    have w: "set_attribute_value bi db self code PNone = Inr (True, ?db')"
      using a by (simp add: BOOLEAN set_attribute_value_def coerced_def write_value_None)
    have z: "pair_rows (boolean_values ?db') ?iid ?aid = 0"
      using u by (simp add: unique_constraints_def pair_rows_delete_first)
    have g: "get_attribute_value ?db' self code = PNone"
      using a first_value_no_pair_rows [OF z]
      by (simp add: BOOLEAN get_attribute_value_def find_attribute_def)
    have v: "value_rows ?db' ?iid ?aid = 0"
      using o z by (simp add: value_rows_def)
    have e: "value_rows db ?iid ?aid = 0 \<longrightarrow> ?db' = db"
      by (simp add: value_rows_def delete_first_no_pair_rows)
    show ?thesis by (rule exI [of _ ?db']) (intro conjI w g v e)
  next
    case DATE
    let ?db' = "db\<lparr>datetime_values := delete_first ?P (datetime_values db)\<rparr>"
    have o: "pair_rows (text_values db) ?iid ?aid = 0" "pair_rows (numeric_values db) ?iid ?aid = 0" "pair_rows (boolean_values db) ?iid ?aid = 0"
      using s by (simp_all add: DATE no_attribute_rows_no_pair_rows)
    have w: "set_attribute_value bi db self code PNone = Inr (True, ?db')"
      using a by (simp add: DATE set_attribute_value_def coerced_def write_value_None)
    have z: "pair_rows (datetime_values ?db') ?iid ?aid = 0"
      using u by (simp add: unique_constraints_def pair_rows_delete_first)
    have g: "get_attribute_value ?db' self code = PNone"
      using a first_value_no_pair_rows [OF z]
      by (simp add: DATE get_attribute_value_def find_attribute_def)
    have v: "value_rows ?db' ?iid ?aid = 0"
      using o z by (simp add: value_rows_def)
    have e: "value_rows db ?iid ?aid = 0 \<longrightarrow> ?db' = db"
      by (simp add: value_rows_def delete_first_no_pair_rows)
    show ?thesis by (rule exI [of _ ?db']) (intro conjI w g v e)
  next
    case DATETIME
    let ?db' = "db\<lparr>datetime_values := delete_first ?P (datetime_values db)\<rparr>"
    have o: "pair_rows (text_values db) ?iid ?aid = 0" "pair_rows (numeric_values db) ?iid ?aid = 0" "pair_rows (boolean_values db) ?iid ?aid = 0"
      using s by (simp_all add: DATETIME no_attribute_rows_no_pair_rows)
    have w: "set_attribute_value bi db self code PNone = Inr (True, ?db')"
      using a by (simp add: DATETIME set_attribute_value_def coerced_def write_value_None)
    have z: "pair_rows (datetime_values ?db') ?iid ?aid = 0"
      using u by (simp add: unique_constraints_def pair_rows_delete_first)
    have g: "get_attribute_value ?db' self code = PNone"
      using a first_value_no_pair_rows [OF z]
      by (simp add: DATETIME get_attribute_value_def find_attribute_def)
    have v: "value_rows ?db' ?iid ?aid = 0"
      using o z by (simp add: value_rows_def)
    have e: "value_rows db ?iid ?aid = 0 \<longrightarrow> ?db' = db"
      by (simp add: value_rows_def delete_first_no_pair_rows)
    show ?thesis by (rule exI [of _ ?db']) (intro conjI w g v e)
  next
    case TIMESTAMP
    let ?db' = "db\<lparr>datetime_values := delete_first ?P (datetime_values db)\<rparr>"
    have o: "pair_rows (text_values db) ?iid ?aid = 0" "pair_rows (numeric_values db) ?iid ?aid = 0" "pair_rows (boolean_values db) ?iid ?aid = 0"
      using s by (simp_all add: TIMESTAMP no_attribute_rows_no_pair_rows)
    have w: "set_attribute_value bi db self code PNone = Inr (True, ?db')"
      using a by (simp add: TIMESTAMP set_attribute_value_def coerced_def write_value_None)
    have z: "pair_rows (datetime_values ?db') ?iid ?aid = 0"
      using u by (simp add: unique_constraints_def pair_rows_delete_first)
    have g: "get_attribute_value ?db' self code = PNone"
      using a first_value_no_pair_rows [OF z]
      by (simp add: TIMESTAMP get_attribute_value_def find_attribute_def)
    have v: "value_rows ?db' ?iid ?aid = 0"
      using o z by (simp add: value_rows_def)
    have e: "value_rows db ?iid ?aid = 0 \<longrightarrow> ?db' = db"
      by (simp add: value_rows_def delete_first_no_pair_rows)
    show ?thesis by (rule exI [of _ ?db']) (intro conjI w g v e)
  next
    case JSON
    have o: "pair_rows (text_values db) ?iid ?aid = 0" "pair_rows (numeric_values db) ?iid ?aid = 0"
      "pair_rows (datetime_values db) ?iid ?aid = 0" "pair_rows (boolean_values db) ?iid ?aid = 0"
      using s by (simp_all add: JSON no_attribute_rows_no_pair_rows)
    have w: "set_attribute_value bi db self code PNone = Inr (True, db)"
      using a by (simp add: JSON set_attribute_value_def)
    have g: "get_attribute_value db self code = PNone"
      using a by (simp add: JSON get_attribute_value_def)
    have v: "value_rows db ?iid ?aid = 0"
      using o by (simp add: value_rows_def)
    show ?thesis by (rule exI [of _ db]) (simp add: w g v)
  qed
qed

text \<open>
  The boolean attribute HAZARDOUS of the first cargo has a row in the text table, left
  from the time when its data type was VARCHAR. The write of None deletes the boolean row
  and returns True, and the text row of the pair stays.
\<close>

theorem set_null_leaves_stale_row_counterexample:
  "unique_constraints stale_db \<and>
   find_attribute stale_db (ei_entity_type_id (cargo_instance 1)) ''HAZARDOUS'' = Some hazardous \<and>
   set_attribute_value sample_builtins stale_db (cargo_instance 1) ''HAZARDOUS'' PNone =
     Inr (True, stale_db\<lparr>boolean_values := []\<rparr>) \<and>
   get_attribute_value (stale_db\<lparr>boolean_values := []\<rparr>) (cargo_instance 1) ''HAZARDOUS'' =
     PNone \<and>
   value_rows (stale_db\<lparr>boolean_values := []\<rparr>) (ei_id (cargo_instance 1)) (ad_id hazardous) = 1"
proof -
  have u: "unique_constraints stale_db"
    by (simp add: unique_constraints_def unique_instance_attribute_def cargo_defs stale_db_def)
  have f: "find_attribute stale_db (ei_entity_type_id (cargo_instance 1)) ''HAZARDOUS'' =
             Some hazardous"
    by (simp add: find_attribute_def cargo_defs stale_db_def)
  have w: "set_attribute_value sample_builtins stale_db (cargo_instance 1) ''HAZARDOUS'' PNone =
             Inr (True, stale_db\<lparr>boolean_values := []\<rparr>)"
    using f by (simp add: set_attribute_value_def coerced_def write_value_None hazardous_def)
       (simp add: is_value_of_def cargo_defs stale_db_def)
  have g: "get_attribute_value (stale_db\<lparr>boolean_values := []\<rparr>) (cargo_instance 1)
             ''HAZARDOUS'' = PNone"
    by (simp add: get_attribute_value_def find_attribute_def first_value_def cargo_defs
        stale_db_def)
  have v: "value_rows (stale_db\<lparr>boolean_values := []\<rparr>) (ei_id (cargo_instance 1))
             (ad_id hazardous) = 1"
    by (simp add: value_rows_def pair_rows_def is_value_of_def cargo_defs stale_db_def)
  show ?thesis using u f w g v by simp
qed

text \<open>
  C3, amended. For an instance and an attribute code that resolves for its entity type,
  in a state that meets the unique constraints of the value tables,
  \<open>set_attribute_value\<close> with None returns True and \<open>get_attribute_value\<close> then
  returns None. Afterwards the value table of the attribute's data type has no row for the
  pair, and the other three tables are as they were, so the pair has in the four tables
  the rows of before less the rows of that table; when that table had no row of the pair,
  the state is unchanged and no row is created. In a state that keeps the rows of every
  attribute in the table of its data type, no row of the pair is left in any of the four
  tables.
\<close>

theorem set_null_then_get_null_typed_store:
  assumes a: "find_attribute db (ei_entity_type_id self) code = Some a"
    and u: "unique_constraints db"
  shows "\<exists>db'. set_attribute_value bi db self code PNone = Inr (True, db') \<and>
           get_attribute_value db' self code = PNone \<and>
           type_rows db' (ad_data_type a) (ei_id self) (ad_id a) = 0 \<and>
           value_rows db' (ei_id self) (ad_id a) +
             type_rows db (ad_data_type a) (ei_id self) (ad_id a) =
             value_rows db (ei_id self) (ad_id a) \<and>
           (type_rows db (ad_data_type a) (ei_id self) (ad_id a) = 0 \<longrightarrow> db' = db) \<and>
           (stored_by_data_type db \<longrightarrow> value_rows db' (ei_id self) (ad_id a) = 0) \<and>
           (ad_data_type a \<notin> set [VARCHAR, TEXT] \<longrightarrow> text_values db' = text_values db) \<and>
           (ad_data_type a \<notin> set [INTEGER, BIGINT, DECIMAL] \<longrightarrow>
              numeric_values db' = numeric_values db) \<and>
           (ad_data_type a \<notin> set [DATE, DATETIME, TIMESTAMP] \<longrightarrow>
              datetime_values db' = datetime_values db) \<and>
           (ad_data_type a \<noteq> BOOLEAN \<longrightarrow> boolean_values db' = boolean_values db)"
proof -
  let ?iid = "ei_id self" and ?aid = "ad_id a"
  let ?P = "is_value_of ?iid ?aid"
  have o: "ad_data_type a \<notin> set [VARCHAR, TEXT] \<longrightarrow> text_values db' = text_values db"
    "ad_data_type a \<notin> set [INTEGER, BIGINT, DECIMAL] \<longrightarrow> numeric_values db' = numeric_values db"
    "ad_data_type a \<notin> set [DATE, DATETIME, TIMESTAMP] \<longrightarrow>
       datetime_values db' = datetime_values db"
    "ad_data_type a \<noteq> BOOLEAN \<longrightarrow> boolean_values db' = boolean_values db"
    if w: "set_attribute_value bi db self code PNone = Inr (True, db')" for db'
  proof -
    consider (textual) "ad_data_type a = VARCHAR \<or> ad_data_type a = TEXT"
      | (numeric) "ad_data_type a = INTEGER \<or> ad_data_type a = BIGINT \<or> ad_data_type a = DECIMAL"
      | (temporal) "ad_data_type a = DATE \<or> ad_data_type a = DATETIME \<or>
          ad_data_type a = TIMESTAMP"
      | (boolean) "ad_data_type a = BOOLEAN"
      | (json) "ad_data_type a = JSON"
      by (cases "ad_data_type a") simp_all
    then have "(ad_data_type a \<notin> set [VARCHAR, TEXT] \<longrightarrow> text_values db' = text_values db) \<and>
      (ad_data_type a \<notin> set [INTEGER, BIGINT, DECIMAL] \<longrightarrow>
         numeric_values db' = numeric_values db) \<and>
      (ad_data_type a \<notin> set [DATE, DATETIME, TIMESTAMP] \<longrightarrow>
         datetime_values db' = datetime_values db) \<and>
      (ad_data_type a \<noteq> BOOLEAN \<longrightarrow> boolean_values db' = boolean_values db)"
    proof cases
      case textual
      from set_attribute_value_text [OF w a textual] textual show ?thesis by auto
    next
      case numeric
      from set_attribute_value_numeric [OF w a numeric] numeric show ?thesis by auto
    next
      case temporal
      from set_attribute_value_datetime [OF w a temporal] temporal show ?thesis by auto
    next
      case boolean
      from set_attribute_value_boolean [OF w a boolean] boolean show ?thesis by auto
    next
      case json
      from set_attribute_value_json [OF w a json] show ?thesis by simp
    qed
    then show
      "ad_data_type a \<notin> set [VARCHAR, TEXT] \<longrightarrow> text_values db' = text_values db"
      "ad_data_type a \<notin> set [INTEGER, BIGINT, DECIMAL] \<longrightarrow>
         numeric_values db' = numeric_values db"
      "ad_data_type a \<notin> set [DATE, DATETIME, TIMESTAMP] \<longrightarrow>
         datetime_values db' = datetime_values db"
      "ad_data_type a \<noteq> BOOLEAN \<longrightarrow> boolean_values db' = boolean_values db"
      by simp_all
  qed
  have t: "\<And>db'. set_attribute_value bi db self code PNone = Inr (True, db') \<Longrightarrow>
             stored_by_data_type db \<longrightarrow> value_rows db' ?iid ?aid = 0"
  proof
    fix db'
    assume w: "set_attribute_value bi db self code PNone = Inr (True, db')"
      and s: "stored_by_data_type db"
    obtain db'' where d: "set_attribute_value bi db self code PNone = Inr (True, db'')"
      "value_rows db'' ?iid ?aid = 0"
      using set_null_no_rows_when_stored_by_data_type [OF a u s, of bi] by auto
    have "db'' = db'" using w d(1) by simp
    with d(2) show "value_rows db' ?iid ?aid = 0" by simp
  qed
  show ?thesis
  proof (cases "ad_data_type a")
    case VARCHAR
    let ?db' = "db\<lparr>text_values := delete_first ?P (text_values db)\<rparr>"
    have w: "set_attribute_value bi db self code PNone = Inr (True, ?db')"
      using a by (simp add: VARCHAR set_attribute_value_def coerced_def write_value_None)
    have z: "pair_rows (delete_first ?P (text_values db)) ?iid ?aid = 0"
      using u by (simp add: unique_constraints_def pair_rows_delete_first)
    have g: "get_attribute_value ?db' self code = PNone"
      using a first_value_no_pair_rows [OF z]
      by (simp add: VARCHAR get_attribute_value_def find_attribute_def)
    have r: "type_rows ?db' (ad_data_type a) ?iid ?aid = 0"
      using z by (simp add: VARCHAR type_rows_def)
    have v: "value_rows ?db' ?iid ?aid + type_rows db (ad_data_type a) ?iid ?aid =
               value_rows db ?iid ?aid"
      using z by (simp add: VARCHAR type_rows_def value_rows_def)
    have e: "type_rows db (ad_data_type a) ?iid ?aid = 0 \<longrightarrow> ?db' = db"
      by (simp add: VARCHAR type_rows_def delete_first_no_pair_rows)
    show ?thesis by (rule exI [of _ ?db']) (intro conjI w g r v e t [OF w] o [OF w])
  next
    case TEXT
    let ?db' = "db\<lparr>text_values := delete_first ?P (text_values db)\<rparr>"
    have w: "set_attribute_value bi db self code PNone = Inr (True, ?db')"
      using a by (simp add: TEXT set_attribute_value_def coerced_def write_value_None)
    have z: "pair_rows (delete_first ?P (text_values db)) ?iid ?aid = 0"
      using u by (simp add: unique_constraints_def pair_rows_delete_first)
    have g: "get_attribute_value ?db' self code = PNone"
      using a first_value_no_pair_rows [OF z]
      by (simp add: TEXT get_attribute_value_def find_attribute_def)
    have r: "type_rows ?db' (ad_data_type a) ?iid ?aid = 0"
      using z by (simp add: TEXT type_rows_def)
    have v: "value_rows ?db' ?iid ?aid + type_rows db (ad_data_type a) ?iid ?aid =
               value_rows db ?iid ?aid"
      using z by (simp add: TEXT type_rows_def value_rows_def)
    have e: "type_rows db (ad_data_type a) ?iid ?aid = 0 \<longrightarrow> ?db' = db"
      by (simp add: TEXT type_rows_def delete_first_no_pair_rows)
    show ?thesis by (rule exI [of _ ?db']) (intro conjI w g r v e t [OF w] o [OF w])
  next
    case INTEGER
    let ?db' = "db\<lparr>numeric_values := delete_first ?P (numeric_values db)\<rparr>"
    have w: "set_attribute_value bi db self code PNone = Inr (True, ?db')"
      using a by (simp add: INTEGER set_attribute_value_def coerced_def write_value_None)
    have z: "pair_rows (delete_first ?P (numeric_values db)) ?iid ?aid = 0"
      using u by (simp add: unique_constraints_def pair_rows_delete_first)
    have g: "get_attribute_value ?db' self code = PNone"
      using a first_value_no_pair_rows [OF z]
      by (simp add: INTEGER get_attribute_value_def find_attribute_def)
    have r: "type_rows ?db' (ad_data_type a) ?iid ?aid = 0"
      using z by (simp add: INTEGER type_rows_def)
    have v: "value_rows ?db' ?iid ?aid + type_rows db (ad_data_type a) ?iid ?aid =
               value_rows db ?iid ?aid"
      using z by (simp add: INTEGER type_rows_def value_rows_def)
    have e: "type_rows db (ad_data_type a) ?iid ?aid = 0 \<longrightarrow> ?db' = db"
      by (simp add: INTEGER type_rows_def delete_first_no_pair_rows)
    show ?thesis by (rule exI [of _ ?db']) (intro conjI w g r v e t [OF w] o [OF w])
  next
    case BIGINT
    let ?db' = "db\<lparr>numeric_values := delete_first ?P (numeric_values db)\<rparr>"
    have w: "set_attribute_value bi db self code PNone = Inr (True, ?db')"
      using a by (simp add: BIGINT set_attribute_value_def coerced_def write_value_None)
    have z: "pair_rows (delete_first ?P (numeric_values db)) ?iid ?aid = 0"
      using u by (simp add: unique_constraints_def pair_rows_delete_first)
    have g: "get_attribute_value ?db' self code = PNone"
      using a first_value_no_pair_rows [OF z]
      by (simp add: BIGINT get_attribute_value_def find_attribute_def)
    have r: "type_rows ?db' (ad_data_type a) ?iid ?aid = 0"
      using z by (simp add: BIGINT type_rows_def)
    have v: "value_rows ?db' ?iid ?aid + type_rows db (ad_data_type a) ?iid ?aid =
               value_rows db ?iid ?aid"
      using z by (simp add: BIGINT type_rows_def value_rows_def)
    have e: "type_rows db (ad_data_type a) ?iid ?aid = 0 \<longrightarrow> ?db' = db"
      by (simp add: BIGINT type_rows_def delete_first_no_pair_rows)
    show ?thesis by (rule exI [of _ ?db']) (intro conjI w g r v e t [OF w] o [OF w])
  next
    case DECIMAL
    let ?db' = "db\<lparr>numeric_values := delete_first ?P (numeric_values db)\<rparr>"
    have w: "set_attribute_value bi db self code PNone = Inr (True, ?db')"
      using a by (simp add: DECIMAL set_attribute_value_def coerced_def write_value_None)
    have z: "pair_rows (delete_first ?P (numeric_values db)) ?iid ?aid = 0"
      using u by (simp add: unique_constraints_def pair_rows_delete_first)
    have g: "get_attribute_value ?db' self code = PNone"
      using a first_value_no_pair_rows [OF z]
      by (simp add: DECIMAL get_attribute_value_def find_attribute_def)
    have r: "type_rows ?db' (ad_data_type a) ?iid ?aid = 0"
      using z by (simp add: DECIMAL type_rows_def)
    have v: "value_rows ?db' ?iid ?aid + type_rows db (ad_data_type a) ?iid ?aid =
               value_rows db ?iid ?aid"
      using z by (simp add: DECIMAL type_rows_def value_rows_def)
    have e: "type_rows db (ad_data_type a) ?iid ?aid = 0 \<longrightarrow> ?db' = db"
      by (simp add: DECIMAL type_rows_def delete_first_no_pair_rows)
    show ?thesis by (rule exI [of _ ?db']) (intro conjI w g r v e t [OF w] o [OF w])
  next
    case BOOLEAN
    let ?db' = "db\<lparr>boolean_values := delete_first ?P (boolean_values db)\<rparr>"
    have w: "set_attribute_value bi db self code PNone = Inr (True, ?db')"
      using a by (simp add: BOOLEAN set_attribute_value_def coerced_def write_value_None)
    have z: "pair_rows (delete_first ?P (boolean_values db)) ?iid ?aid = 0"
      using u by (simp add: unique_constraints_def pair_rows_delete_first)
    have g: "get_attribute_value ?db' self code = PNone"
      using a first_value_no_pair_rows [OF z]
      by (simp add: BOOLEAN get_attribute_value_def find_attribute_def)
    have r: "type_rows ?db' (ad_data_type a) ?iid ?aid = 0"
      using z by (simp add: BOOLEAN type_rows_def)
    have v: "value_rows ?db' ?iid ?aid + type_rows db (ad_data_type a) ?iid ?aid =
               value_rows db ?iid ?aid"
      using z by (simp add: BOOLEAN type_rows_def value_rows_def)
    have e: "type_rows db (ad_data_type a) ?iid ?aid = 0 \<longrightarrow> ?db' = db"
      by (simp add: BOOLEAN type_rows_def delete_first_no_pair_rows)
    show ?thesis by (rule exI [of _ ?db']) (intro conjI w g r v e t [OF w] o [OF w])
  next
    case DATE
    let ?db' = "db\<lparr>datetime_values := delete_first ?P (datetime_values db)\<rparr>"
    have w: "set_attribute_value bi db self code PNone = Inr (True, ?db')"
      using a by (simp add: DATE set_attribute_value_def coerced_def write_value_None)
    have z: "pair_rows (delete_first ?P (datetime_values db)) ?iid ?aid = 0"
      using u by (simp add: unique_constraints_def pair_rows_delete_first)
    have g: "get_attribute_value ?db' self code = PNone"
      using a first_value_no_pair_rows [OF z]
      by (simp add: DATE get_attribute_value_def find_attribute_def)
    have r: "type_rows ?db' (ad_data_type a) ?iid ?aid = 0"
      using z by (simp add: DATE type_rows_def)
    have v: "value_rows ?db' ?iid ?aid + type_rows db (ad_data_type a) ?iid ?aid =
               value_rows db ?iid ?aid"
      using z by (simp add: DATE type_rows_def value_rows_def)
    have e: "type_rows db (ad_data_type a) ?iid ?aid = 0 \<longrightarrow> ?db' = db"
      by (simp add: DATE type_rows_def delete_first_no_pair_rows)
    show ?thesis by (rule exI [of _ ?db']) (intro conjI w g r v e t [OF w] o [OF w])
  next
    case DATETIME
    let ?db' = "db\<lparr>datetime_values := delete_first ?P (datetime_values db)\<rparr>"
    have w: "set_attribute_value bi db self code PNone = Inr (True, ?db')"
      using a by (simp add: DATETIME set_attribute_value_def coerced_def write_value_None)
    have z: "pair_rows (delete_first ?P (datetime_values db)) ?iid ?aid = 0"
      using u by (simp add: unique_constraints_def pair_rows_delete_first)
    have g: "get_attribute_value ?db' self code = PNone"
      using a first_value_no_pair_rows [OF z]
      by (simp add: DATETIME get_attribute_value_def find_attribute_def)
    have r: "type_rows ?db' (ad_data_type a) ?iid ?aid = 0"
      using z by (simp add: DATETIME type_rows_def)
    have v: "value_rows ?db' ?iid ?aid + type_rows db (ad_data_type a) ?iid ?aid =
               value_rows db ?iid ?aid"
      using z by (simp add: DATETIME type_rows_def value_rows_def)
    have e: "type_rows db (ad_data_type a) ?iid ?aid = 0 \<longrightarrow> ?db' = db"
      by (simp add: DATETIME type_rows_def delete_first_no_pair_rows)
    show ?thesis by (rule exI [of _ ?db']) (intro conjI w g r v e t [OF w] o [OF w])
  next
    case TIMESTAMP
    let ?db' = "db\<lparr>datetime_values := delete_first ?P (datetime_values db)\<rparr>"
    have w: "set_attribute_value bi db self code PNone = Inr (True, ?db')"
      using a by (simp add: TIMESTAMP set_attribute_value_def coerced_def write_value_None)
    have z: "pair_rows (delete_first ?P (datetime_values db)) ?iid ?aid = 0"
      using u by (simp add: unique_constraints_def pair_rows_delete_first)
    have g: "get_attribute_value ?db' self code = PNone"
      using a first_value_no_pair_rows [OF z]
      by (simp add: TIMESTAMP get_attribute_value_def find_attribute_def)
    have r: "type_rows ?db' (ad_data_type a) ?iid ?aid = 0"
      using z by (simp add: TIMESTAMP type_rows_def)
    have v: "value_rows ?db' ?iid ?aid + type_rows db (ad_data_type a) ?iid ?aid =
               value_rows db ?iid ?aid"
      using z by (simp add: TIMESTAMP type_rows_def value_rows_def)
    have e: "type_rows db (ad_data_type a) ?iid ?aid = 0 \<longrightarrow> ?db' = db"
      by (simp add: TIMESTAMP type_rows_def delete_first_no_pair_rows)
    show ?thesis by (rule exI [of _ ?db']) (intro conjI w g r v e t [OF w] o [OF w])
  next
    case JSON
    have w: "set_attribute_value bi db self code PNone = Inr (True, db)"
      using a by (simp add: JSON set_attribute_value_def)
    have g: "get_attribute_value db self code = PNone"
      using a by (simp add: JSON get_attribute_value_def)
    have r: "type_rows db (ad_data_type a) ?iid ?aid = 0"
      by (simp add: JSON type_rows_def)
    have v: "value_rows db ?iid ?aid + type_rows db (ad_data_type a) ?iid ?aid =
               value_rows db ?iid ?aid"
      using r by simp
    have e: "type_rows db (ad_data_type a) ?iid ?aid = 0 \<longrightarrow> db = db"
      by simp
    show ?thesis by (rule exI [of _ db]) (intro conjI w g r v e t [OF w] o [OF w])
  qed
qed

theorem set_null_then_get_null_typed_store_witness:
  "unique_constraints stale_db \<and>
   find_attribute stale_db (ei_entity_type_id (cargo_instance 1)) ''HAZARDOUS'' = Some hazardous \<and>
   type_rows stale_db (ad_data_type hazardous) (ei_id (cargo_instance 1)) (ad_id hazardous) = 1 \<and>
   value_rows stale_db (ei_id (cargo_instance 1)) (ad_id hazardous) = 2 \<and>
   set_attribute_value sample_builtins stale_db (cargo_instance 1) ''HAZARDOUS'' PNone =
     Inr (True, stale_db\<lparr>boolean_values := []\<rparr>) \<and>
   get_attribute_value (stale_db\<lparr>boolean_values := []\<rparr>) (cargo_instance 1) ''HAZARDOUS'' =
     PNone \<and>
   type_rows (stale_db\<lparr>boolean_values := []\<rparr>) (ad_data_type hazardous)
     (ei_id (cargo_instance 1)) (ad_id hazardous) = 0 \<and>
   value_rows (stale_db\<lparr>boolean_values := []\<rparr>) (ei_id (cargo_instance 1)) (ad_id hazardous) = 1 \<and>
   unique_constraints cargo_db \<and> stored_by_data_type cargo_db \<and>
   set_attribute_value sample_builtins cargo_db (cargo_instance 1) ''HAZARDOUS'' PNone =
     Inr (True, cargo_db\<lparr>boolean_values := []\<rparr>) \<and>
   value_rows (cargo_db\<lparr>boolean_values := []\<rparr>) (ei_id (cargo_instance 1)) (ad_id hazardous) = 0"
proof -
  have u: "unique_constraints stale_db"
    by (simp add: unique_constraints_def unique_instance_attribute_def cargo_defs stale_db_def)
  have f: "find_attribute stale_db (ei_entity_type_id (cargo_instance 1)) ''HAZARDOUS'' =
             Some hazardous"
    by (simp add: find_attribute_def cargo_defs stale_db_def)
  have n: "type_rows stale_db (ad_data_type hazardous) (ei_id (cargo_instance 1))
             (ad_id hazardous) = 1"
    "value_rows stale_db (ei_id (cargo_instance 1)) (ad_id hazardous) = 2"
    by (simp_all add: type_rows_def value_rows_def pair_rows_def is_value_of_def cargo_defs
        stale_db_def)
  have w: "set_attribute_value sample_builtins stale_db (cargo_instance 1) ''HAZARDOUS'' PNone =
             Inr (True, stale_db\<lparr>boolean_values := []\<rparr>)"
    using f by (simp add: set_attribute_value_def coerced_def write_value_None hazardous_def)
       (simp add: is_value_of_def cargo_defs stale_db_def)
  obtain db' where d:
    "set_attribute_value sample_builtins stale_db (cargo_instance 1) ''HAZARDOUS'' PNone =
       Inr (True, db')"
    "get_attribute_value db' (cargo_instance 1) ''HAZARDOUS'' = PNone"
    "type_rows db' (ad_data_type hazardous) (ei_id (cargo_instance 1)) (ad_id hazardous) = 0"
    "value_rows db' (ei_id (cargo_instance 1)) (ad_id hazardous) +
       type_rows stale_db (ad_data_type hazardous) (ei_id (cargo_instance 1)) (ad_id hazardous) =
       value_rows stale_db (ei_id (cargo_instance 1)) (ad_id hazardous)"
    using set_null_then_get_null_typed_store [OF f u, of sample_builtins] by auto
  have e: "db' = stale_db\<lparr>boolean_values := []\<rparr>"
    using w d(1) by simp
  have v: "value_rows (stale_db\<lparr>boolean_values := []\<rparr>) (ei_id (cargo_instance 1))
             (ad_id hazardous) = 1"
    using d(4) n unfolding e by simp
  have u2: "unique_constraints cargo_db"
    by (simp add: unique_constraints_def unique_instance_attribute_def cargo_defs)
  have t2: "stored_by_data_type cargo_db"
    by (simp add: stored_by_data_type_def attribute_rows_def cargo_defs)
  have f2: "find_attribute cargo_db (ei_entity_type_id (cargo_instance 1)) ''HAZARDOUS'' =
              Some hazardous"
    by (simp add: find_attribute_def cargo_defs)
  have w2: "set_attribute_value sample_builtins cargo_db (cargo_instance 1) ''HAZARDOUS'' PNone =
              Inr (True, cargo_db\<lparr>boolean_values := []\<rparr>)"
    using f2 by (simp add: set_attribute_value_def coerced_def write_value_None hazardous_def)
       (simp add: is_value_of_def cargo_defs)
  obtain db2 where d2:
    "set_attribute_value sample_builtins cargo_db (cargo_instance 1) ''HAZARDOUS'' PNone =
       Inr (True, db2)"
    "stored_by_data_type cargo_db \<longrightarrow>
       value_rows db2 (ei_id (cargo_instance 1)) (ad_id hazardous) = 0"
    using set_null_then_get_null_typed_store [OF f2 u2, of sample_builtins] by auto
  have e2: "db2 = cargo_db\<lparr>boolean_values := []\<rparr>"
    using w2 d2(1) by simp
  have v2: "value_rows (cargo_db\<lparr>boolean_values := []\<rparr>) (ei_id (cargo_instance 1))
              (ad_id hazardous) = 0"
    using d2(2) t2 unfolding e2 by simp
  show ?thesis
    using u f n w d(2) d(3) v u2 t2 w2 v2 unfolding e by simp
qed

section \<open>Entity designer: properties\<close>

text \<open>
  C2. \<open>delete_attribute\<close> counts the rows of the text table or of the numeric table
  only. The boolean attribute HAZARDOUS of the sample data has one row in the boolean
  table, and its deletion is not refused: the attribute is removed and the row stays.
\<close>

theorem delete_attribute_ignores_boolean_rows:
  "referencing_rows cargo_db 2 = 1 \<and>
   fst (delete_attribute cargo_db 1 2) = Attribute_deleted \<and>
   attribute_definitions (snd (delete_attribute cargo_db 1 2)) = [cargo_name, details] \<and>
   boolean_values (snd (delete_attribute cargo_db 1 2)) = boolean_values cargo_db"
  by (simp add: referencing_rows_def count_values_def delete_attribute_def instance_count_def
      cargo_defs)

section \<open>Lookup engine: properties\<close>

text \<open>
  The loop with \<open>unique_only\<close> set appends to \<open>options\<close> entries whose values are
  pairwise different, not None and not yet seen; each comes from the first instance
  carrying its value, and every value that is not None ends up seen or listed.
\<close>

lemma options_loop_unique:
  "\<exists>new. options_loop bi db sc dcode True options seen instances = options @ new \<and>
     distinct (map option_value new) \<and>
     (\<forall>x \<in> set new. option_value x \<notin> seen \<and> option_value x \<noteq> PNone \<and>
        map_option ei_id (find (\<lambda>i. get_attribute_value db i sc = option_value x) instances) =
          Some (option_instance_id x)) \<and>
     (\<forall>i \<in> set instances. get_attribute_value db i sc \<noteq> PNone \<longrightarrow>
        get_attribute_value db i sc \<in> seen \<union> option_value ` set new)"
proof (induction instances arbitrary: options seen)
  case Nil
  show ?case by simp
next
  case (Cons i instances)
  let ?v = "get_attribute_value db i sc"
  show ?case
  proof (cases "?v \<noteq> PNone \<and> ?v \<notin> seen")
    case False
    obtain new where n:
      "options_loop bi db sc dcode True options seen instances = options @ new"
      "distinct (map option_value new)"
      "\<forall>x \<in> set new. option_value x \<notin> seen \<and> option_value x \<noteq> PNone \<and>
         map_option ei_id (find (\<lambda>i. get_attribute_value db i sc = option_value x) instances) =
           Some (option_instance_id x)"
      "\<forall>i \<in> set instances. get_attribute_value db i sc \<noteq> PNone \<longrightarrow>
         get_attribute_value db i sc \<in> seen \<union> option_value ` set new"
      using Cons.IH [of options seen] by blast
    have "options_loop bi db sc dcode True options seen (i # instances) = options @ new"
      using False n(1) by (auto simp: Let_def)
    moreover have "\<forall>x \<in> set new. option_value x \<notin> seen \<and> option_value x \<noteq> PNone \<and>
         map_option ei_id (find (\<lambda>i. get_attribute_value db i sc = option_value x) (i # instances)) =
           Some (option_instance_id x)"
      using False n(3) by auto
    moreover have "\<forall>j \<in> set (i # instances). get_attribute_value db j sc \<noteq> PNone \<longrightarrow>
         get_attribute_value db j sc \<in> seen \<union> option_value ` set new"
      using False n(4) by auto
    ultimately show ?thesis using n(2) by blast
  next
    case True
    let ?x = "\<lparr>option_value = ?v,
               option_label = (if py_bool bi (get_attribute_value db i dcode)
                               then get_attribute_value db i dcode else ?v),
               option_instance_id = ei_id i\<rparr>"
    obtain new where n:
      "options_loop bi db sc dcode True (options @ [?x]) (insert ?v seen) instances =
         (options @ [?x]) @ new"
      "distinct (map option_value new)"
      "\<forall>x \<in> set new. option_value x \<notin> insert ?v seen \<and> option_value x \<noteq> PNone \<and>
         map_option ei_id (find (\<lambda>i. get_attribute_value db i sc = option_value x) instances) =
           Some (option_instance_id x)"
      "\<forall>i \<in> set instances. get_attribute_value db i sc \<noteq> PNone \<longrightarrow>
         get_attribute_value db i sc \<in> insert ?v seen \<union> option_value ` set new"
      using Cons.IH [of "options @ [?x]" "insert ?v seen"] by blast
    have "options_loop bi db sc dcode True options seen (i # instances) = options @ (?x # new)"
      using True n(1) by (simp add: Let_def)
    moreover have "distinct (map option_value (?x # new))"
      using n(2) n(3) by auto
    moreover have "\<forall>x \<in> set (?x # new). option_value x \<notin> seen \<and> option_value x \<noteq> PNone \<and>
         map_option ei_id (find (\<lambda>i. get_attribute_value db i sc = option_value x) (i # instances)) =
           Some (option_instance_id x)"
      using True n(3) by auto
    moreover have "\<forall>j \<in> set (i # instances). get_attribute_value db j sc \<noteq> PNone \<longrightarrow>
         get_attribute_value db j sc \<in> seen \<union> option_value ` set (?x # new)"
      using n(4) by auto
    ultimately show ?thesis by blast
  qed
qed

lemma distinct_map_sort_key:
  "distinct (map g (sort_key f xs)) = distinct (map g xs)"
  by (simp add: distinct_map)

text \<open>
  C8. With \<open>unique_only\<close> set, the list that \<open>get_dropdown_options\<close> returns has no
  two entries with the same value; no entry has the value None, and each entry carries
  the id of the first active instance (in query order) whose source value is the entry's
  value; the list is sorted by \<open>str(label)\<close>, ascending in the order of strings; and,
  when the entity type and the source attribute resolve, every source value that is not
  None is the value of an entry.
\<close>

theorem dropdown_unique_options_distinct_sorted:
  "distinct (map option_value (get_dropdown_options bi db etid sc dc True)) \<and>
   (\<forall>x \<in> set (get_dropdown_options bi db etid sc dc True).
      option_value x \<noteq> PNone \<and>
      map_option ei_id
        (find (\<lambda>i. get_attribute_value db i sc = option_value x) (active_instances db etid)) =
        Some (option_instance_id x)) \<and>
   sorted (map (\<lambda>x. py_str bi (option_label x)) (get_dropdown_options bi db etid sc dc True)) \<and>
   (find (\<lambda>t. et_id t = etid) (entity_types db) \<noteq> None \<and>
    find_active_attribute db etid sc \<noteq> None \<longrightarrow>
      (\<forall>i \<in> set (active_instances db etid). get_attribute_value db i sc \<noteq> PNone \<longrightarrow>
         get_attribute_value db i sc \<in>
           option_value ` set (get_dropdown_options bi db etid sc dc True)))"
proof (cases "find (\<lambda>t. et_id t = etid) (entity_types db) \<noteq> None \<and>
              find_active_attribute db etid sc \<noteq> None")
  case False
  then have "get_dropdown_options bi db etid sc dc True = []"
    by (auto simp: get_dropdown_options_def split: option.splits)
  with False show ?thesis by auto
next
  case True
  then obtain t a where r:
    "find (\<lambda>t. et_id t = etid) (entity_types db) = Some t"
    "find_active_attribute db etid sc = Some a"
    by auto
  let ?dcode = "ad_code (display_attribute db etid a sc dc)"
  let ?is = "active_instances db etid"
  obtain new where n:
    "options_loop bi db sc ?dcode True [] {} ?is = [] @ new"
    "distinct (map option_value new)"
    "\<forall>x \<in> set new. option_value x \<notin> {} \<and> option_value x \<noteq> PNone \<and>
       map_option ei_id (find (\<lambda>i. get_attribute_value db i sc = option_value x) ?is) =
         Some (option_instance_id x)"
    "\<forall>i \<in> set ?is. get_attribute_value db i sc \<noteq> PNone \<longrightarrow>
       get_attribute_value db i sc \<in> {} \<union> option_value ` set new"
    using options_loop_unique [of bi db sc ?dcode "[]" "{}" ?is] by blast
  have g: "get_dropdown_options bi db etid sc dc True =
             sort_key (\<lambda>x. py_str bi (option_label x)) new"
    using r n(1) by (simp add: get_dropdown_options_def Let_def)
  have s: "set (get_dropdown_options bi db etid sc dc True) = set new"
    unfolding g by simp
  have "distinct (map option_value (get_dropdown_options bi db etid sc dc True))"
    unfolding g using n(2) by (simp add: distinct_map_sort_key)
  moreover have "sorted (map (\<lambda>x. py_str bi (option_label x))
                   (get_dropdown_options bi db etid sc dc True))"
    unfolding g by (rule sorted_sort_key)
  ultimately show ?thesis
    using n(3) n(4) unfolding s by simp
qed

theorem dropdown_unique_options_distinct_sorted_witness:
  "get_dropdown_options sample_builtins cargo_db 1 ''CARGO_NAME'' None True =
     [\<lparr>option_value = PStr ''Coal'', option_label = PStr ''Coal'', option_instance_id = 1\<rparr>,
      \<lparr>option_value = PStr ''Iron Ore'', option_label = PStr ''Iron Ore'',
        option_instance_id = 3\<rparr>] \<and>
   get_attribute_value cargo_db (cargo_instance 2) ''CARGO_NAME'' = PStr ''Coal'' \<and>
   get_attribute_value cargo_db (cargo_instance 4) ''CARGO_NAME'' = PNone \<and>
   distinct (map option_value
     (get_dropdown_options sample_builtins cargo_db 1 ''CARGO_NAME'' None True)) \<and>
   sorted (map (\<lambda>x. py_str sample_builtins (option_label x))
     (get_dropdown_options sample_builtins cargo_db 1 ''CARGO_NAME'' None True))"
proof -
  have e: "get_dropdown_options sample_builtins cargo_db 1 ''CARGO_NAME'' None True =
     [\<lparr>option_value = PStr ''Coal'', option_label = PStr ''Coal'', option_instance_id = 1\<rparr>,
      \<lparr>option_value = PStr ''Iron Ore'', option_label = PStr ''Iron Ore'',
        option_instance_id = 3\<rparr>]"
    by (simp add: get_dropdown_options_def find_active_attribute_def display_attribute_def
        active_instances_def get_attribute_value_def find_attribute_def first_value_def
        is_value_of_def cargo_defs Let_def)
  have v2: "get_attribute_value cargo_db (cargo_instance 2) ''CARGO_NAME'' = PStr ''Coal''"
    by (simp add: get_attribute_value_def find_attribute_def first_value_def is_value_of_def
        cargo_defs)
  have v4: "get_attribute_value cargo_db (cargo_instance 4) ''CARGO_NAME'' = PNone"
    by (simp add: get_attribute_value_def find_attribute_def first_value_def is_value_of_def
        cargo_defs)
  show ?thesis
    using e v2 v4
      dropdown_unique_options_distinct_sorted
        [of sample_builtins cargo_db 1 "''CARGO_NAME''" None]
    by simp
qed

text \<open>
  A display code that does not resolve does not empty the list: the labels fall back
  to the source attribute. Asked for CARGO_NAME with the unknown display code NO_SUCH,
  the sample data gives both cargo names.
\<close>

theorem dropdown_unresolved_display_counterexample:
  "find_active_attribute cargo_db 1 ''NO_SUCH'' = None \<and>
   find_attribute cargo_db 1 ''NO_SUCH'' = None \<and>
   get_dropdown_options sample_builtins cargo_db 1 ''CARGO_NAME'' (Some ''NO_SUCH'') True =
     [\<lparr>option_value = PStr ''Coal'', option_label = PStr ''Coal'', option_instance_id = 1\<rparr>,
      \<lparr>option_value = PStr ''Iron Ore'', option_label = PStr ''Iron Ore'',
        option_instance_id = 3\<rparr>]"
  by (simp add: get_dropdown_options_def find_active_attribute_def display_attribute_def
      active_instances_def get_attribute_value_def find_attribute_def first_value_def
      is_value_of_def cargo_defs Let_def)

text \<open>
  C7, amended. \<open>get_dropdown_options\<close> returns the empty list when the entity type
  id does not resolve or when the source attribute code does not resolve to an active
  attribute of the entity type. When the display attribute code does not resolve to one,
  the result is the list that the call without a display code returns. The function is
  total: it returns a list in every case.
\<close>

theorem dropdown_unresolved_source_is_empty:
  "(find (\<lambda>t. et_id t = etid) (entity_types db) = None \<or>
    find_active_attribute db etid sc = None \<longrightarrow>
      get_dropdown_options bi db etid sc dc u = []) \<and>
   (find_active_attribute db etid c = None \<longrightarrow>
      get_dropdown_options bi db etid sc (Some c) u = get_dropdown_options bi db etid sc None u)"
  by (auto simp: get_dropdown_options_def display_attribute_def split: option.splits)

theorem dropdown_unresolved_source_is_empty_witness:
  "find (\<lambda>t. et_id t = 9) (entity_types cargo_db) = None \<and>
   get_dropdown_options sample_builtins cargo_db 9 ''CARGO_NAME'' None True = [] \<and>
   find_active_attribute cargo_db 1 ''NO_SUCH'' = None \<and>
   get_dropdown_options sample_builtins cargo_db 1 ''NO_SUCH'' None True = [] \<and>
   get_dropdown_options sample_builtins cargo_db 1 ''CARGO_NAME'' (Some ''NO_SUCH'') True =
     get_dropdown_options sample_builtins cargo_db 1 ''CARGO_NAME'' None True"
proof -
  have t: "find (\<lambda>t. et_id t = 9) (entity_types cargo_db) = None"
    by (simp add: cargo_defs)
  have a: "find_active_attribute cargo_db 1 ''NO_SUCH'' = None"
    by (simp add: find_active_attribute_def cargo_defs)
  show ?thesis
    using t a
      dropdown_unresolved_source_is_empty
        [of 9 cargo_db "''CARGO_NAME''" sample_builtins None True "''NO_SUCH''"]
      dropdown_unresolved_source_is_empty
        [of 1 cargo_db "''NO_SUCH''" sample_builtins None True "''NO_SUCH''"]
      dropdown_unresolved_source_is_empty
        [of 1 cargo_db "''CARGO_NAME''" sample_builtins None True "''NO_SUCH''"]
    by simp
qed

section \<open>Submissions: from the form to the value tables\<close>

lemma map_of_dict_set:
  "map_of (dict_set d k v) k' = (if k' = k then Some v else map_of d k')"
  by (induction d) auto

lemma keys_dict_set:
  "fst ` set (dict_set d k v) = insert k (fst ` set d)"
  by (induction d) force+

lemma distinct_dict_set:
  "distinct (map fst d) \<Longrightarrow> distinct (map fst (dict_set d k v))"
proof (induction d)
  case Nil
  show ?case by simp
next
  case (Cons p d)
  obtain k' v' where p: "p = (k', v')" by (cases p)
  show ?case
  proof (cases "k' = k")
    case True
    with Cons.prems p show ?thesis by simp
  next
    case False
    have "k' \<notin> fst ` set (dict_set d k v)"
      using Cons.prems p False by (simp add: keys_dict_set)
    with Cons p False show ?thesis by simp
  qed
qed

lemma process_field_result:
  "process_field bi request_form attribute_values f = Inr attribute_values' \<Longrightarrow>
   attribute_values' = attribute_values \<or>
   (\<exists>x. attribute_values' = dict_set attribute_values (ad_code (attribute_definition f)) x)"
  by (auto simp: process_field_def Let_def split: if_splits option.splits)

lemma process_field_other:
  assumes "process_field bi request_form attribute_values g = Inr attribute_values'"
    and "ad_code (attribute_definition g) \<noteq> c"
  shows "map_of attribute_values' c = map_of attribute_values c"
  using process_field_result [OF assms(1)] assms(2) by (auto simp: map_of_dict_set)

lemma process_field_distinct:
  assumes "process_field bi request_form attribute_values g = Inr attribute_values'"
    and "distinct (map fst attribute_values)"
  shows "distinct (map fst attribute_values')"
  using process_field_result [OF assms(1)] assms(2) by (auto simp: distinct_dict_set)

lemma process_fields_other:
  "process_fields bi request_form attribute_values form_fields = Inr attribute_values' \<Longrightarrow>
   \<forall>g \<in> set form_fields. ad_code (attribute_definition g) \<noteq> c \<Longrightarrow>
   map_of attribute_values' c = map_of attribute_values c"
proof (induction form_fields arbitrary: attribute_values)
  case Nil
  then show ?case by simp
next
  case (Cons g form_fields)
  from Cons.prems(1) obtain mid where
    m: "process_field bi request_form attribute_values g = Inr mid"
    and r: "process_fields bi request_form mid form_fields = Inr attribute_values'"
    by (auto split: sum.splits)
  have "map_of mid c = map_of attribute_values c"
    using m Cons.prems(2) by (simp add: process_field_other)
  moreover have "map_of attribute_values' c = map_of mid c"
    using r Cons.prems(2) by (simp add: Cons.IH)
  ultimately show ?case by simp
qed

lemma process_fields_distinct:
  "process_fields bi request_form attribute_values form_fields = Inr attribute_values' \<Longrightarrow>
   distinct (map fst attribute_values) \<Longrightarrow> distinct (map fst attribute_values')"
proof (induction form_fields arbitrary: attribute_values)
  case Nil
  then show ?case by simp
next
  case (Cons g form_fields)
  from Cons.prems(1) obtain mid where
    m: "process_field bi request_form attribute_values g = Inr mid"
    and r: "process_fields bi request_form mid form_fields = Inr attribute_values'"
    by (auto split: sum.splits)
  have "distinct (map fst mid)"
    using m Cons.prems(2) by (rule process_field_distinct)
  with r show ?case by (rule Cons.IH)
qed

text \<open>
  On a form that names every attribute code once, the entry of a code in the dictionary
  is what the field of that code makes of it: the other fields leave the entry alone.
\<close>

lemma process_fields_field:
  assumes "distinct (map (\<lambda>g. ad_code (attribute_definition g)) form_fields)"
    and "f \<in> set form_fields"
    and "process_fields bi request_form attribute_values form_fields = Inr attribute_values'"
  shows "\<exists>m m'. map_of m (ad_code (attribute_definition f)) =
                   map_of attribute_values (ad_code (attribute_definition f)) \<and>
                 process_field bi request_form m f = Inr m' \<and>
                 map_of attribute_values' (ad_code (attribute_definition f)) =
                   map_of m' (ad_code (attribute_definition f))"
  using assms
proof (induction form_fields arbitrary: attribute_values)
  case Nil
  then show ?case by simp
next
  case (Cons g form_fields)
  let ?c = "ad_code (attribute_definition f)"
  from Cons.prems(3) obtain mid where
    m: "process_field bi request_form attribute_values g = Inr mid"
    and r: "process_fields bi request_form mid form_fields = Inr attribute_values'"
    by (auto split: sum.splits)
  have d: "distinct (map (\<lambda>g. ad_code (attribute_definition g)) form_fields)"
    and n: "ad_code (attribute_definition g) \<notin>
              set (map (\<lambda>g. ad_code (attribute_definition g)) form_fields)"
    using Cons.prems(1) by simp_all
  show ?case
  proof (cases "f \<in> set form_fields")
    case True
    then have "ad_code (attribute_definition g) \<noteq> ?c"
      using n by auto
    with m have e: "map_of mid ?c = map_of attribute_values ?c"
      by (rule process_field_other)
    from Cons.IH [OF d True r] obtain m0 m1 where
      "map_of m0 ?c = map_of mid ?c" "process_field bi request_form m0 f = Inr m1"
      "map_of attribute_values' ?c = map_of m1 ?c"
      by blast
    with e show ?thesis by auto
  next
    case False
    with Cons.prems(2) have fg: "f = g" by simp
    have "\<forall>h \<in> set form_fields. ad_code (attribute_definition h) \<noteq> ?c"
      using n fg by (metis (mono_tags, lifting) image_eqI set_map)
    with r have "map_of attribute_values' ?c = map_of mid ?c"
      by (rule process_fields_other)
    with m fg show ?thesis by auto
  qed
qed

lemma set_attribute_value_keeps_schema:
  assumes "set_attribute_value bi db self k v = Inr (ok, db')"
  shows "attribute_definitions db' = attribute_definitions db \<and>
         entity_instances db' = entity_instances db"
proof (cases "find_attribute db (ei_entity_type_id self) k")
  case None
  with assms show ?thesis by (simp add: set_attribute_value_def)
next
  case (Some a)
  show ?thesis
    using assms Some
    by (cases "ad_data_type a") (auto simp: set_attribute_value_def split: sum.splits)
qed

text \<open>
  A write through one attribute leaves the first row of every other attribute, in each
  of the four tables, as it was.
\<close>

lemma set_attribute_value_frame:
  assumes s: "set_attribute_value bi db self k v = Inr (ok, db')"
    and f: "find_attribute db (ei_entity_type_id self) k = Some a'"
    and d: "aid \<noteq> ad_id a'"
  shows "first_value (text_values db') iid aid = first_value (text_values db) iid aid \<and>
         first_value (numeric_values db') iid aid = first_value (numeric_values db) iid aid \<and>
         first_value (datetime_values db') iid aid = first_value (datetime_values db) iid aid \<and>
         first_value (boolean_values db') iid aid = first_value (boolean_values db) iid aid"
  using s f d
  by (cases "ad_data_type a'")
     (auto simp: set_attribute_value_def first_value_write_value_other split: sum.splits)

lemma find_attribute_code:
  "find_attribute db etid code = Some a \<Longrightarrow> ad_code a = code"
  by (auto simp: find_attribute_def find_Some_iff)

lemma set_attribute_value_other_code:
  assumes k: "distinct (map ad_id (attribute_definitions db))"
    and n: "k \<noteq> c"
    and s: "set_attribute_value bi db self k v = Inr (ok, db')"
  shows "get_attribute_value db' self c = get_attribute_value db self c"
proof (cases "find_attribute db (ei_entity_type_id self) k")
  case None
  with s show ?thesis by (simp add: set_attribute_value_def)
next
  case (Some a')
  note sch = set_attribute_value_keeps_schema [OF s]
  show ?thesis
  proof (cases "find_attribute db (ei_entity_type_id self) c")
    case None
    then show ?thesis using sch by (simp add: get_attribute_value_def find_attribute_def)
  next
    case a: (Some a)
    have "ad_code a' = k" "ad_code a = c"
      using Some a by (simp_all add: find_attribute_code)
    with n have "a \<noteq> a'" by auto
    moreover have "a \<in> set (attribute_definitions db)" "a' \<in> set (attribute_definitions db)"
      using Some a by (simp_all add: find_attribute_member)
    ultimately have "ad_id a \<noteq> ad_id a'"
      using k distinct_ids_same by blast
    from set_attribute_value_frame [OF s Some this, of "ei_id self"] a sch
    show ?thesis by (simp add: get_attribute_value_def find_attribute_def)
  qed
qed

lemma update_loop_keeps_schema:
  "update_loop bi db self items = Inr db' \<Longrightarrow>
   attribute_definitions db' = attribute_definitions db \<and>
   entity_instances db' = entity_instances db"
proof (induction items arbitrary: db)
  case Nil
  then show ?case by simp
next
  case (Cons p items)
  obtain k v where p: "p = (k, v)" by (cases p)
  from Cons.prems p obtain ok mid where
    s: "set_attribute_value bi db self k v = Inr (ok, mid)"
    and r: "update_loop bi mid self items = Inr db'"
    by (auto split: sum.splits)
  show ?case
    using Cons.IH [OF r] set_attribute_value_keeps_schema [OF s] by simp
qed

lemma create_loop_keeps_schema:
  "create_loop bi db self items = Inr db' \<Longrightarrow>
   attribute_definitions db' = attribute_definitions db \<and>
   entity_instances db' = entity_instances db"
proof (induction items arbitrary: db)
  case Nil
  then show ?case by simp
next
  case (Cons p items)
  obtain k v where p: "p = (k, v)" by (cases p)
  show ?case
  proof (cases "v = PNone")
    case True
    with Cons p show ?thesis by simp
  next
    case False
    with Cons.prems p obtain ok mid where
      s: "set_attribute_value bi db self k v = Inr (ok, mid)"
      and r: "create_loop bi mid self items = Inr db'"
      by (auto split: sum.splits)
    show ?thesis
      using Cons.IH [OF r] set_attribute_value_keeps_schema [OF s] by simp
  qed
qed

text \<open>The loops leave an attribute as it reads when no entry writes it.\<close>

lemma update_loop_other:
  "distinct (map ad_id (attribute_definitions db)) \<Longrightarrow> c \<notin> fst ` set items \<Longrightarrow>
   update_loop bi db self items = Inr db' \<Longrightarrow>
   get_attribute_value db' self c = get_attribute_value db self c"
proof (induction items arbitrary: db)
  case Nil
  then show ?case by simp
next
  case (Cons p items)
  obtain k v where p: "p = (k, v)" by (cases p)
  from Cons.prems(3) p obtain ok mid where
    s: "set_attribute_value bi db self k v = Inr (ok, mid)"
    and r: "update_loop bi mid self items = Inr db'"
    by (auto split: sum.splits)
  have n: "k \<noteq> c" "c \<notin> fst ` set items"
    using Cons.prems(2) p by auto
  have m: "distinct (map ad_id (attribute_definitions mid))"
    using Cons.prems(1) set_attribute_value_keeps_schema [OF s] by simp
  have "get_attribute_value db' self c = get_attribute_value mid self c"
    using m n(2) r by (rule Cons.IH)
  also have "\<dots> = get_attribute_value db self c"
    using Cons.prems(1) n(1) s by (rule set_attribute_value_other_code)
  finally show ?case .
qed

lemma create_loop_other:
  "distinct (map ad_id (attribute_definitions db)) \<Longrightarrow>
   map_of items c = None \<or> map_of items c = Some PNone \<Longrightarrow> distinct (map fst items) \<Longrightarrow>
   create_loop bi db self items = Inr db' \<Longrightarrow>
   get_attribute_value db' self c = get_attribute_value db self c"
proof (induction items arbitrary: db)
  case Nil
  then show ?case by simp
next
  case (Cons p items)
  obtain k v where p: "p = (k, v)" by (cases p)
  have t: "map_of items c = None \<or> map_of items c = Some PNone"
  proof (cases "k = c")
    case True
    then have "c \<notin> fst ` set items" using Cons.prems(3) p by simp
    then show ?thesis by (simp add: map_of_eq_None_iff)
  next
    case False
    with Cons.prems(2) p show ?thesis by simp
  qed
  have di: "distinct (map fst items)" using Cons.prems(3) by simp
  show ?case
  proof (cases "v = PNone")
    case True
    with Cons.prems(4) p have r: "create_loop bi db self items = Inr db'" by simp
    show ?thesis using Cons.prems(1) t di r by (rule Cons.IH)
  next
    case False
    with Cons.prems(4) p obtain ok mid where
      s: "set_attribute_value bi db self k v = Inr (ok, mid)"
      and r: "create_loop bi mid self items = Inr db'"
      by (auto split: sum.splits)
    have n: "k \<noteq> c"
      using Cons.prems(2) p False by auto
    have m: "distinct (map ad_id (attribute_definitions mid))"
      using Cons.prems(1) set_attribute_value_keeps_schema [OF s] by simp
    have "get_attribute_value db' self c = get_attribute_value mid self c"
      using m t di r by (rule Cons.IH)
    also have "\<dots> = get_attribute_value db self c"
      using Cons.prems(1) n s by (rule set_attribute_value_other_code)
    finally show ?thesis .
  qed
qed


text \<open>
  A write through one attribute leaves the rows of every other attribute, in each of the
  four tables, as they were.
\<close>

lemma set_attribute_value_rows_frame:
  assumes s: "set_attribute_value bi db self k v = Inr (ok, db')"
    and f: "find_attribute db (ei_entity_type_id self) k = Some a'"
    and d: "aid \<noteq> ad_id a'"
  shows "stored_rows db' aid = stored_rows db aid"
proof -
  consider (textual) "ad_data_type a' = VARCHAR \<or> ad_data_type a' = TEXT"
    | (numeric) "ad_data_type a' = INTEGER \<or> ad_data_type a' = BIGINT \<or> ad_data_type a' = DECIMAL"
    | (temporal) "ad_data_type a' = DATE \<or> ad_data_type a' = DATETIME \<or> ad_data_type a' = TIMESTAMP"
    | (boolean) "ad_data_type a' = BOOLEAN"
    | (json) "ad_data_type a' = JSON"
    by (cases "ad_data_type a'") simp_all
  then show ?thesis
  proof cases
    case textual
    from set_attribute_value_text [OF s f textual] obtain rows where
      w: "write_value (text_values db) (ei_id self) (ad_id a')
            (coerced (\<lambda>x. Inr (py_str bi x)) v) = Inr rows"
      and e: "db' = db\<lparr>text_values := rows\<rparr>"
      by auto
    have "attribute_rows rows aid = attribute_rows (text_values db) aid"
      using w d by (rule write_value_attribute_rows_other)
    then show ?thesis by (simp add: e stored_rows_def)
  next
    case numeric
    from set_attribute_value_numeric [OF s f numeric] obtain rows where
      w: "write_value (numeric_values db) (ei_id self) (ad_id a')
            (coerced (py_float bi) v) = Inr rows"
      and e: "db' = db\<lparr>numeric_values := rows\<rparr>"
      by auto
    have "attribute_rows rows aid = attribute_rows (numeric_values db) aid"
      using w d by (rule write_value_attribute_rows_other)
    then show ?thesis by (simp add: e stored_rows_def)
  next
    case temporal
    from set_attribute_value_datetime [OF s f temporal] obtain rows where
      w: "write_value (datetime_values db) (ei_id self) (ad_id a')
            (coerced bind_datetime v) = Inr rows"
      and e: "db' = db\<lparr>datetime_values := rows\<rparr>"
      by auto
    have "attribute_rows rows aid = attribute_rows (datetime_values db) aid"
      using w d by (rule write_value_attribute_rows_other)
    then show ?thesis by (simp add: e stored_rows_def)
  next
    case boolean
    from set_attribute_value_boolean [OF s f boolean] obtain rows where
      w: "write_value (boolean_values db) (ei_id self) (ad_id a')
            (coerced (\<lambda>x. Inr (py_bool bi x)) v) = Inr rows"
      and e: "db' = db\<lparr>boolean_values := rows\<rparr>"
      by auto
    have "attribute_rows rows aid = attribute_rows (boolean_values db) aid"
      using w d by (rule write_value_attribute_rows_other)
    then show ?thesis by (simp add: e stored_rows_def)
  next
    case json
    from set_attribute_value_json [OF s f json] show ?thesis by simp
  qed
qed

lemma set_attribute_value_other_rows:
  assumes k: "distinct (map ad_id (attribute_definitions db))"
    and n: "k \<noteq> c"
    and a: "find_attribute db (ei_entity_type_id self) c = Some a"
    and s: "set_attribute_value bi db self k v = Inr (ok, db')"
  shows "stored_rows db' (ad_id a) = stored_rows db (ad_id a)"
proof (cases "find_attribute db (ei_entity_type_id self) k")
  case None
  with s show ?thesis by (simp add: set_attribute_value_def)
next
  case (Some a')
  have "ad_code a' = k" "ad_code a = c"
    using Some a by (simp_all add: find_attribute_code)
  with n have "a \<noteq> a'" by auto
  moreover have "a \<in> set (attribute_definitions db)" "a' \<in> set (attribute_definitions db)"
    using Some a by (simp_all add: find_attribute_member)
  ultimately have "ad_id a \<noteq> ad_id a'"
    using k distinct_ids_same by blast
  with s Some show ?thesis by (rule set_attribute_value_rows_frame)
qed

lemma find_attribute_schema:
  "attribute_definitions db' = attribute_definitions db \<Longrightarrow>
   find_attribute db' etid code = find_attribute db etid code"
  by (simp add: find_attribute_def)

lemma update_loop_other_rows:
  "distinct (map ad_id (attribute_definitions db)) \<Longrightarrow> c \<notin> fst ` set items \<Longrightarrow>
   find_attribute db (ei_entity_type_id self) c = Some a \<Longrightarrow>
   update_loop bi db self items = Inr db' \<Longrightarrow>
   stored_rows db' (ad_id a) = stored_rows db (ad_id a)"
proof (induction items arbitrary: db)
  case Nil
  then show ?case by simp
next
  case (Cons p items)
  obtain k v where p: "p = (k, v)" by (cases p)
  from Cons.prems(4) p obtain ok mid where
    s: "set_attribute_value bi db self k v = Inr (ok, mid)"
    and r: "update_loop bi mid self items = Inr db'"
    by (auto split: sum.splits)
  have n: "k \<noteq> c" "c \<notin> fst ` set items"
    using Cons.prems(2) p by auto
  note sch = set_attribute_value_keeps_schema [OF s]
  have m: "distinct (map ad_id (attribute_definitions mid))"
    using Cons.prems(1) sch by simp
  have fm: "find_attribute mid (ei_entity_type_id self) c = Some a"
    using Cons.prems(3) sch by (simp add: find_attribute_def)
  have "stored_rows db' (ad_id a) = stored_rows mid (ad_id a)"
    using m n(2) fm r by (rule Cons.IH)
  also have "\<dots> = stored_rows db (ad_id a)"
    using Cons.prems(1) n(1) Cons.prems(3) s by (rule set_attribute_value_other_rows)
  finally show ?case .
qed

lemma create_loop_other_rows:
  "distinct (map ad_id (attribute_definitions db)) \<Longrightarrow>
   map_of items c = None \<or> map_of items c = Some PNone \<Longrightarrow> distinct (map fst items) \<Longrightarrow>
   find_attribute db (ei_entity_type_id self) c = Some a \<Longrightarrow>
   create_loop bi db self items = Inr db' \<Longrightarrow>
   stored_rows db' (ad_id a) = stored_rows db (ad_id a)"
proof (induction items arbitrary: db)
  case Nil
  then show ?case by simp
next
  case (Cons p items)
  obtain k v where p: "p = (k, v)" by (cases p)
  have t: "map_of items c = None \<or> map_of items c = Some PNone"
  proof (cases "k = c")
    case True
    then have "c \<notin> fst ` set items" using Cons.prems(3) p by simp
    then show ?thesis by (simp add: map_of_eq_None_iff)
  next
    case False
    with Cons.prems(2) p show ?thesis by simp
  qed
  have di: "distinct (map fst items)" using Cons.prems(3) by simp
  show ?case
  proof (cases "v = PNone")
    case True
    with Cons.prems(5) p have r: "create_loop bi db self items = Inr db'" by simp
    show ?thesis using Cons.prems(1) t di Cons.prems(4) r by (rule Cons.IH)
  next
    case False
    with Cons.prems(5) p obtain ok mid where
      s: "set_attribute_value bi db self k v = Inr (ok, mid)"
      and r: "create_loop bi mid self items = Inr db'"
      by (auto split: sum.splits)
    have n: "k \<noteq> c"
      using Cons.prems(2) p False by auto
    note sch = set_attribute_value_keeps_schema [OF s]
    have m: "distinct (map ad_id (attribute_definitions mid))"
      using Cons.prems(1) sch by simp
    have fm: "find_attribute mid (ei_entity_type_id self) c = Some a"
      using Cons.prems(4) sch by (simp add: find_attribute_def)
    have "stored_rows db' (ad_id a) = stored_rows mid (ad_id a)"
      using m t di fm r by (rule Cons.IH)
    also have "\<dots> = stored_rows db (ad_id a)"
      using Cons.prems(1) n Cons.prems(4) s by (rule set_attribute_value_other_rows)
    finally show ?thesis .
  qed
qed

text \<open>
  The entry of a code in the dictionary is written by one call of
  \<open>set_attribute_value\<close>, and the attribute reads after the loop as it reads after
  that call.
\<close>

lemma update_loop_entry:
  "distinct (map ad_id (attribute_definitions db)) \<Longrightarrow> distinct (map fst items) \<Longrightarrow>
   (c, x) \<in> set items \<Longrightarrow> update_loop bi db self items = Inr db' \<Longrightarrow>
   \<exists>d1 ok d2. attribute_definitions d1 = attribute_definitions db \<and>
     (unique_constraints db \<longrightarrow> unique_constraints d1) \<and>
     set_attribute_value bi d1 self c x = Inr (ok, d2) \<and>
     get_attribute_value db' self c = get_attribute_value d2 self c"
proof (induction items arbitrary: db)
  case Nil
  then show ?case by simp
next
  case (Cons p items)
  obtain k v where p: "p = (k, v)" by (cases p)
  from Cons.prems(4) p obtain ok mid where
    s: "set_attribute_value bi db self k v = Inr (ok, mid)"
    and r: "update_loop bi mid self items = Inr db'"
    by (auto split: sum.splits)
  note sch = set_attribute_value_keeps_schema [OF s]
  have m: "distinct (map ad_id (attribute_definitions mid))"
    using Cons.prems(1) sch by simp
  have di: "distinct (map fst items)" "k \<notin> fst ` set items"
    using Cons.prems(2) p by simp_all
  show ?case
  proof (cases "(c, x) \<in> set items")
    case True
    from Cons.IH [OF m di(1) True r] obtain d1 ok1 d2 where
      h: "attribute_definitions d1 = attribute_definitions mid"
      "unique_constraints mid \<longrightarrow> unique_constraints d1"
      "set_attribute_value bi d1 self c x = Inr (ok1, d2)"
      "get_attribute_value db' self c = get_attribute_value d2 self c"
      by blast
    have u: "unique_constraints db \<longrightarrow> unique_constraints d1"
      using h(2) set_attribute_value_keeps_unique [OF _ s] by blast
    have a: "attribute_definitions d1 = attribute_definitions db"
      using h(1) sch by simp
    show ?thesis
      by (rule exI [of _ d1], rule exI [of _ ok1], rule exI [of _ d2]) (intro conjI a u h(3) h(4))
  next
    case False
    with Cons.prems(3) p have e: "c = k" "x = v" by simp_all
    have g: "get_attribute_value db' self c = get_attribute_value mid self c"
      using m di(2) r unfolding e by (rule update_loop_other)
    have s': "set_attribute_value bi db self c x = Inr (ok, mid)"
      using s e by simp
    have u: "unique_constraints db \<longrightarrow> unique_constraints db" by simp
    show ?thesis
      by (rule exI [of _ db], rule exI [of _ ok], rule exI [of _ mid]) (intro conjI refl u s' g)
  qed
qed

lemma create_loop_entry:
  "distinct (map ad_id (attribute_definitions db)) \<Longrightarrow> distinct (map fst items) \<Longrightarrow>
   (c, x) \<in> set items \<Longrightarrow> x \<noteq> PNone \<Longrightarrow> create_loop bi db self items = Inr db' \<Longrightarrow>
   \<exists>d1 ok d2. attribute_definitions d1 = attribute_definitions db \<and>
     set_attribute_value bi d1 self c x = Inr (ok, d2) \<and>
     get_attribute_value db' self c = get_attribute_value d2 self c"
proof (induction items arbitrary: db)
  case Nil
  then show ?case by simp
next
  case (Cons p items)
  obtain k v where p: "p = (k, v)" by (cases p)
  have di: "distinct (map fst items)" "k \<notin> fst ` set items"
    using Cons.prems(2) p by simp_all
  show ?case
  proof (cases "v = PNone")
    case True
    with Cons.prems(5) p have r: "create_loop bi db self items = Inr db'" by simp
    from True Cons.prems(3,4) p have i: "(c, x) \<in> set items" by auto
    show ?thesis
      using Cons.prems(1) di(1) i Cons.prems(4) r by (rule Cons.IH)
  next
    case False
    with Cons.prems(5) p obtain ok mid where
      s: "set_attribute_value bi db self k v = Inr (ok, mid)"
      and r: "create_loop bi mid self items = Inr db'"
      by (auto split: sum.splits)
    note sch = set_attribute_value_keeps_schema [OF s]
    have m: "distinct (map ad_id (attribute_definitions mid))"
      using Cons.prems(1) sch by simp
    show ?thesis
    proof (cases "(c, x) \<in> set items")
      case True
      from Cons.IH [OF m di(1) True Cons.prems(4) r] obtain d1 ok1 d2 where
        h: "attribute_definitions d1 = attribute_definitions mid"
        "set_attribute_value bi d1 self c x = Inr (ok1, d2)"
        "get_attribute_value db' self c = get_attribute_value d2 self c"
        by blast
      have a: "attribute_definitions d1 = attribute_definitions db"
        using h(1) sch by simp
      show ?thesis
        by (rule exI [of _ d1], rule exI [of _ ok1], rule exI [of _ d2]) (intro conjI a h(2) h(3))
    next
      case nin: False
      with Cons.prems(3) p have e: "c = k" "x = v" by simp_all
      have "map_of items k = None"
        using di(2) by (simp add: map_of_eq_None_iff)
      then have "map_of items k = None \<or> map_of items k = Some PNone" by simp
      then have g: "get_attribute_value db' self c = get_attribute_value mid self c"
        using m di(1) r unfolding e by (intro create_loop_other)
      have s': "set_attribute_value bi db self c x = Inr (ok, mid)"
        using s e by simp
      show ?thesis
        by (rule exI [of _ db], rule exI [of _ ok], rule exI [of _ mid]) (intro conjI refl s' g)
    qed
  qed
qed

lemma strip_nonempty: "strip v \<noteq> [] \<Longrightarrow> v \<noteq> []"
  by (auto simp: strip_def)

lemma write_value_Some_Inr:
  "\<exists>rows'. write_value rows iid aid (Some (Inr x)) = Inr rows'"
  by (simp add: write_value_def split: option.splits)

text \<open>What the loop of \<open>process_form_data\<close> makes of one field.\<close>

lemma process_field_empty_required:
  "field_required f \<Longrightarrow>
   empty_value (request_form (''attr_'' @ ad_code (attribute_definition f))) \<Longrightarrow>
   process_field bi request_form attribute_values f = Inr attribute_values"
  by (auto simp: process_field_def empty_value_def Let_def split: option.splits)

lemma process_field_empty_optional:
  "ffc_is_visible f \<Longrightarrow> \<not> field_required f \<Longrightarrow>
   empty_value (request_form (''attr_'' @ ad_code (attribute_definition f))) \<Longrightarrow>
   process_field bi request_form attribute_values f =
     Inr (dict_set attribute_values (ad_code (attribute_definition f)) PNone)"
  by (auto simp: process_field_def empty_value_def Let_def split: option.splits)

lemma process_field_boolean:
  "ffc_is_visible f \<Longrightarrow> ad_data_type (attribute_definition f) = BOOLEAN \<Longrightarrow>
   request_form (''attr_'' @ ad_code (attribute_definition f)) = Some v \<Longrightarrow> strip v \<noteq> [] \<Longrightarrow>
   process_field bi request_form attribute_values f =
     Inr (dict_set attribute_values (ad_code (attribute_definition f))
            (PBool (lower v \<in> set [''true'', ''1'', ''yes'', ''on''])))"
  using strip_nonempty [of v] by (simp add: process_field_def convert_value_def Let_def)

lemma process_field_error:
  "process_field bi request_form attribute_values g = Inl e \<longleftrightarrow>
   ffc_is_visible g \<and> field_required g \<and>
   (\<exists>w. request_form (''attr_'' @ ad_code (attribute_definition g)) = Some w \<and> strip w \<noteq> [] \<and>
        convert_value bi (ad_data_type (attribute_definition g)) w = None \<and>
        e = ValueError (''Invalid value for '' @ ad_name (attribute_definition g) @ '': '' @ w))"
  using strip_nonempty
  by (auto simp: process_field_def Let_def split: option.splits)

lemma process_fields_error:
  "process_fields bi request_form attribute_values form_fields = Inl e \<Longrightarrow>
   \<exists>g \<in> set form_fields. \<exists>m. process_field bi request_form m g = Inl e"
proof (induction form_fields arbitrary: attribute_values)
  case Nil
  then show ?case by simp
next
  case (Cons g form_fields)
  show ?case
  proof (cases "process_field bi request_form attribute_values g")
    case (Inl e')
    with Cons.prems have "e' = e" by simp
    with Inl show ?thesis by auto
  next
    case (Inr mid)
    with Cons.prems have "process_fields bi request_form mid form_fields = Inl e" by simp
    from Cons.IH [OF this] show ?thesis by auto
  qed
qed

lemma process_fields_fails:
  "g \<in> set form_fields \<Longrightarrow> process_field bi request_form m g = Inl e \<Longrightarrow>
   \<exists>e'. process_fields bi request_form attribute_values form_fields = Inl e'"
proof (induction form_fields arbitrary: attribute_values)
  case Nil
  then show ?case by simp
next
  case (Cons h form_fields)
  show ?case
  proof (cases "process_field bi request_form attribute_values h")
    case (Inl e')
    then show ?thesis by simp
  next
    case (Inr mid)
    have "g \<noteq> h"
    proof
      assume "g = h"
      with Cons.prems(2) have "process_field bi request_form attribute_values h = Inl e"
        by (simp add: process_field_error)
      with Inr show False by simp
    qed
    with Cons.prems(1) have "g \<in> set form_fields" by simp
    from Cons.IH [OF this Cons.prems(2), of mid] Inr show ?thesis by simp
  qed
qed

lemma process_form_data_distinct:
  "process_form_data bi form_fields request_form = Inr attribute_values \<Longrightarrow>
   distinct (map fst attribute_values)"
  using process_fields_distinct [of bi request_form "[]" form_fields attribute_values]
  by (simp add: process_form_data_def)

lemma process_form_data_field:
  assumes "distinct (map (\<lambda>g. ad_code (attribute_definition g)) form_fields)"
    and "f \<in> set form_fields"
    and "process_form_data bi form_fields request_form = Inr attribute_values"
  shows "\<exists>m m'. map_of m (ad_code (attribute_definition f)) = None \<and>
                 process_field bi request_form m f = Inr m' \<and>
                 map_of attribute_values (ad_code (attribute_definition f)) =
                   map_of m' (ad_code (attribute_definition f))"
  using process_fields_field [OF assms(1,2) assms(3) [unfolded process_form_data_def]]
  by simp

lemma process_form_data_boolean:
  assumes "distinct (map (\<lambda>g. ad_code (attribute_definition g)) form_fields)"
    and "f \<in> set form_fields"
    and "process_form_data bi form_fields request_form = Inr attribute_values"
    and "ffc_is_visible f" and "ad_data_type (attribute_definition f) = BOOLEAN"
    and "request_form (''attr_'' @ ad_code (attribute_definition f)) = Some v"
    and "strip v \<noteq> []"
  shows "map_of attribute_values (ad_code (attribute_definition f)) =
           Some (PBool (lower v \<in> set [''true'', ''1'', ''yes'', ''on'']))"
proof -
  from process_form_data_field [OF assms(1-3)] obtain m m' where
    p: "process_field bi request_form m f = Inr m'"
    and e: "map_of attribute_values (ad_code (attribute_definition f)) =
              map_of m' (ad_code (attribute_definition f))"
    by auto
  have "m' = dict_set m (ad_code (attribute_definition f))
               (PBool (lower v \<in> set [''true'', ''1'', ''yes'', ''on'']))"
    using p assms(4-7)
      process_field_boolean [where f = f and request_form = request_form and v = v and bi = bi
        and attribute_values = m]
    by simp
  with e show ?thesis by (simp add: map_of_dict_set)
qed

lemma process_form_data_empty_required:
  assumes "distinct (map (\<lambda>g. ad_code (attribute_definition g)) form_fields)"
    and "f \<in> set form_fields"
    and "process_form_data bi form_fields request_form = Inr attribute_values"
    and "field_required f"
    and "empty_value (request_form (''attr_'' @ ad_code (attribute_definition f)))"
  shows "map_of attribute_values (ad_code (attribute_definition f)) = None"
proof -
  from process_form_data_field [OF assms(1-3)] obtain m m' where
    n: "map_of m (ad_code (attribute_definition f)) = None"
    and p: "process_field bi request_form m f = Inr m'"
    and e: "map_of attribute_values (ad_code (attribute_definition f)) =
              map_of m' (ad_code (attribute_definition f))"
    by auto
  have "m' = m"
    using p assms(4,5)
      process_field_empty_required [where f = f and request_form = request_form and bi = bi
        and attribute_values = m]
    by simp
  with e n show ?thesis by simp
qed

lemma process_form_data_empty_optional:
  assumes "distinct (map (\<lambda>g. ad_code (attribute_definition g)) form_fields)"
    and "f \<in> set form_fields"
    and "process_form_data bi form_fields request_form = Inr attribute_values"
    and "ffc_is_visible f" and "\<not> field_required f"
    and "empty_value (request_form (''attr_'' @ ad_code (attribute_definition f)))"
  shows "map_of attribute_values (ad_code (attribute_definition f)) = Some PNone"
proof -
  from process_form_data_field [OF assms(1-3)] obtain m m' where
    p: "process_field bi request_form m f = Inr m'"
    and e: "map_of attribute_values (ad_code (attribute_definition f)) =
              map_of m' (ad_code (attribute_definition f))"
    by auto
  have "m' = dict_set m (ad_code (attribute_definition f)) PNone"
    using p assms(4-6)
      process_field_empty_optional [where f = f and request_form = request_form and bi = bi
        and attribute_values = m]
    by simp
  with e show ?thesis by (simp add: map_of_dict_set)
qed

text \<open>
  A value written to a boolean attribute reads back as its truth value, and None written
  to it reads back as None when the boolean table keeps its unique constraint.
\<close>

lemma set_then_get_truth_value:
  assumes a: "find_attribute db (ei_entity_type_id self) code = Some a"
    and b: "ad_data_type a = BOOLEAN" and x: "x \<noteq> PNone"
  shows "\<exists>db'. set_attribute_value bi db self code x = Inr (True, db') \<and>
           get_attribute_value db' self code = PBool (py_bool bi x)"
proof -
  obtain rows' where w:
    "write_value (boolean_values db) (ei_id self) (ad_id a) (Some (Inr (py_bool bi x))) =
       Inr rows'"
    using write_value_Some_Inr [of "boolean_values db" "ei_id self" "ad_id a" "py_bool bi x"]
    by auto
  obtain r where r: "first_value rows' (ei_id self) (ad_id a) = Some r"
    "av_value r = py_bool bi x"
    using first_value_write_value [OF w] by auto
  have s: "set_attribute_value bi db self code x = Inr (True, db\<lparr>boolean_values := rows'\<rparr>)"
    using a w x by (simp add: b set_attribute_value_def coerced_def)
  have g: "get_attribute_value (db\<lparr>boolean_values := rows'\<rparr>) self code = PBool (py_bool bi x)"
    using a r by (simp add: b get_attribute_value_def find_attribute_def)
  show ?thesis
    by (rule exI [of _ "db\<lparr>boolean_values := rows'\<rparr>"]) (intro conjI s g)
qed

lemma set_none_then_get_none_boolean:
  assumes a: "find_attribute db (ei_entity_type_id self) code = Some a"
    and b: "ad_data_type a = BOOLEAN" and u: "unique_constraints db"
  shows "\<exists>db'. set_attribute_value bi db self code PNone = Inr (True, db') \<and>
           get_attribute_value db' self code = PNone"
proof -
  let ?rows = "delete_first (is_value_of (ei_id self) (ad_id a)) (boolean_values db)"
  have "pair_rows ?rows (ei_id self) (ad_id a) = 0"
    using u by (simp add: unique_constraints_def pair_rows_delete_first)
  then have n: "first_value ?rows (ei_id self) (ad_id a) = None"
    by (rule first_value_no_pair_rows)
  have s: "set_attribute_value bi db self code PNone = Inr (True, db\<lparr>boolean_values := ?rows\<rparr>)"
    using a by (simp add: b set_attribute_value_def coerced_def write_value_None)
  have g: "get_attribute_value (db\<lparr>boolean_values := ?rows\<rparr>) self code = PNone"
    using a n by (simp add: b get_attribute_value_def find_attribute_def)
  show ?thesis
    by (rule exI [of _ "db\<lparr>boolean_values := ?rows\<rparr>"]) (intro conjI s g)
qed

text \<open>A successful submission, taken apart.\<close>

lemma entity_create_success:
  assumes "entity_create bi db etid form_fields request_form u = (Inr inst, db')"
  shows "\<exists>attribute_values.
           process_form_data bi form_fields request_form = Inr attribute_values \<and>
           ei_entity_type_id inst = etid \<and>
           create_loop bi (db\<lparr>entity_instances := entity_instances db @ [inst]\<rparr>) inst
             attribute_values = Inr db'"
  using assms
  by (auto simp: entity_create_def create_entity_instance_with_attributes_def Let_def
      split: sum.splits)

lemma entity_edit_success:
  assumes "entity_edit bi db iid form_fields request_form u = (Inr (Some inst), db')"
  shows "\<exists>attribute_values instances.
           process_form_data bi form_fields request_form = Inr attribute_values \<and>
           ei_id inst = iid \<and>
           update_loop bi (db\<lparr>entity_instances := instances\<rparr>) inst attribute_values = Inr db'"
proof -
  from assms obtain attribute_values where
    p: "process_form_data bi form_fields request_form = Inr attribute_values"
    and up: "update_entity_instance_attributes bi db iid attribute_values (Some u) =
               (Inr (Some inst), db')"
    by (auto simp: entity_edit_def split: sum.splits)
  from up obtain found where
    f: "find (\<lambda>i. ei_id i = iid) (entity_instances db) = Some found"
    by (auto simp: update_entity_instance_attributes_def split: option.splits)
  have i: "ei_id found = iid"
    using f by (auto simp: find_Some_iff)
  let ?instances = "update_first (\<lambda>i. ei_id i = iid)
      (\<lambda>i. found\<lparr>ei_updated_by := Some (or_system (Some u))\<rparr>) (entity_instances db)"
  from up f have e: "inst = found\<lparr>ei_updated_by := Some (or_system (Some u))\<rparr>"
    and l: "update_loop bi (db\<lparr>entity_instances := ?instances\<rparr>) inst attribute_values = Inr db'"
    by (auto simp: update_entity_instance_attributes_def Let_def split: sum.splits)
  have "ei_id inst = iid" using e i by simp
  with p l show ?thesis by blast
qed

lemma get_attribute_value_instances:
  "get_attribute_value (db\<lparr>entity_instances := instances\<rparr>) self code =
   get_attribute_value db self code"
  by (cases "find_attribute db (ei_entity_type_id self) code")
     (simp_all add: get_attribute_value_def find_attribute_def)

lemma stored_rows_instances:
  "stored_rows (db\<lparr>entity_instances := instances\<rparr>) aid = stored_rows db aid"
  by (simp add: stored_rows_def)

lemma unique_constraints_instances:
  "unique_constraints (db\<lparr>entity_instances := instances\<rparr>) = unique_constraints db"
  by (simp add: unique_constraints_def)


lemma process_form_data_empty:
  assumes "distinct (map (\<lambda>g. ad_code (attribute_definition g)) form_fields)"
    and "f \<in> set form_fields"
    and "process_form_data bi form_fields request_form = Inr attribute_values"
    and "empty_value (request_form (''attr_'' @ ad_code (attribute_definition f)))"
  shows "map_of attribute_values (ad_code (attribute_definition f)) = None \<or>
         map_of attribute_values (ad_code (attribute_definition f)) = Some PNone"
proof (cases "field_required f \<or> \<not> ffc_is_visible f")
  case True
  from process_form_data_field [OF assms(1-3)] obtain m m' where
    n: "map_of m (ad_code (attribute_definition f)) = None"
    and p: "process_field bi request_form m f = Inr m'"
    and e: "map_of attribute_values (ad_code (attribute_definition f)) =
              map_of m' (ad_code (attribute_definition f))"
    by auto
  have "process_field bi request_form m f = Inr m"
    using True assms(4)
      process_field_empty_required [where f = f and request_form = request_form and bi = bi
        and attribute_values = m]
    by (auto simp: process_field_def)
  with p e n show ?thesis by simp
next
  case False
  then have "map_of attribute_values (ad_code (attribute_definition f)) = Some PNone"
    using process_form_data_empty_optional [OF assms(1-3) _ _ assms(4)] by simp
  then show ?thesis by simp
qed

text \<open>
  Create and edit: an entry of the dictionary is written by one call of
  \<open>set_attribute_value\<close>, after which the attribute reads as it reads at the end; and
  an attribute without an entry (on create also one with the entry None) keeps its rows.
\<close>

lemma create_writes_entry:
  assumes d: "distinct (map ad_id (attribute_definitions db))"
    and c: "entity_create bi db etid form_fields request_form u = (Inr inst, db')"
    and p: "process_form_data bi form_fields request_form = Inr attribute_values"
    and m: "map_of attribute_values code = Some x" and x: "x \<noteq> PNone"
  shows "\<exists>d1 ok d2. attribute_definitions d1 = attribute_definitions db \<and>
           set_attribute_value bi d1 inst code x = Inr (ok, d2) \<and>
           get_attribute_value db' inst code = get_attribute_value d2 inst code"
proof -
  let ?db1 = "db\<lparr>entity_instances := entity_instances db @ [inst]\<rparr>"
  from entity_create_success [OF c] p
  have l: "create_loop bi ?db1 inst attribute_values = Inr db'" by auto
  have d1: "distinct (map ad_id (attribute_definitions ?db1))" using d by simp
  have k: "distinct (map fst attribute_values)"
    using p by (rule process_form_data_distinct)
  have i: "(code, x) \<in> set attribute_values"
    using m by (rule map_of_SomeD)
  from create_loop_entry [OF d1 k i x l] show ?thesis by simp
qed

lemma create_skips_entry:
  assumes d: "distinct (map ad_id (attribute_definitions db))"
    and c: "entity_create bi db etid form_fields request_form u = (Inr inst, db')"
    and p: "process_form_data bi form_fields request_form = Inr attribute_values"
    and m: "map_of attribute_values code = None \<or> map_of attribute_values code = Some PNone"
  shows "entity_instances db' = entity_instances db @ [inst] \<and>
         get_attribute_value db' inst code = get_attribute_value db inst code \<and>
         (find_attribute db etid code = Some a \<longrightarrow>
            stored_rows db' (ad_id a) = stored_rows db (ad_id a))"
proof -
  let ?db1 = "db\<lparr>entity_instances := entity_instances db @ [inst]\<rparr>"
  from entity_create_success [OF c] p
  have l: "create_loop bi ?db1 inst attribute_values = Inr db'"
    and t: "ei_entity_type_id inst = etid" by auto
  have d1: "distinct (map ad_id (attribute_definitions ?db1))" using d by simp
  have k: "distinct (map fst attribute_values)"
    using p by (rule process_form_data_distinct)
  have e: "entity_instances db' = entity_instances db @ [inst]"
    using create_loop_keeps_schema [OF l] by simp
  have "get_attribute_value db' inst code = get_attribute_value ?db1 inst code"
    using d1 m k l by (rule create_loop_other)
  then have g: "get_attribute_value db' inst code = get_attribute_value db inst code"
    by (simp add: get_attribute_value_instances)
  have r: "find_attribute db etid code = Some a \<longrightarrow>
             stored_rows db' (ad_id a) = stored_rows db (ad_id a)"
  proof
    assume "find_attribute db etid code = Some a"
    then have "find_attribute ?db1 (ei_entity_type_id inst) code = Some a"
      using t by (simp add: find_attribute_def)
    with d1 m k have "stored_rows db' (ad_id a) = stored_rows ?db1 (ad_id a)"
      using l by (rule create_loop_other_rows)
    then show "stored_rows db' (ad_id a) = stored_rows db (ad_id a)"
      by (simp add: stored_rows_instances)
  qed
  show ?thesis by (intro conjI e g r)
qed

lemma edit_writes_entry:
  assumes d: "distinct (map ad_id (attribute_definitions db))"
    and c: "entity_edit bi db iid form_fields request_form u = (Inr (Some inst), db')"
    and p: "process_form_data bi form_fields request_form = Inr attribute_values"
    and m: "map_of attribute_values code = Some x"
  shows "\<exists>d1 ok d2. attribute_definitions d1 = attribute_definitions db \<and>
           (unique_constraints db \<longrightarrow> unique_constraints d1) \<and>
           set_attribute_value bi d1 inst code x = Inr (ok, d2) \<and>
           get_attribute_value db' inst code = get_attribute_value d2 inst code"
proof -
  from entity_edit_success [OF c] p obtain instances where
    l: "update_loop bi (db\<lparr>entity_instances := instances\<rparr>) inst attribute_values = Inr db'"
    by auto
  let ?db1 = "db\<lparr>entity_instances := instances\<rparr>"
  have d1: "distinct (map ad_id (attribute_definitions ?db1))" using d by simp
  have k: "distinct (map fst attribute_values)"
    using p by (rule process_form_data_distinct)
  have i: "(code, x) \<in> set attribute_values"
    using m by (rule map_of_SomeD)
  from update_loop_entry [OF d1 k i l] show ?thesis
    by (simp add: unique_constraints_instances)
qed

lemma edit_skips_entry:
  assumes d: "distinct (map ad_id (attribute_definitions db))"
    and c: "entity_edit bi db iid form_fields request_form u = (Inr (Some inst), db')"
    and p: "process_form_data bi form_fields request_form = Inr attribute_values"
    and m: "map_of attribute_values code = None"
  shows "get_attribute_value db' inst code = get_attribute_value db inst code \<and>
         (find_attribute db (ei_entity_type_id inst) code = Some a \<longrightarrow>
            stored_rows db' (ad_id a) = stored_rows db (ad_id a))"
proof -
  from entity_edit_success [OF c] p obtain instances where
    l: "update_loop bi (db\<lparr>entity_instances := instances\<rparr>) inst attribute_values = Inr db'"
    by auto
  let ?db1 = "db\<lparr>entity_instances := instances\<rparr>"
  have d1: "distinct (map ad_id (attribute_definitions ?db1))" using d by simp
  have n: "code \<notin> fst ` set attribute_values"
    using m by (simp add: map_of_eq_None_iff)
  have "get_attribute_value db' inst code = get_attribute_value ?db1 inst code"
    using d1 n l by (rule update_loop_other)
  then have g: "get_attribute_value db' inst code = get_attribute_value db inst code"
    by (simp add: get_attribute_value_instances)
  have r: "find_attribute db (ei_entity_type_id inst) code = Some a \<longrightarrow>
             stored_rows db' (ad_id a) = stored_rows db (ad_id a)"
  proof
    assume "find_attribute db (ei_entity_type_id inst) code = Some a"
    then have "find_attribute ?db1 (ei_entity_type_id inst) code = Some a"
      by (simp add: find_attribute_def)
    with d1 n have "stored_rows db' (ad_id a) = stored_rows ?db1 (ad_id a)"
      using l by (rule update_loop_other_rows)
    then show "stored_rows db' (ad_id a) = stored_rows db (ad_id a)"
      by (simp add: stored_rows_instances)
  qed
  show ?thesis by (intro conjI g r)
qed

text \<open>
  The value of a boolean field after a submission, and the rows of a field whose value
  was empty.
\<close>

lemma boolean_create_reads_parsed:
  assumes d: "distinct (map ad_id (attribute_definitions db))"
    and c: "distinct (map (\<lambda>g. ad_code (attribute_definition g)) form_fields)"
    and f: "f \<in> set form_fields" and v: "ffc_is_visible f"
    and b: "ad_data_type (attribute_definition f) = BOOLEAN"
    and a: "find_attribute db etid (ad_code (attribute_definition f)) = Some (attribute_definition f)"
    and r: "request_form (''attr_'' @ ad_code (attribute_definition f)) = Some v"
    and s: "strip v \<noteq> []"
    and cr: "entity_create bi db etid form_fields request_form u = (Inr inst, db')"
  shows "get_attribute_value db' inst (ad_code (attribute_definition f)) =
           PBool (lower v \<in> set [''true'', ''1'', ''yes'', ''on''])"
proof -
  let ?code = "ad_code (attribute_definition f)"
  let ?b = "lower v \<in> set [''true'', ''1'', ''yes'', ''on'']"
  from entity_create_success [OF cr] obtain attribute_values where
    p: "process_form_data bi form_fields request_form = Inr attribute_values"
    and t: "ei_entity_type_id inst = etid"
    by auto
  have m: "map_of attribute_values ?code = Some (PBool ?b)"
    using process_form_data_boolean [OF c f p v b r s] .
  have "PBool ?b \<noteq> (PNone :: ('a, 'b) pyval)" by simp
  from create_writes_entry [OF d cr p m this] obtain d1 ok d2 where
    sch: "attribute_definitions d1 = attribute_definitions db"
    and st: "set_attribute_value bi d1 inst ?code (PBool ?b) = Inr (ok, d2)"
    and g: "get_attribute_value db' inst ?code = get_attribute_value d2 inst ?code"
    by auto
  have fa: "find_attribute d1 (ei_entity_type_id inst) ?code = Some (attribute_definition f)"
    using a t sch by (simp add: find_attribute_def)
  from set_then_get_truth_value [OF fa b, of "PBool ?b" bi] obtain d3 where
    "set_attribute_value bi d1 inst ?code (PBool ?b) = Inr (True, d3)"
    "get_attribute_value d3 inst ?code = PBool (py_bool bi (PBool ?b))"
    by auto
  with st have "get_attribute_value d2 inst ?code = PBool ?b" by simp
  with g show ?thesis by simp
qed

lemma boolean_edit_reads_parsed:
  assumes d: "distinct (map ad_id (attribute_definitions db))"
    and c: "distinct (map (\<lambda>g. ad_code (attribute_definition g)) form_fields)"
    and f: "f \<in> set form_fields" and v: "ffc_is_visible f"
    and b: "ad_data_type (attribute_definition f) = BOOLEAN"
    and a: "find_attribute db (ei_entity_type_id inst) (ad_code (attribute_definition f)) =
              Some (attribute_definition f)"
    and r: "request_form (''attr_'' @ ad_code (attribute_definition f)) = Some v"
    and s: "strip v \<noteq> []"
    and ed: "entity_edit bi db iid form_fields request_form u = (Inr (Some inst), db')"
  shows "get_attribute_value db' inst (ad_code (attribute_definition f)) =
           PBool (lower v \<in> set [''true'', ''1'', ''yes'', ''on''])"
proof -
  let ?code = "ad_code (attribute_definition f)"
  let ?b = "lower v \<in> set [''true'', ''1'', ''yes'', ''on'']"
  from entity_edit_success [OF ed] obtain attribute_values where
    p: "process_form_data bi form_fields request_form = Inr attribute_values"
    by auto
  have m: "map_of attribute_values ?code = Some (PBool ?b)"
    using process_form_data_boolean [OF c f p v b r s] .
  from edit_writes_entry [OF d ed p m] obtain d1 ok d2 where
    sch: "attribute_definitions d1 = attribute_definitions db"
    and st: "set_attribute_value bi d1 inst ?code (PBool ?b) = Inr (ok, d2)"
    and g: "get_attribute_value db' inst ?code = get_attribute_value d2 inst ?code"
    by auto
  have fa: "find_attribute d1 (ei_entity_type_id inst) ?code = Some (attribute_definition f)"
    using a sch by (simp add: find_attribute_def)
  have "PBool ?b \<noteq> (PNone :: ('a, 'b) pyval)" by simp
  from set_then_get_truth_value [OF fa b this, of bi] obtain d3 where
    "set_attribute_value bi d1 inst ?code (PBool ?b) = Inr (True, d3)"
    "get_attribute_value d3 inst ?code = PBool (py_bool bi (PBool ?b))"
    by auto
  with st have "get_attribute_value d2 inst ?code = PBool ?b" by simp
  with g show ?thesis by simp
qed

lemma optional_empty_boolean_edit_reads_none:
  assumes d: "distinct (map ad_id (attribute_definitions db))"
    and c: "distinct (map (\<lambda>g. ad_code (attribute_definition g)) form_fields)"
    and f: "f \<in> set form_fields" and v: "ffc_is_visible f" and o: "\<not> field_required f"
    and b: "ad_data_type (attribute_definition f) = BOOLEAN"
    and uq: "unique_constraints db"
    and a: "find_attribute db (ei_entity_type_id inst) (ad_code (attribute_definition f)) =
              Some (attribute_definition f)"
    and e: "empty_value (request_form (''attr_'' @ ad_code (attribute_definition f)))"
    and ed: "entity_edit bi db iid form_fields request_form u = (Inr (Some inst), db')"
  shows "get_attribute_value db' inst (ad_code (attribute_definition f)) = PNone"
proof -
  let ?code = "ad_code (attribute_definition f)"
  from entity_edit_success [OF ed] obtain attribute_values where
    p: "process_form_data bi form_fields request_form = Inr attribute_values"
    by auto
  have m: "map_of attribute_values ?code = Some PNone"
    using process_form_data_empty_optional [OF c f p v o e] .
  from edit_writes_entry [OF d ed p m] uq obtain d1 ok d2 where
    sch: "attribute_definitions d1 = attribute_definitions db"
    and u1: "unique_constraints d1"
    and st: "set_attribute_value bi d1 inst ?code PNone = Inr (ok, d2)"
    and g: "get_attribute_value db' inst ?code = get_attribute_value d2 inst ?code"
    by auto
  have fa: "find_attribute d1 (ei_entity_type_id inst) ?code = Some (attribute_definition f)"
    using a sch by (simp add: find_attribute_def)
  from set_none_then_get_none_boolean [OF fa b u1, of bi] obtain d3 where
    "set_attribute_value bi d1 inst ?code PNone = Inr (True, d3)"
    "get_attribute_value d3 inst ?code = PNone"
    by auto
  with st have "get_attribute_value d2 inst ?code = PNone" by simp
  with g show ?thesis by simp
qed

lemma empty_create_writes_nothing:
  assumes d: "distinct (map ad_id (attribute_definitions db))"
    and c: "distinct (map (\<lambda>g. ad_code (attribute_definition g)) form_fields)"
    and f: "f \<in> set form_fields"
    and e: "empty_value (request_form (''attr_'' @ ad_code (attribute_definition f)))"
    and cr: "entity_create bi db etid form_fields request_form u = (Inr inst, db')"
  shows "entity_instances db' = entity_instances db @ [inst] \<and>
         get_attribute_value db' inst (ad_code (attribute_definition f)) =
           get_attribute_value db inst (ad_code (attribute_definition f)) \<and>
         (find_attribute db etid (ad_code (attribute_definition f)) = Some a \<longrightarrow>
            stored_rows db' (ad_id a) = stored_rows db (ad_id a))"
proof -
  from entity_create_success [OF cr] obtain attribute_values where
    p: "process_form_data bi form_fields request_form = Inr attribute_values"
    by auto
  from process_form_data_empty [OF c f p e] show ?thesis
    by (rule create_skips_entry [OF d cr p])
qed

lemma required_empty_edit_writes_nothing:
  assumes d: "distinct (map ad_id (attribute_definitions db))"
    and c: "distinct (map (\<lambda>g. ad_code (attribute_definition g)) form_fields)"
    and f: "f \<in> set form_fields" and q: "field_required f"
    and e: "empty_value (request_form (''attr_'' @ ad_code (attribute_definition f)))"
    and ed: "entity_edit bi db iid form_fields request_form u = (Inr (Some inst), db')"
  shows "get_attribute_value db' inst (ad_code (attribute_definition f)) =
           get_attribute_value db inst (ad_code (attribute_definition f)) \<and>
         (find_attribute db (ei_entity_type_id inst) (ad_code (attribute_definition f)) = Some a \<longrightarrow>
            stored_rows db' (ad_id a) = stored_rows db (ad_id a))"
proof -
  from entity_edit_success [OF ed] obtain attribute_values where
    p: "process_form_data bi form_fields request_form = Inr attribute_values"
    by auto
  from process_form_data_empty_required [OF c f p q e] show ?thesis
    by (rule edit_skips_entry [OF d ed p])
qed

lemma process_form_data_error:
  assumes "process_form_data bi form_fields request_form = Inl e"
  shows "\<exists>g \<in> set form_fields. \<exists>w. ffc_is_visible g \<and> field_required g \<and>
           request_form (''attr_'' @ ad_code (attribute_definition g)) = Some w \<and>
           strip w \<noteq> [] \<and> convert_value bi (ad_data_type (attribute_definition g)) w = None \<and>
           e = ValueError (''Invalid value for '' @ ad_name (attribute_definition g) @ '': '' @ w)"
proof -
  from process_fields_error [OF assms [unfolded process_form_data_def]] obtain g m where
    "g \<in> set form_fields" "process_field bi request_form m g = Inl e"
    by auto
  then show ?thesis
    unfolding process_field_error by (intro bexI [of _ g]) auto
qed

lemma process_form_data_fails:
  assumes "g \<in> set form_fields" and "ffc_is_visible g" and "field_required g"
    and "request_form (''attr_'' @ ad_code (attribute_definition g)) = Some w"
    and "strip w \<noteq> []"
    and "convert_value bi (ad_data_type (attribute_definition g)) w = None"
  shows "\<exists>e. process_form_data bi form_fields request_form = Inl e"
proof -
  have "process_field bi request_form [] g =
          Inl (ValueError (''Invalid value for '' @ ad_name (attribute_definition g) @ '': '' @ w))"
    using assms(2-6) by (simp add: process_field_error)
  with assms(1) show ?thesis
    unfolding process_form_data_def by (rule process_fields_fails)
qed

section \<open>Form data and instance manager: properties\<close>

text \<open>
  An empty input for the optional boolean field HAZARDOUS stores None, not False, and the
  created instance has no boolean row; and \<open>set_attribute_value\<close>, given the string
  \<open>no\<close>, stores True, the truth value of a string that is not empty.
\<close>

theorem boolean_blank_or_raw_string_counterexample:
  "process_form_data sample_builtins [hazardous_field] [''attr_HAZARDOUS'' \<mapsto> ''''] =
     Inr [(''HAZARDOUS'', PNone)] \<and>
   boolean_values (snd (entity_create sample_builtins cargo_schema 1 [hazardous_field]
     [''attr_HAZARDOUS'' \<mapsto> ''''] ''ann'')) = [] \<and>
   set_attribute_value sample_builtins cargo_schema (cargo_instance 1) ''HAZARDOUS'' (PStr ''no'') =
     Inr (True, cargo_schema\<lparr>boolean_values :=
       [\<lparr>av_entity_instance_id = 1, av_attribute_definition_id = 2, av_value = True\<rparr>]\<rparr>)"
proof -
  have p: "process_form_data sample_builtins [hazardous_field] [''attr_HAZARDOUS'' \<mapsto> ''''] =
     Inr [(''HAZARDOUS'', PNone)]"
    by (simp add: process_form_data_def process_field_def field_required_def cargo_defs
        hazardous_field_def)
  have c: "boolean_values (snd (entity_create sample_builtins cargo_schema 1 [hazardous_field]
     [''attr_HAZARDOUS'' \<mapsto> ''''] ''ann'')) = []"
    unfolding entity_create_def p
    by (simp add: create_entity_instance_with_attributes_def Let_def cargo_defs
        hazardous_field_def)
  have s: "set_attribute_value sample_builtins cargo_schema (cargo_instance 1) ''HAZARDOUS'' (PStr ''no'') =
     Inr (True, cargo_schema\<lparr>boolean_values :=
       [\<lparr>av_entity_instance_id = 1, av_attribute_definition_id = 2, av_value = True\<rparr>]\<rparr>)"
    by (simp add: set_attribute_value_def find_attribute_def coerced_def write_value_def
        first_value_def cargo_defs hazardous_field_def)
  show ?thesis using p c s by simp
qed


text \<open>
  C6, amended. Take a form with one field for an attribute code, over attribute
  definitions with distinct ids, and a field \<open>f\<close> of the form whose attribute is the
  attribute that the instance's entity type has under its code.

  \<^item> If \<open>f\<close> is visible, its attribute is BOOLEAN and the submitted input is not blank,
    then after a successful create submission, and after a successful edit submission,
    \<open>get_attribute_value\<close> reads for the instance the boolean that is True exactly when
    the lower-cased input is one of true, 1, yes, on, and False for every other such input.
  \<^item> An input that is missing, empty or blank writes no boolean on create: the rows of
    the attribute in the four value tables are as before, and the new instance reads what
    it read before.
  \<^item> On edit, such an input for a required field leaves the rows and the value of the
    attribute as they are; for a visible field that is not required and whose attribute
    is BOOLEAN, the instance reads None afterwards, when the value tables keep their
    unique constraints.
  \<^item> \<open>set_attribute_value\<close> itself compares no string: for a BOOLEAN attribute and a
    value other than None it stores \<open>bool(value)\<close>, the truth value of whatever it is
    handed, and \<open>get_attribute_value\<close> reads that boolean back.
\<close>

theorem boolean_submission_stores_parsed_value:
  "let a = attribute_definition f; code = ad_code a;
       value = request_form (''attr_'' @ code)
   in (form_constraints db form_fields \<and> f \<in> set form_fields \<and> ffc_is_visible f \<and>
       ad_data_type a = BOOLEAN \<and> find_attribute db etid code = Some a \<and>
       value = Some v \<and> strip v \<noteq> [] \<and>
       entity_create bi db etid form_fields request_form u = (Inr inst, db')
         \<longrightarrow> get_attribute_value db' inst code =
               PBool (lower v \<in> set [''true'', ''1'', ''yes'', ''on''])) \<and>
      (form_constraints db form_fields \<and> f \<in> set form_fields \<and> ffc_is_visible f \<and>
       ad_data_type a = BOOLEAN \<and> find_attribute db (ei_entity_type_id inst) code = Some a \<and>
       value = Some v \<and> strip v \<noteq> [] \<and>
       entity_edit bi db iid form_fields request_form u = (Inr (Some inst), db')
         \<longrightarrow> get_attribute_value db' inst code =
               PBool (lower v \<in> set [''true'', ''1'', ''yes'', ''on''])) \<and>
      (form_constraints db form_fields \<and> f \<in> set form_fields \<and>
       find_attribute db etid code = Some a \<and> empty_value value \<and>
       entity_create bi db etid form_fields request_form u = (Inr inst, db')
         \<longrightarrow> stored_rows db' (ad_id a) = stored_rows db (ad_id a) \<and>
             get_attribute_value db' inst code = get_attribute_value db inst code) \<and>
      (form_constraints db form_fields \<and> f \<in> set form_fields \<and> field_required f \<and>
       find_attribute db (ei_entity_type_id inst) code = Some a \<and> empty_value value \<and>
       entity_edit bi db iid form_fields request_form u = (Inr (Some inst), db')
         \<longrightarrow> stored_rows db' (ad_id a) = stored_rows db (ad_id a) \<and>
             get_attribute_value db' inst code = get_attribute_value db inst code) \<and>
      (form_constraints db form_fields \<and> f \<in> set form_fields \<and> ffc_is_visible f \<and>
       \<not> field_required f \<and> ad_data_type a = BOOLEAN \<and> unique_constraints db \<and>
       find_attribute db (ei_entity_type_id inst) code = Some a \<and> empty_value value \<and>
       entity_edit bi db iid form_fields request_form u = (Inr (Some inst), db')
         \<longrightarrow> get_attribute_value db' inst code = PNone) \<and>
      (find_attribute db (ei_entity_type_id self) attribute_code = Some attr_def \<and>
       ad_data_type attr_def = BOOLEAN \<and> x \<noteq> PNone
         \<longrightarrow> (\<exists>db2. set_attribute_value bi db self attribute_code x = Inr (True, db2) \<and>
                   get_attribute_value db2 self attribute_code = PBool (py_bool bi x)))"
  unfolding Let_def form_constraints_def
proof (intro conjI impI, goal_cases)
  case 1
  then show ?case by (elim conjE) (rule boolean_create_reads_parsed)
next
  case 2
  then show ?case by (elim conjE) (rule boolean_edit_reads_parsed)
next
  case 3
  then show ?case
    by (elim conjE) (rule mp [OF conjunct2 [OF conjunct2 [OF empty_create_writes_nothing]]])
next
  case 4
  then show ?case
    by (elim conjE) (rule conjunct1 [OF conjunct2 [OF empty_create_writes_nothing]])
next
  case 5
  then show ?case
    by (elim conjE) (rule mp [OF conjunct2 [OF required_empty_edit_writes_nothing]])
next
  case 6
  then show ?case
    by (elim conjE) (rule conjunct1 [OF required_empty_edit_writes_nothing])
next
  case 7
  then show ?case by (elim conjE) (rule optional_empty_boolean_edit_reads_none)
next
  case 8
  then show ?case by (elim conjE) (rule set_then_get_truth_value)
qed

theorem boolean_submission_stores_parsed_value_witness:
  "fst (entity_create sample_builtins cargo_schema 1 [name_field, hazardous_field]
          [''attr_CARGO_NAME'' \<mapsto> ''Coal'', ''attr_HAZARDOUS'' \<mapsto> ''Yes''] ''ann'') =
     Inr ((cargo_instance 1)\<lparr>ei_created_by := ''ann''\<rparr>) \<and>
   get_attribute_value
     (snd (entity_create sample_builtins cargo_schema 1 [name_field, hazardous_field]
             [''attr_CARGO_NAME'' \<mapsto> ''Coal'', ''attr_HAZARDOUS'' \<mapsto> ''Yes''] ''ann''))
     ((cargo_instance 1)\<lparr>ei_created_by := ''ann''\<rparr>) ''HAZARDOUS'' = PBool True \<and>
   fst (entity_edit sample_builtins cargo_db 1 [name_field, hazardous_field]
          [''attr_CARGO_NAME'' \<mapsto> ''Coal'', ''attr_HAZARDOUS'' \<mapsto> ''off''] ''ann'') =
     Inr (Some ((cargo_instance 1)\<lparr>ei_updated_by := Some ''ann''\<rparr>)) \<and>
   get_attribute_value
     (snd (entity_edit sample_builtins cargo_db 1 [name_field, hazardous_field]
             [''attr_CARGO_NAME'' \<mapsto> ''Coal'', ''attr_HAZARDOUS'' \<mapsto> ''off''] ''ann''))
     ((cargo_instance 1)\<lparr>ei_updated_by := Some ''ann''\<rparr>) ''HAZARDOUS'' = PBool False \<and>
   fst (entity_create sample_builtins cargo_schema 1 [name_field, hazardous_field]
          [''attr_CARGO_NAME'' \<mapsto> ''Coal''] ''ann'') =
     Inr ((cargo_instance 1)\<lparr>ei_created_by := ''ann''\<rparr>) \<and>
   stored_rows
     (snd (entity_create sample_builtins cargo_schema 1 [name_field, hazardous_field]
             [''attr_CARGO_NAME'' \<mapsto> ''Coal''] ''ann'')) 2 = ([], [], [], []) \<and>
   get_attribute_value
     (snd (entity_create sample_builtins cargo_schema 1 [name_field, hazardous_field]
             [''attr_CARGO_NAME'' \<mapsto> ''Coal''] ''ann''))
     ((cargo_instance 1)\<lparr>ei_created_by := ''ann''\<rparr>) ''HAZARDOUS'' = PNone \<and>
   fst (entity_edit sample_builtins cargo_db 1
          [name_field, hazardous_field\<lparr>ffc_is_required := True\<rparr>]
          [''attr_CARGO_NAME'' \<mapsto> ''Coal'', ''attr_HAZARDOUS'' \<mapsto> ''  ''] ''ann'') =
     Inr (Some ((cargo_instance 1)\<lparr>ei_updated_by := Some ''ann''\<rparr>)) \<and>
   get_attribute_value
     (snd (entity_edit sample_builtins cargo_db 1
             [name_field, hazardous_field\<lparr>ffc_is_required := True\<rparr>]
             [''attr_CARGO_NAME'' \<mapsto> ''Coal'', ''attr_HAZARDOUS'' \<mapsto> ''  ''] ''ann''))
     ((cargo_instance 1)\<lparr>ei_updated_by := Some ''ann''\<rparr>) ''HAZARDOUS'' = PBool True \<and>
   fst (entity_edit sample_builtins cargo_db 1 [name_field, hazardous_field]
          [''attr_CARGO_NAME'' \<mapsto> ''Coal'', ''attr_HAZARDOUS'' \<mapsto> ''  ''] ''ann'') =
     Inr (Some ((cargo_instance 1)\<lparr>ei_updated_by := Some ''ann''\<rparr>)) \<and>
   get_attribute_value
     (snd (entity_edit sample_builtins cargo_db 1 [name_field, hazardous_field]
             [''attr_CARGO_NAME'' \<mapsto> ''Coal'', ''attr_HAZARDOUS'' \<mapsto> ''  ''] ''ann''))
     ((cargo_instance 1)\<lparr>ei_updated_by := Some ''ann''\<rparr>) ''HAZARDOUS'' = PNone \<and>
   (\<exists>db2. set_attribute_value sample_builtins cargo_schema (cargo_instance 1) ''HAZARDOUS''
            (PStr ''no'') = Inr (True, db2) \<and>
          get_attribute_value db2 (cargo_instance 1) ''HAZARDOUS'' = PBool True)"
proof -
  let ?form = "[name_field, hazardous_field]"
  let ?form_r = "[name_field, hazardous_field\<lparr>ffc_is_required := True\<rparr>]"
  let ?yes = "[''attr_CARGO_NAME'' \<mapsto> ''Coal'', ''attr_HAZARDOUS'' \<mapsto> ''Yes'']"
  let ?off = "[''attr_CARGO_NAME'' \<mapsto> ''Coal'', ''attr_HAZARDOUS'' \<mapsto> ''off'']"
  let ?none = "[''attr_CARGO_NAME'' \<mapsto> ''Coal'']"
  let ?blank = "[''attr_CARGO_NAME'' \<mapsto> ''Coal'', ''attr_HAZARDOUS'' \<mapsto> ''  '']"
  let ?new = "(cargo_instance 1)\<lparr>ei_created_by := ''ann''\<rparr>"
  let ?old = "(cargo_instance 1)\<lparr>ei_updated_by := Some ''ann''\<rparr>"
  note fields = cargo_defs name_field_def hazardous_field_def
  note form = process_form_data_def process_field_def field_required_def convert_value_def
    strip_def py_isspace_def lower_def lower_char_def char_of_def bit_Suc_0_iff
  note store = create_entity_instance_with_attributes_def
    update_entity_instance_attributes_def next_instance_id_def or_system_def
    set_attribute_value_def find_attribute_def coerced_def write_value_def first_value_def
    is_value_of_def Let_def
  have p1: "process_form_data sample_builtins ?form ?yes =
              Inr [(''CARGO_NAME'', PStr ''Coal''), (''HAZARDOUS'', PBool True)]"
    by (simp add: form fields)
  have p2: "process_form_data sample_builtins ?form ?off =
              Inr [(''CARGO_NAME'', PStr ''Coal''), (''HAZARDOUS'', PBool False)]"
    by (simp add: form fields)
  have p3: "process_form_data sample_builtins ?form ?none =
              Inr [(''CARGO_NAME'', PStr ''Coal''), (''HAZARDOUS'', PNone)]"
    by (simp add: form fields)
  have p4: "process_form_data sample_builtins ?form_r ?blank =
              Inr [(''CARGO_NAME'', PStr ''Coal'')]"
    by (simp add: form fields)
  have p5: "process_form_data sample_builtins ?form ?blank =
              Inr [(''CARGO_NAME'', PStr ''Coal''), (''HAZARDOUS'', PNone)]"
    by (simp add: form fields)
  have c1: "fst (entity_create sample_builtins cargo_schema 1 ?form ?yes ''ann'') = Inr ?new"
    unfolding entity_create_def p1 by (simp add: store fields)
  have c2: "fst (entity_edit sample_builtins cargo_db 1 ?form ?off ''ann'') = Inr (Some ?old)"
    unfolding entity_edit_def p2 by (simp add: store fields)
  have c3: "fst (entity_create sample_builtins cargo_schema 1 ?form ?none ''ann'') = Inr ?new"
    unfolding entity_create_def p3 by (simp add: store fields)
  have c4: "fst (entity_edit sample_builtins cargo_db 1 ?form_r ?blank ''ann'') = Inr (Some ?old)"
    unfolding entity_edit_def p4 by (simp add: store fields)
  have c5: "fst (entity_edit sample_builtins cargo_db 1 ?form ?blank ''ann'') = Inr (Some ?old)"
    unfolding entity_edit_def p5 by (simp add: store fields)
  have e1: "entity_create sample_builtins cargo_schema 1 ?form ?yes ''ann'' =
              (Inr ?new, snd (entity_create sample_builtins cargo_schema 1 ?form ?yes ''ann''))"
    using c1 by (simp add: prod_eq_iff)
  have e2: "entity_edit sample_builtins cargo_db 1 ?form ?off ''ann'' =
              (Inr (Some ?old), snd (entity_edit sample_builtins cargo_db 1 ?form ?off ''ann''))"
    using c2 by (simp add: prod_eq_iff)
  have e3: "entity_create sample_builtins cargo_schema 1 ?form ?none ''ann'' =
              (Inr ?new, snd (entity_create sample_builtins cargo_schema 1 ?form ?none ''ann''))"
    using c3 by (simp add: prod_eq_iff)
  have e4: "entity_edit sample_builtins cargo_db 1 ?form_r ?blank ''ann'' =
              (Inr (Some ?old),
               snd (entity_edit sample_builtins cargo_db 1 ?form_r ?blank ''ann''))"
    using c4 by (simp add: prod_eq_iff)
  have e5: "entity_edit sample_builtins cargo_db 1 ?form ?blank ''ann'' =
              (Inr (Some ?old), snd (entity_edit sample_builtins cargo_db 1 ?form ?blank ''ann''))"
    using c5 by (simp add: prod_eq_iff)
  note T1 = boolean_submission_stores_parsed_value
    [where f = hazardous_field and request_form = ?yes and db = cargo_schema
      and form_fields = ?form and etid = 1 and v = "''Yes''" and bi = sample_builtins
      and u = "''ann''" and inst = ?new
      and db' = "snd (entity_create sample_builtins cargo_schema 1 ?form ?yes ''ann'')"
      and self = "cargo_instance 1" and attribute_code = "''HAZARDOUS''"
      and attr_def = hazardous and x = "PStr ''no''", unfolded Let_def]
  note T2 = boolean_submission_stores_parsed_value
    [where f = hazardous_field and request_form = ?off and db = cargo_db
      and form_fields = ?form and iid = 1 and v = "''off''" and bi = sample_builtins
      and u = "''ann''" and inst = ?old
      and db' = "snd (entity_edit sample_builtins cargo_db 1 ?form ?off ''ann'')",
      unfolded Let_def]
  note T3 = boolean_submission_stores_parsed_value
    [where f = hazardous_field and request_form = ?none and db = cargo_schema
      and form_fields = ?form and etid = 1 and bi = sample_builtins
      and u = "''ann''" and inst = ?new
      and db' = "snd (entity_create sample_builtins cargo_schema 1 ?form ?none ''ann'')",
      unfolded Let_def]
  note T4 = boolean_submission_stores_parsed_value
    [where f = "hazardous_field\<lparr>ffc_is_required := True\<rparr>" and request_form = ?blank
      and db = cargo_db and form_fields = ?form_r and iid = 1 and bi = sample_builtins
      and u = "''ann''" and inst = ?old
      and db' = "snd (entity_edit sample_builtins cargo_db 1 ?form_r ?blank ''ann'')",
      unfolded Let_def]
  note T5 = boolean_submission_stores_parsed_value
    [where f = hazardous_field and request_form = ?blank
      and db = cargo_db and form_fields = ?form and iid = 1 and bi = sample_builtins
      and u = "''ann''" and inst = ?old
      and db' = "snd (entity_edit sample_builtins cargo_db 1 ?form ?blank ''ann'')",
      unfolded Let_def]
  have t1: "get_attribute_value
              (snd (entity_create sample_builtins cargo_schema 1 ?form ?yes ''ann'')) ?new
              (ad_code (attribute_definition hazardous_field)) =
            PBool (lower ''Yes'' \<in> set [''true'', ''1'', ''yes'', ''on''])"
    by (rule mp [OF conjunct1 [OF T1]])
       (intro conjI e1, simp_all add: form_constraints_def find_attribute_def strip_def
         py_isspace_def fields)
  have t2: "get_attribute_value
              (snd (entity_edit sample_builtins cargo_db 1 ?form ?off ''ann'')) ?old
              (ad_code (attribute_definition hazardous_field)) =
            PBool (lower ''off'' \<in> set [''true'', ''1'', ''yes'', ''on''])"
    by (rule mp [OF conjunct1 [OF conjunct2 [OF T2]]])
       (intro conjI e2, simp_all add: form_constraints_def find_attribute_def strip_def
         py_isspace_def fields)
  have t3: "stored_rows (snd (entity_create sample_builtins cargo_schema 1 ?form ?none ''ann''))
              (ad_id (attribute_definition hazardous_field)) =
            stored_rows cargo_schema (ad_id (attribute_definition hazardous_field)) \<and>
            get_attribute_value
              (snd (entity_create sample_builtins cargo_schema 1 ?form ?none ''ann'')) ?new
              (ad_code (attribute_definition hazardous_field)) =
            get_attribute_value cargo_schema ?new (ad_code (attribute_definition hazardous_field))"
    by (rule mp [OF conjunct1 [OF conjunct2 [OF conjunct2 [OF T3]]]])
       (intro conjI e3, simp_all add: form_constraints_def find_attribute_def empty_value_def
         fields)
  have t4: "stored_rows (snd (entity_edit sample_builtins cargo_db 1 ?form_r ?blank ''ann''))
              (ad_id (attribute_definition (hazardous_field\<lparr>ffc_is_required := True\<rparr>))) =
            stored_rows cargo_db
              (ad_id (attribute_definition (hazardous_field\<lparr>ffc_is_required := True\<rparr>))) \<and>
            get_attribute_value
              (snd (entity_edit sample_builtins cargo_db 1 ?form_r ?blank ''ann'')) ?old
              (ad_code (attribute_definition (hazardous_field\<lparr>ffc_is_required := True\<rparr>))) =
            get_attribute_value cargo_db ?old
              (ad_code (attribute_definition (hazardous_field\<lparr>ffc_is_required := True\<rparr>)))"
    by (rule mp [OF conjunct1 [OF conjunct2 [OF conjunct2 [OF conjunct2 [OF T4]]]]])
       (intro conjI e4, simp_all add: form_constraints_def find_attribute_def empty_value_def
         field_required_def strip_def py_isspace_def fields)
  have t5: "get_attribute_value
              (snd (entity_edit sample_builtins cargo_db 1 ?form ?blank ''ann'')) ?old
              (ad_code (attribute_definition hazardous_field)) = PNone"
    by (rule mp [OF conjunct1 [OF conjunct2 [OF conjunct2 [OF conjunct2 [OF conjunct2 [OF T5]]]]]])
       (intro conjI e5, simp_all add: form_constraints_def find_attribute_def empty_value_def
         field_required_def strip_def py_isspace_def unique_constraints_def
         unique_instance_attribute_def fields)
  have t6: "\<exists>db2. set_attribute_value sample_builtins cargo_schema (cargo_instance 1) ''HAZARDOUS''
                    (PStr ''no'') = Inr (True, db2) \<and>
                  get_attribute_value db2 (cargo_instance 1) ''HAZARDOUS'' =
                    PBool (py_bool sample_builtins (PStr ''no''))"
    by (rule mp [OF conjunct2 [OF conjunct2 [OF conjunct2 [OF conjunct2 [OF conjunct2 [OF T1]]]]]])
       (simp add: find_attribute_def fields)
  have l: "lower ''Yes'' \<in> set [''true'', ''1'', ''yes'', ''on'']"
    "lower ''off'' \<notin> set [''true'', ''1'', ''yes'', ''on'']"
    by (simp_all add: lower_def lower_char_def char_of_def bit_Suc_0_iff)
  have r: "stored_rows cargo_schema 2 = ([], [], [], [])"
    "get_attribute_value cargo_schema ?new ''HAZARDOUS'' = PNone"
    "get_attribute_value cargo_db ?old ''HAZARDOUS'' = PBool True"
    "ad_code (attribute_definition hazardous_field) = ''HAZARDOUS''"
    "ad_id (attribute_definition hazardous_field) = 2"
    by (simp_all add: stored_rows_def attribute_rows_def get_attribute_value_def
        find_attribute_def first_value_def is_value_of_def fields)
  show ?thesis
    using c1 t1 c2 t2 c3 t3 c4 t4 c5 t5 t6 l r by simp
qed

lemma fold_max_ge: "m \<le> fold (\<lambda>i m. max (ei_id i + 1) m) xs (m::int)"
proof (induction xs arbitrary: m)
  case Nil
  show ?case by simp
next
  case (Cons x xs)
  have "m \<le> max (ei_id x + 1) m" by simp
  also have "\<dots> \<le> fold (\<lambda>i m. max (ei_id i + 1) m) xs (max (ei_id x + 1) m)"
    by (rule Cons.IH)
  finally show ?case by simp
qed

lemma fold_max_fresh:
  "i \<in> set xs \<Longrightarrow> ei_id i < fold (\<lambda>i m. max (ei_id i + 1) m) xs (m::int)"
proof (induction xs arbitrary: m)
  case Nil
  then show ?case by simp
next
  case (Cons x xs)
  show ?case
  proof (cases "i = x")
    case True
    have "ei_id x < max (ei_id x + 1) m" by simp
    also have "\<dots> \<le> fold (\<lambda>i m. max (ei_id i + 1) m) xs (max (ei_id x + 1) m)"
      by (rule fold_max_ge)
    finally show ?thesis using True by simp
  next
    case False
    with Cons.prems have "i \<in> set xs" by simp
    then show ?thesis using Cons.IH by simp
  qed
qed

lemma next_instance_id_fresh:
  "i \<in> set (entity_instances db) \<Longrightarrow> ei_id i < next_instance_id db"
  unfolding next_instance_id_def by (rule fold_max_fresh)

text \<open>
  Two creations of a cargo named Coal, whose name attribute is unique: both succeed, and
  the second leaves two instances and two value rows.
\<close>

theorem duplicate_unique_value_counterexample:
  "ad_is_unique cargo_name \<and>
   create_entity_instance_with_attributes sample_builtins cargo_schema 1
     [(''CARGO_NAME'', PStr ''Coal'')] None = (Inr (cargo_instance 1), one_coal) \<and>
   get_attribute_value one_coal (cargo_instance 1) ''CARGO_NAME'' = PStr ''Coal'' \<and>
   create_entity_instance_with_attributes sample_builtins one_coal 1
     [(''CARGO_NAME'', PStr ''Coal'')] None = (Inr (cargo_instance 2), two_coal)"
  by (simp add: create_entity_instance_with_attributes_def next_instance_id_def or_system_def
      set_attribute_value_def get_attribute_value_def find_attribute_def coerced_def
      write_value_def first_value_def is_value_of_def Let_def cargo_defs
        one_coal_def two_coal_def)

text \<open>
  C1, amended. For an attribute of type VARCHAR or TEXT whose \<open>is_unique\<close> flag is
  true, creating an instance that carries the value of an existing active instance
  succeeds: no check of uniqueness is made. The call persists one new \<open>EntityInstance\<close>
  row with a fresh id and the value, which both the new and the existing instance then
  read back.
\<close>

theorem create_does_not_check_is_unique:
  assumes a: "find_attribute db etid code = Some a"
    and x: "ad_data_type a \<in> set [VARCHAR, TEXT]"
    and q: "ad_is_unique a"
    and i: "i0 \<in> set (entity_instances db)" "ei_entity_type_id i0 = etid" "ei_is_active i0"
    and v: "get_attribute_value db i0 code = PStr s"
  shows "\<exists>inst db'.
           create_entity_instance_with_attributes bi db etid [(code, PStr s)] created_by =
             (Inr inst, db') \<and>
           entity_instances db' = entity_instances db @ [inst] \<and>
           ei_id inst \<notin> ei_id ` set (entity_instances db) \<and>
           get_attribute_value db' inst code = PStr s \<and>
           get_attribute_value db' i0 code = PStr s"
proof -
  let ?inst = "\<lparr>ei_id = next_instance_id db, ei_entity_type_id = etid, ei_is_active = True,
                 ei_created_by = or_system created_by, ei_updated_by = None\<rparr>"
  let ?db1 = "db\<lparr>entity_instances := entity_instances db @ [?inst]\<rparr>"
  obtain rows' where w:
    "write_value (text_values db) (next_instance_id db) (ad_id a) (Some (Inr s)) = Inr rows'"
    using write_value_Some_Inr [of "text_values db" "next_instance_id db" "ad_id a" s] by auto
  let ?db' = "?db1\<lparr>text_values := rows'\<rparr>"
  obtain r where r: "first_value rows' (next_instance_id db) (ad_id a) = Some r" "av_value r = s"
    using first_value_write_value [OF w] by auto
  have fresh: "\<And>j. j \<in> set (entity_instances db) \<Longrightarrow> ei_id j \<noteq> next_instance_id db"
    using next_instance_id_fresh by fastforce
  have o: "first_value rows' (ei_id i0) (ad_id a) = first_value (text_values db) (ei_id i0) (ad_id a)"
    using w by (rule first_value_write_value_other) (simp add: fresh i(1))
  have st: "set_attribute_value bi ?db1 ?inst code (PStr s) = Inr (True, ?db')"
    using a x w by (simp add: set_attribute_value_def find_attribute_def coerced_def)
  have c: "create_entity_instance_with_attributes bi db etid [(code, PStr s)] created_by =
             (Inr ?inst, ?db')"
    using st by (simp add: create_entity_instance_with_attributes_def Let_def)
  have e: "entity_instances ?db' = entity_instances db @ [?inst]"
    by simp
  have n: "ei_id ?inst \<notin> ei_id ` set (entity_instances db)"
  proof
    assume "ei_id ?inst \<in> ei_id ` set (entity_instances db)"
    then obtain j where "j \<in> set (entity_instances db)" "ei_id j = next_instance_id db"
      by auto
    then show False using fresh [of j] by simp
  qed
  have g: "get_attribute_value ?db' ?inst code = PStr s"
    using a x r by (simp add: get_attribute_value_def find_attribute_def)
  have g0: "get_attribute_value ?db' i0 code = PStr s"
    using a x o v i(2) by (simp add: get_attribute_value_def find_attribute_def)
  show ?thesis
    by (rule exI [of _ ?inst], rule exI [of _ ?db']) (intro conjI c e n g g0)
qed


theorem create_does_not_check_is_unique_witness:
  "find_attribute one_coal 1 ''CARGO_NAME'' = Some cargo_name \<and>
   ad_data_type cargo_name = VARCHAR \<and> ad_is_unique cargo_name \<and>
   cargo_instance 1 \<in> set (entity_instances one_coal) \<and>
   get_attribute_value one_coal (cargo_instance 1) ''CARGO_NAME'' = PStr ''Coal'' \<and>
   create_entity_instance_with_attributes sample_builtins one_coal 1
     [(''CARGO_NAME'', PStr ''Coal'')] None = (Inr (cargo_instance 2), two_coal) \<and>
   get_attribute_value two_coal (cargo_instance 2) ''CARGO_NAME'' = PStr ''Coal'' \<and>
   get_attribute_value two_coal (cargo_instance 1) ''CARGO_NAME'' = PStr ''Coal''"
proof -
  have a: "find_attribute one_coal 1 ''CARGO_NAME'' = Some cargo_name"
    by (simp add: find_attribute_def cargo_defs one_coal_def two_coal_def)
  have x: "ad_data_type cargo_name \<in> set [VARCHAR, TEXT]" and x': "ad_data_type cargo_name = VARCHAR"
    and q: "ad_is_unique cargo_name"
    by (simp_all add: cargo_name_def)
  have i: "cargo_instance 1 \<in> set (entity_instances one_coal)"
    "ei_entity_type_id (cargo_instance 1) = 1" "ei_is_active (cargo_instance 1)"
    by (simp_all add: cargo_defs one_coal_def two_coal_def)
  have v: "get_attribute_value one_coal (cargo_instance 1) ''CARGO_NAME'' = PStr ''Coal''"
    by (simp add: get_attribute_value_def find_attribute_def first_value_def is_value_of_def
        cargo_defs one_coal_def two_coal_def)
  have c: "create_entity_instance_with_attributes sample_builtins one_coal 1
     [(''CARGO_NAME'', PStr ''Coal'')] None = (Inr (cargo_instance 2), two_coal)"
    by (simp add: create_entity_instance_with_attributes_def next_instance_id_def or_system_def
        set_attribute_value_def find_attribute_def coerced_def write_value_def first_value_def
        is_value_of_def Let_def cargo_defs
        one_coal_def two_coal_def)
  obtain inst db' where d:
    "create_entity_instance_with_attributes sample_builtins one_coal 1
       [(''CARGO_NAME'', PStr ''Coal'')] None = (Inr inst, db')"
    "get_attribute_value db' inst ''CARGO_NAME'' = PStr ''Coal''"
    "get_attribute_value db' (cargo_instance 1) ''CARGO_NAME'' = PStr ''Coal''"
    using create_does_not_check_is_unique [OF a x q i v, of sample_builtins None] by auto
  have e: "inst = cargo_instance 2" "db' = two_coal"
    using c d(1) by simp_all
  show ?thesis
    using a x' q i(1) v c d(2) d(3) unfolding e by simp
qed

lemma entity_create_error_writes_nothing:
  "fst (entity_create bi db etid form_fields request_form u) = Inl e \<Longrightarrow>
   snd (entity_create bi db etid form_fields request_form u) = db"
  by (auto simp: entity_create_def create_entity_instance_with_attributes_def Let_def
      split: sum.splits)

lemma entity_edit_error_writes_nothing:
  "fst (entity_edit bi db iid form_fields request_form u) = Inl e \<Longrightarrow>
   snd (entity_edit bi db iid form_fields request_form u) = db"
  by (auto simp: entity_edit_def update_entity_instance_attributes_def Let_def
      split: sum.splits option.splits)

text \<open>
  A create submission with the required name empty raises no error: the field is
  skipped, and the instance is persisted without a name.
\<close>

theorem required_field_empty_counterexample:
  "field_required name_field \<and>
   process_form_data sample_builtins [name_field, hazardous_field]
     [''attr_CARGO_NAME'' \<mapsto> [], ''attr_HAZARDOUS'' \<mapsto> ''on''] =
     Inr [(''HAZARDOUS'', PBool True)] \<and>
   entity_create sample_builtins cargo_schema 1 [name_field, hazardous_field]
     [''attr_CARGO_NAME'' \<mapsto> [], ''attr_HAZARDOUS'' \<mapsto> ''on''] ''ann'' =
     (Inr ((cargo_instance 1)\<lparr>ei_created_by := ''ann''\<rparr>),
      cargo_schema
        \<lparr>entity_instances := [(cargo_instance 1)\<lparr>ei_created_by := ''ann''\<rparr>],
         boolean_values :=
           [\<lparr>av_entity_instance_id = 1, av_attribute_definition_id = 2, av_value = True\<rparr>]\<rparr>)"
proof -
  have r: "field_required name_field"
    by (simp add: field_required_def
        cargo_defs name_field_def hazardous_field_def quantity_def quantity_field_def)
  have p: "process_form_data sample_builtins [name_field, hazardous_field]
     [''attr_CARGO_NAME'' \<mapsto> [], ''attr_HAZARDOUS'' \<mapsto> ''on''] =
     Inr [(''HAZARDOUS'', PBool True)]"
    by (simp add: process_form_data_def process_field_def field_required_def convert_value_def
        strip_def py_isspace_def lower_def lower_char_def
        cargo_defs name_field_def hazardous_field_def quantity_def quantity_field_def)
  have c: "entity_create sample_builtins cargo_schema 1 [name_field, hazardous_field]
     [''attr_CARGO_NAME'' \<mapsto> [], ''attr_HAZARDOUS'' \<mapsto> ''on''] ''ann'' =
     (Inr ((cargo_instance 1)\<lparr>ei_created_by := ''ann''\<rparr>),
      cargo_schema
        \<lparr>entity_instances := [(cargo_instance 1)\<lparr>ei_created_by := ''ann''\<rparr>],
         boolean_values :=
           [\<lparr>av_entity_instance_id = 1, av_attribute_definition_id = 2, av_value = True\<rparr>]\<rparr>)"
    unfolding entity_create_def p
    by (simp add: create_entity_instance_with_attributes_def next_instance_id_def or_system_def
        set_attribute_value_def find_attribute_def coerced_def write_value_def first_value_def
        is_value_of_def Let_def
        cargo_defs name_field_def hazardous_field_def quantity_def quantity_field_def)
  show ?thesis using r p c by simp
qed

text \<open>
  C5, amended. A required field (required on the field configuration or on the attribute
  definition) whose submitted value is missing, empty or blank raises no error: the loop
  of \<open>process_form_data\<close> skips the field and leaves the dictionary as it is, so that
  on a form with one field for an attribute code the dictionary that is returned has no
  entry for the attribute.

  \<^item> \<open>process_form_data\<close> raises for a visible required field whose value is not blank
    and fails its conversion, with the ValueError that names the attribute; every error
    of \<open>process_form_data\<close> is the ValueError of such a field of the form, and a form
    with such a field raises.
  \<^item> On a form with one field for an attribute code, over attribute definitions with
    distinct ids, a successful create submission with the required field empty persists
    the new instance and writes nothing for the attribute: the instance is appended to
    \<open>entity_instances\<close>, it reads for the attribute what it read before, and the rows of
    the attribute in the four value tables are as before. A successful edit submission
    leaves the value and the rows of the attribute as they are.
  \<^item> Whenever a create or an edit submission ends in an error, the state is the one
    before the call: nothing is written.
\<close>

theorem required_empty_field_is_skipped_not_refused:
  "let a = attribute_definition f; code = ad_code a;
       value = request_form (''attr_'' @ code)
   in (field_required f \<and> empty_value value
         \<longrightarrow> process_field bi request_form attribute_values f = Inr attribute_values) \<and>
      (ffc_is_visible f \<and> field_required f \<and> value = Some v \<and> strip v \<noteq> [] \<and>
       convert_value bi (ad_data_type a) v = None
         \<longrightarrow> process_field bi request_form attribute_values f =
               Inl (ValueError (''Invalid value for '' @ ad_name a @ '': '' @ v))) \<and>
      (process_form_data bi form_fields request_form = Inl e
         \<longrightarrow> (\<exists>g \<in> set form_fields. \<exists>w.
                ffc_is_visible g \<and> field_required g \<and>
                request_form (''attr_'' @ ad_code (attribute_definition g)) = Some w \<and>
                strip w \<noteq> [] \<and>
                convert_value bi (ad_data_type (attribute_definition g)) w = None \<and>
                e = ValueError (''Invalid value for '' @ ad_name (attribute_definition g) @
                      '': '' @ w))) \<and>
      (f \<in> set form_fields \<and> ffc_is_visible f \<and> field_required f \<and> value = Some v \<and>
       strip v \<noteq> [] \<and> convert_value bi (ad_data_type a) v = None
         \<longrightarrow> (\<exists>e'. process_form_data bi form_fields request_form = Inl e')) \<and>
      (form_constraints db form_fields \<and> f \<in> set form_fields \<and> field_required f \<and>
       empty_value value \<and>
       entity_create bi db etid form_fields request_form u = (Inr inst, db')
         \<longrightarrow> entity_instances db' = entity_instances db @ [inst] \<and>
             get_attribute_value db' inst code = get_attribute_value db inst code \<and>
             (find_attribute db etid code = Some a \<longrightarrow>
                stored_rows db' (ad_id a) = stored_rows db (ad_id a))) \<and>
      (form_constraints db form_fields \<and> f \<in> set form_fields \<and> field_required f \<and>
       empty_value value \<and>
       entity_edit bi db iid form_fields request_form u = (Inr (Some inst), db')
         \<longrightarrow> get_attribute_value db' inst code = get_attribute_value db inst code \<and>
             (find_attribute db (ei_entity_type_id inst) code = Some a \<longrightarrow>
                stored_rows db' (ad_id a) = stored_rows db (ad_id a))) \<and>
      (fst (entity_create bi db etid form_fields request_form u) = Inl e
         \<longrightarrow> snd (entity_create bi db etid form_fields request_form u) = db) \<and>
      (fst (entity_edit bi db iid form_fields request_form u) = Inl e
         \<longrightarrow> snd (entity_edit bi db iid form_fields request_form u) = db) \<and>
      (distinct (map (\<lambda>g. ad_code (attribute_definition g)) form_fields) \<and>
       f \<in> set form_fields \<and> field_required f \<and> empty_value value \<and>
       process_form_data bi form_fields request_form = Inr submitted
         \<longrightarrow> map_of submitted code = None)"
  unfolding Let_def form_constraints_def
proof (intro conjI impI, goal_cases)
  case 1
  then show ?case by (elim conjE) (rule process_field_empty_required)
next
  case 2
  then show ?case by (simp add: process_field_error)
next
  case 3
  then show ?case by (rule process_form_data_error)
next
  case 4
  then show ?case by (elim conjE) (rule process_form_data_fails)
next
  case 5
  then show ?case by (elim conjE) (rule conjunct1 [OF empty_create_writes_nothing])
next
  case 6
  then show ?case
    by (elim conjE) (rule conjunct1 [OF conjunct2 [OF empty_create_writes_nothing]])
next
  case 7
  then show ?case
    by (elim conjE) (rule mp [OF conjunct2 [OF conjunct2 [OF empty_create_writes_nothing]]])
next
  case 8
  then show ?case by (elim conjE) (rule conjunct1 [OF required_empty_edit_writes_nothing])
next
  case 9
  then show ?case
    by (elim conjE) (rule mp [OF conjunct2 [OF required_empty_edit_writes_nothing]])
next
  case 10
  then show ?case by (rule entity_create_error_writes_nothing)
next
  case 11
  then show ?case by (rule entity_edit_error_writes_nothing)
next
  case 12
  then show ?case by (elim conjE) (rule process_form_data_empty_required)
qed

theorem required_empty_field_is_skipped_not_refused_witness:
  "field_required name_field \<and>
   process_field sample_builtins [''attr_CARGO_NAME'' \<mapsto> []] [] name_field = Inr [] \<and>
   process_form_data sample_builtins [name_field, hazardous_field]
     [''attr_CARGO_NAME'' \<mapsto> [], ''attr_HAZARDOUS'' \<mapsto> ''on''] =
     Inr [(''HAZARDOUS'', PBool True)] \<and>
   map_of [(''HAZARDOUS'', PBool True) :: string \<times> (int, string) pyval] ''CARGO_NAME'' = None \<and>
   process_field sample_builtins [''attr_QTY'' \<mapsto> ''abc''] [] quantity_field =
     Inl (ValueError ''Invalid value for Quantity: abc'') \<and>
   process_form_data sample_builtins [quantity_field] [''attr_QTY'' \<mapsto> ''abc''] =
     Inl (ValueError ''Invalid value for Quantity: abc'') \<and>
   (\<exists>g \<in> set [quantity_field]. \<exists>w.
      ffc_is_visible g \<and> field_required g \<and>
      [''attr_QTY'' \<mapsto> ''abc''] (''attr_'' @ ad_code (attribute_definition g)) = Some w \<and>
      strip w \<noteq> [] \<and>
      convert_value sample_builtins (ad_data_type (attribute_definition g)) w = None \<and>
      ValueError ''Invalid value for Quantity: abc'' =
        ValueError (''Invalid value for '' @ ad_name (attribute_definition g) @ '': '' @ w)) \<and>
   (\<exists>e'. process_form_data sample_builtins [name_field, quantity_field]
            [''attr_CARGO_NAME'' \<mapsto> ''Coal'', ''attr_QTY'' \<mapsto> ''abc''] = Inl e') \<and>
   fst (entity_create sample_builtins cargo_schema 1 [name_field, hazardous_field]
          [''attr_CARGO_NAME'' \<mapsto> [], ''attr_HAZARDOUS'' \<mapsto> ''on''] ''ann'') =
     Inr ((cargo_instance 1)\<lparr>ei_created_by := ''ann''\<rparr>) \<and>
   entity_instances
     (snd (entity_create sample_builtins cargo_schema 1 [name_field, hazardous_field]
             [''attr_CARGO_NAME'' \<mapsto> [], ''attr_HAZARDOUS'' \<mapsto> ''on''] ''ann'')) =
     [(cargo_instance 1)\<lparr>ei_created_by := ''ann''\<rparr>] \<and>
   get_attribute_value
     (snd (entity_create sample_builtins cargo_schema 1 [name_field, hazardous_field]
             [''attr_CARGO_NAME'' \<mapsto> [], ''attr_HAZARDOUS'' \<mapsto> ''on''] ''ann''))
     ((cargo_instance 1)\<lparr>ei_created_by := ''ann''\<rparr>) ''CARGO_NAME'' = PNone \<and>
   stored_rows
     (snd (entity_create sample_builtins cargo_schema 1 [name_field, hazardous_field]
             [''attr_CARGO_NAME'' \<mapsto> [], ''attr_HAZARDOUS'' \<mapsto> ''on''] ''ann'')) 1 =
     ([], [], [], []) \<and>
   fst (entity_edit sample_builtins cargo_db 1 [name_field, hazardous_field]
          [''attr_CARGO_NAME'' \<mapsto> [], ''attr_HAZARDOUS'' \<mapsto> ''on''] ''ann'') =
     Inr (Some ((cargo_instance 1)\<lparr>ei_updated_by := Some ''ann''\<rparr>)) \<and>
   get_attribute_value
     (snd (entity_edit sample_builtins cargo_db 1 [name_field, hazardous_field]
             [''attr_CARGO_NAME'' \<mapsto> [], ''attr_HAZARDOUS'' \<mapsto> ''on''] ''ann''))
     ((cargo_instance 1)\<lparr>ei_updated_by := Some ''ann''\<rparr>) ''CARGO_NAME'' = PStr ''Coal'' \<and>
   stored_rows
     (snd (entity_edit sample_builtins cargo_db 1 [name_field, hazardous_field]
             [''attr_CARGO_NAME'' \<mapsto> [], ''attr_HAZARDOUS'' \<mapsto> ''on''] ''ann'')) 1 =
     stored_rows cargo_db 1 \<and>
   fst (entity_create sample_builtins cargo_schema 1 [quantity_field]
          [''attr_QTY'' \<mapsto> ''abc''] ''ann'') =
     Inl (ValueError ''Invalid value for Quantity: abc'') \<and>
   snd (entity_create sample_builtins cargo_schema 1 [quantity_field]
          [''attr_QTY'' \<mapsto> ''abc''] ''ann'') = cargo_schema \<and>
   fst (entity_edit sample_builtins cargo_db 1 [quantity_field]
          [''attr_QTY'' \<mapsto> ''abc''] ''ann'') =
     Inl (ValueError ''Invalid value for Quantity: abc'') \<and>
   snd (entity_edit sample_builtins cargo_db 1 [quantity_field]
          [''attr_QTY'' \<mapsto> ''abc''] ''ann'') = cargo_db \<and>
   fst (entity_create sample_builtins arrival_schema 1 [arrival_field]
          [''attr_ARRIVAL'' \<mapsto> ''2024-05-01''] ''ann'') = Inl (StatementError []) \<and>
   snd (entity_create sample_builtins arrival_schema 1 [arrival_field]
          [''attr_ARRIVAL'' \<mapsto> ''2024-05-01''] ''ann'') = arrival_schema"
proof -
  let ?form = "[name_field, hazardous_field]"
  let ?date = "[''attr_ARRIVAL'' \<mapsto> ''2024-05-01'']"
  let ?empty = "[''attr_CARGO_NAME'' \<mapsto> [], ''attr_HAZARDOUS'' \<mapsto> ''on'']"
  let ?abc = "[''attr_QTY'' \<mapsto> ''abc'']"
  let ?coal_abc = "[''attr_CARGO_NAME'' \<mapsto> ''Coal'', ''attr_QTY'' \<mapsto> ''abc'']"
  let ?new = "(cargo_instance 1)\<lparr>ei_created_by := ''ann''\<rparr>"
  let ?old = "(cargo_instance 1)\<lparr>ei_updated_by := Some ''ann''\<rparr>"
  let ?err = "ValueError ''Invalid value for Quantity: abc''"
  note fields = cargo_defs name_field_def hazardous_field_def quantity_def quantity_field_def
  note form = process_form_data_def process_field_def field_required_def convert_value_def
    strip_def py_isspace_def lower_def lower_char_def
  note store = create_entity_instance_with_attributes_def
    update_entity_instance_attributes_def next_instance_id_def or_system_def
    set_attribute_value_def find_attribute_def coerced_def write_value_def first_value_def
    is_value_of_def Let_def
  have q: "field_required name_field"
    by (simp add: field_required_def fields)
  have p1: "process_form_data sample_builtins ?form ?empty = Inr [(''HAZARDOUS'', PBool True)]"
    by (simp add: form fields)
  have p2: "process_form_data sample_builtins [quantity_field] ?abc = Inl ?err"
    by (simp add: form fields)
  have c1: "fst (entity_create sample_builtins cargo_schema 1 ?form ?empty ''ann'') = Inr ?new"
    unfolding entity_create_def p1 by (simp add: store fields)
  have c2: "fst (entity_edit sample_builtins cargo_db 1 ?form ?empty ''ann'') = Inr (Some ?old)"
    unfolding entity_edit_def p1 by (simp add: store fields)
  have c3: "fst (entity_create sample_builtins cargo_schema 1 [quantity_field] ?abc ''ann'') =
              Inl ?err"
    by (simp add: entity_create_def p2)
  have c4: "fst (entity_edit sample_builtins cargo_db 1 [quantity_field] ?abc ''ann'') = Inl ?err"
    by (simp add: entity_edit_def p2)
  have p3: "process_form_data sample_builtins [arrival_field] ?date =
              Inr [(''ARRIVAL'', PStr ''2024-05-01'')]"
    by (simp add: form fields arrival_def arrival_field_def)
  have c5: "fst (entity_create sample_builtins arrival_schema 1 [arrival_field] ?date ''ann'') =
              Inl (StatementError [])"
    unfolding entity_create_def p3
    by (simp add: store fields arrival_def arrival_field_def arrival_schema_def)
  have e1: "entity_create sample_builtins cargo_schema 1 ?form ?empty ''ann'' =
              (Inr ?new, snd (entity_create sample_builtins cargo_schema 1 ?form ?empty ''ann''))"
    using c1 by (simp add: prod_eq_iff)
  have e2: "entity_edit sample_builtins cargo_db 1 ?form ?empty ''ann'' =
              (Inr (Some ?old), snd (entity_edit sample_builtins cargo_db 1 ?form ?empty ''ann''))"
    using c2 by (simp add: prod_eq_iff)
  note T1 = required_empty_field_is_skipped_not_refused
    [where f = name_field and request_form = "[''attr_CARGO_NAME'' \<mapsto> []]"
      and bi = sample_builtins and attribute_values = "[]", unfolded Let_def]
  note T2 = required_empty_field_is_skipped_not_refused
    [where f = quantity_field and request_form = ?abc and bi = sample_builtins
      and attribute_values = "[]" and v = "''abc''" and form_fields = "[quantity_field]"
      and e = ?err and db = cargo_schema and etid = 1 and u = "''ann''", unfolded Let_def]
  note T3 = required_empty_field_is_skipped_not_refused
    [where f = quantity_field and request_form = ?coal_abc and bi = sample_builtins
      and v = "''abc''" and form_fields = "[name_field, quantity_field]", unfolded Let_def]
  note T4 = required_empty_field_is_skipped_not_refused
    [where f = name_field and request_form = ?empty and bi = sample_builtins
      and form_fields = ?form and db = cargo_schema and etid = 1 and u = "''ann''"
      and inst = ?new
      and db' = "snd (entity_create sample_builtins cargo_schema 1 ?form ?empty ''ann'')"
      and submitted = "[(''HAZARDOUS'', PBool True)]",
      unfolded Let_def]
  note T5 = required_empty_field_is_skipped_not_refused
    [where f = name_field and request_form = ?empty and bi = sample_builtins
      and form_fields = ?form and db = cargo_db and iid = 1 and u = "''ann''"
      and inst = ?old
      and db' = "snd (entity_edit sample_builtins cargo_db 1 ?form ?empty ''ann'')",
      unfolded Let_def]
  note T6 = required_empty_field_is_skipped_not_refused
    [where f = quantity_field and request_form = ?abc and bi = sample_builtins
      and form_fields = "[quantity_field]" and e = ?err and db = cargo_db and iid = 1
      and u = "''ann''", unfolded Let_def]
  note T7 = required_empty_field_is_skipped_not_refused
    [where f = arrival_field and request_form = ?date and bi = sample_builtins
      and form_fields = "[arrival_field]" and e = "StatementError []" and db = arrival_schema
      and etid = 1 and u = "''ann''", unfolded Let_def]
  have t1: "process_field sample_builtins [''attr_CARGO_NAME'' \<mapsto> []] [] name_field = Inr []"
    by (rule mp [OF conjunct1 [OF T1]]) (intro conjI q, simp add: empty_value_def fields)
  have t2: "process_field sample_builtins ?abc [] quantity_field =
              Inl (ValueError (''Invalid value for '' @
                     ad_name (attribute_definition quantity_field) @ '': '' @ ''abc''))"
    by (rule mp [OF conjunct1 [OF conjunct2 [OF T2]]])
       (simp add: field_required_def convert_value_def strip_def py_isspace_def fields)
  have t3: "\<exists>g \<in> set [quantity_field]. \<exists>w.
      ffc_is_visible g \<and> field_required g \<and>
      ?abc (''attr_'' @ ad_code (attribute_definition g)) = Some w \<and>
      strip w \<noteq> [] \<and>
      convert_value sample_builtins (ad_data_type (attribute_definition g)) w = None \<and>
      ?err = ValueError (''Invalid value for '' @ ad_name (attribute_definition g) @ '': '' @ w)"
    by (rule mp [OF conjunct1 [OF conjunct2 [OF conjunct2 [OF T2]]] p2])
  have t4: "\<exists>e'. process_form_data sample_builtins [name_field, quantity_field] ?coal_abc = Inl e'"
    by (rule mp [OF conjunct1 [OF conjunct2 [OF conjunct2 [OF conjunct2 [OF T3]]]]])
       (simp add: field_required_def convert_value_def strip_def py_isspace_def fields)
  have t5: "entity_instances
              (snd (entity_create sample_builtins cargo_schema 1 ?form ?empty ''ann'')) =
              entity_instances cargo_schema @ [?new] \<and>
            get_attribute_value
              (snd (entity_create sample_builtins cargo_schema 1 ?form ?empty ''ann'')) ?new
              (ad_code (attribute_definition name_field)) =
              get_attribute_value cargo_schema ?new (ad_code (attribute_definition name_field)) \<and>
            (find_attribute cargo_schema 1 (ad_code (attribute_definition name_field)) =
               Some (attribute_definition name_field) \<longrightarrow>
             stored_rows (snd (entity_create sample_builtins cargo_schema 1 ?form ?empty ''ann''))
               (ad_id (attribute_definition name_field)) =
             stored_rows cargo_schema (ad_id (attribute_definition name_field)))"
    by (rule mp [OF conjunct1 [OF conjunct2 [OF conjunct2 [OF conjunct2 [OF conjunct2 [OF T4]]]]]])
       (intro conjI e1 q, simp_all add: form_constraints_def empty_value_def fields)
  have t6: "get_attribute_value
              (snd (entity_edit sample_builtins cargo_db 1 ?form ?empty ''ann'')) ?old
              (ad_code (attribute_definition name_field)) =
              get_attribute_value cargo_db ?old (ad_code (attribute_definition name_field)) \<and>
            (find_attribute cargo_db (ei_entity_type_id ?old)
               (ad_code (attribute_definition name_field)) =
               Some (attribute_definition name_field) \<longrightarrow>
             stored_rows (snd (entity_edit sample_builtins cargo_db 1 ?form ?empty ''ann''))
               (ad_id (attribute_definition name_field)) =
             stored_rows cargo_db (ad_id (attribute_definition name_field)))"
    by (rule mp [OF conjunct1 [OF conjunct2 [OF conjunct2 [OF conjunct2 [OF conjunct2
          [OF conjunct2 [OF T5]]]]]]])
       (intro conjI e2 q, simp_all add: form_constraints_def empty_value_def fields)
  have t7: "snd (entity_create sample_builtins cargo_schema 1 [quantity_field] ?abc ''ann'') =
              cargo_schema"
    by (rule mp [OF conjunct1 [OF conjunct2 [OF conjunct2 [OF conjunct2 [OF conjunct2
          [OF conjunct2 [OF conjunct2 [OF T2]]]]]]] c3])
  have t8: "snd (entity_edit sample_builtins cargo_db 1 [quantity_field] ?abc ''ann'') = cargo_db"
    by (rule mp [OF conjunct1 [OF conjunct2 [OF conjunct2 [OF conjunct2 [OF conjunct2
          [OF conjunct2 [OF conjunct2 [OF conjunct2 [OF T6]]]]]]]] c4])
  have t10: "map_of [(''HAZARDOUS'', PBool True) :: string \<times> (int, string) pyval]
               (ad_code (attribute_definition name_field)) = None"
    by (rule mp [OF conjunct2 [OF conjunct2 [OF conjunct2 [OF conjunct2 [OF conjunct2
          [OF conjunct2 [OF conjunct2 [OF conjunct2 [OF T4]]]]]]]]])
       (intro conjI q p1, simp_all add: empty_value_def fields)
  have t9: "snd (entity_create sample_builtins arrival_schema 1 [arrival_field] ?date ''ann'') =
              arrival_schema"
    by (rule mp [OF conjunct1 [OF conjunct2 [OF conjunct2 [OF conjunct2 [OF conjunct2
          [OF conjunct2 [OF conjunct2 [OF T7]]]]]]] c5])
  have r: "find_attribute cargo_schema 1 ''CARGO_NAME'' = Some cargo_name"
    "find_attribute cargo_db 1 ''CARGO_NAME'' = Some cargo_name"
    "stored_rows cargo_schema 1 = ([], [], [], [])"
    "get_attribute_value cargo_schema ?new ''CARGO_NAME'' = PNone"
    "get_attribute_value cargo_db ?old ''CARGO_NAME'' = PStr ''Coal''"
    "attribute_definition name_field = cargo_name"
    "ad_code cargo_name = ''CARGO_NAME''" "ad_id cargo_name = 1"
    "ad_name (attribute_definition quantity_field) = ''Quantity''"
    "ei_entity_type_id ?old = 1" "entity_instances cargo_schema = []"
    by (simp_all add: stored_rows_def attribute_rows_def get_attribute_value_def
        find_attribute_def first_value_def is_value_of_def fields)
  have t2': "process_field sample_builtins ?abc [] quantity_field = Inl ?err"
    using t2 by (simp add: r)
  have t10': "map_of [(''HAZARDOUS'', PBool True) :: string \<times> (int, string) pyval]
                ''CARGO_NAME'' = None"
    using t10 by (simp only: r)
  have t5': "entity_instances
              (snd (entity_create sample_builtins cargo_schema 1 ?form ?empty ''ann'')) = [?new]"
    "get_attribute_value
       (snd (entity_create sample_builtins cargo_schema 1 ?form ?empty ''ann'')) ?new
       ''CARGO_NAME'' = PNone"
    "stored_rows (snd (entity_create sample_builtins cargo_schema 1 ?form ?empty ''ann'')) 1 =
       ([], [], [], [])"
    using t5 by (simp_all add: r)
  have t6': "get_attribute_value
       (snd (entity_edit sample_builtins cargo_db 1 ?form ?empty ''ann'')) ?old
       ''CARGO_NAME'' = PStr ''Coal''"
    "stored_rows (snd (entity_edit sample_builtins cargo_db 1 ?form ?empty ''ann'')) 1 =
       stored_rows cargo_db 1"
    using t6 by (simp_all add: r)
  show ?thesis
    by (intro conjI q t1 p1 t10' t2' p2 t3 t4 c1 t5' t6' c2 c3 t7 c4 t8 c5 t9)
qed

end
